theory Spec2Isabelle
  imports Main "HOL-Library.Word"
begin

section \<open>Solidity value types\<close>

text \<open>
  The contract \<open>CrossDexArbitrageWithFlashLoan\<close> is compiled with Solidity 0.8.26: every
  arithmetic operation outside an \<open>unchecked\<close> block reverts with \<open>Panic(0x11)\<close> on
  overflow.  Unsigned and signed 256-bit values are both 256-bit words; the signed reading is
  \<open>sint\<close>, the unsigned one \<open>unat\<close>/\<open>uint\<close>.  A Solidity mapping is a total function whose
  value at a key never written is the all-zero value of its type.
\<close>

type_synonym uint256 = "256 word"
type_synonym int256 = "256 word"
type_synonym uint8 = "8 word"
type_synonym address = "160 word"
type_synonym bytes32 = "256 word"
type_synonym bytes4 = "32 word"
type_synonym bytes = "8 word list"

definition MAX_BPS :: uint256 where
  "MAX_BPS = 10000"

definition MAX_GAS_FOR_CALL :: uint256 where
  "MAX_GAS_FOR_CALL = 3000000"

definition MAX_INT256 :: int256 where
  "MAX_INT256 = 2 ^ 255 - 1"

definition MIN_INT256 :: int256 where
  "MIN_INT256 = 2 ^ 255"

text \<open>Signed comparisons of \<open>int256\<close> values.\<close>

definition slt :: "int256 \<Rightarrow> int256 \<Rightarrow> bool" where
  "slt a b = (sint a < sint b)"

definition sle :: "int256 \<Rightarrow> int256 \<Rightarrow> bool" where
  "sle a b = (sint a \<le> sint b)"

section \<open>Errors\<close>

text \<open>
  The custom errors declared at the top of the contract file, followed by the three standard
  shapes of revert data: \<open>Error(string)\<close> (a \<open>require\<close> or \<open>revert\<close> with a reason),
  \<open>Panic(uint256)\<close> (checked arithmetic, array bounds), and raw bytes bubbled up from a
  foreign contract.
\<close>

datatype error =
    InvalidSetup uint8
  | TradeErrors uint8 string
  | FlashLoanErrors uint8
  | InvalidTokens
  | ZeroAmount
  | InvalidVaultAddress
  | DisabledToken
  | UnauthorizedCaller
  | InvalidExecutionId
  | FirstSwapFailed string
  | NoIntermediateTokens
  | SecondSwapFailed string
  | InsufficientProfit
  | InsufficientRepayment
  | TestModeShortfall
  | NegativeValueConversion
  | SafeCastFailure
  | ErrorString string
  | Panic uint256
  | RawRevert bytes

section \<open>Events\<close>

datatype event =
    DexConfigured string address uint256 uint256
  | PoolConfigured address uint256 uint256 address
  | TokenConfigured address uint256 uint256 uint8
  | ApprovalUpdated address address uint256
  | ArbitrageExecuted address address uint256 uint256 int256 int256 int256 bool
  | StateLog bytes32 string string
  | SwapEvent bytes32 uint8 string address uint256 uint256
  | FlashLoanEvent bytes32 uint8 address uint256 int256
  | Paused address
  | Unpaused address
  | OwnershipTransferred address address

text \<open>
  A call either reverts or returns.  A revert rolls the whole call back, so it carries no
  state; it carries the error and, for the ordering properties, the events that had been
  emitted up to the revert (the chain discards them with the rest of the call).
\<close>

type_synonym 'a result = "(error \<times> event list) + 'a"

definition revert :: "error \<Rightarrow> event list \<Rightarrow> 'a result" where
  "revert e evs = Inl (e, evs)"

definition reverted_with :: "'a result \<Rightarrow> error option" where
  "reverted_with r = (case r of Inl (e, evs) \<Rightarrow> Some e | Inr x \<Rightarrow> None)"

definition events_before_revert :: "'a result \<Rightarrow> event list" where
  "events_before_revert r = (case r of Inl (e, evs) \<Rightarrow> evs | Inr x \<Rightarrow> [])"

section \<open>Checked arithmetic\<close>

definition checked_add :: "uint256 \<Rightarrow> uint256 \<Rightarrow> error + uint256" where
  "checked_add a b = (if unat a + unat b < 2 ^ 256 then Inr (a + b) else Inl (Panic 0x11))"

definition checked_mul :: "uint256 \<Rightarrow> uint256 \<Rightarrow> error + uint256" where
  "checked_mul a b = (if unat a * unat b < 2 ^ 256 then Inr (a * b) else Inl (Panic 0x11))"

definition checked_div :: "uint256 \<Rightarrow> uint256 \<Rightarrow> error + uint256" where
  "checked_div a b = (if b = 0 then Inl (Panic 0x12) else Inr (a div b))"

definition in_int256 :: "int \<Rightarrow> bool" where
  "in_int256 i = (- (2 ^ 255) \<le> i \<and> i \<le> 2 ^ 255 - 1)"

definition checked_sadd :: "int256 \<Rightarrow> int256 \<Rightarrow> error + int256" where
  "checked_sadd a b = (if in_int256 (sint a + sint b) then Inr (a + b) else Inl (Panic 0x11))"

definition checked_ssub :: "int256 \<Rightarrow> int256 \<Rightarrow> error + int256" where
  "checked_ssub a b = (if in_int256 (sint a - sint b) then Inr (a - b) else Inl (Panic 0x11))"

definition checked_sneg :: "int256 \<Rightarrow> error + int256" where
  "checked_sneg a = (if in_int256 (- sint a) then Inr (- a) else Inl (Panic 0x11))"

section \<open>Conversions\<close>

definition safeToUint256 :: "int256 \<Rightarrow> error + uint256" where
  "safeToUint256 v = (if slt v 0 then Inl NegativeValueConversion else Inr v)"

definition safeToInt256 :: "uint256 \<Rightarrow> int256" where
  "safeToInt256 v = (if v > MAX_INT256 then MAX_INT256 else v)"

section \<open>String helpers\<close>

text \<open>
  \<open>uint2str\<close>: decimal digits, least significant first into the end of the buffer.  The
  source counts the digits first and then fills the buffer backwards; the model conses each
  digit in front of the digits already produced.
\<close>

function uint2str_loop :: "uint256 \<Rightarrow> string \<Rightarrow> string" where
  "uint2str_loop i buffer =
     (if i = 0 then buffer
      else uint2str_loop (i div 10) (char_of (unat (48 + i mod 10)) # buffer))"
  by pat_completeness auto
termination
proof (relation "measure (\<lambda>(i, buffer). unat i)")
  show "wf (measure (\<lambda>(i, buffer). unat i))"
    by simp
next
  fix i :: uint256 and buffer :: string
  assume nz: "i \<noteq> 0"
  have "0 < unat i"
    using nz by (simp add: unat_gt_0)
  then have "unat i div 10 < unat i"
    by simp
  then show "((i div 10, char_of (unat (48 + i mod 10)) # buffer), (i, buffer))
      \<in> measure (\<lambda>(i, buffer). unat i)"
    by (simp add: unat_div)
qed

declare uint2str_loop.simps [simp del]

definition uint2str :: "uint256 \<Rightarrow> string" where
  "uint2str i = (if i = 0 then ''0'' else uint2str_loop i [])"

definition int2str :: "int256 \<Rightarrow> string" where
  "int2str v =
     (if v = 0 then ''0''
      else if v = MIN_INT256 then
        ''-57896044618658097711785492504343953926634992332820282019728792003956564819968''
      else if slt v 0 then ''-'' @ uint2str (- v)
      else uint2str v)"

text \<open>
  \<open>toHexChar\<close> is only called with a nibble, a value below 16, where its checked additions
  on \<open>uint8\<close> cannot overflow.
\<close>

definition toHexChar :: "uint8 \<Rightarrow> char" where
  "toHexChar nibble =
     (if nibble < 10 then char_of (unat (48 + nibble))
      else char_of (unat (97 + nibble - 10)))"

text \<open>Big-endian bytes of a word, most significant first (\<open>abi.encodePacked\<close>).\<close>

definition be_bytes :: "nat \<Rightarrow> 'a::len word \<Rightarrow> bytes" where
  "be_bytes n w = map (\<lambda>k. ucast (drop_bit (8 * k) w)) (rev [0..<n])"

definition hexOfBytes :: "bytes \<Rightarrow> string" where
  "hexOfBytes bs = concat (map (\<lambda>b. [toHexChar (b div 16), toHexChar (b mod 16)]) bs)"

definition bytes4ToString :: "bytes4 \<Rightarrow> string" where
  "bytes4ToString b = ''0x'' @ hexOfBytes (be_bytes 4 b)"

definition addressToString :: "address \<Rightarrow> string" where
  "addressToString a = ''0x'' @ hexOfBytes (be_bytes 20 a)"

definition string_of_bytes :: "bytes \<Rightarrow> string" where
  "string_of_bytes bs = map (\<lambda>b. char_of (unat b)) bs"

definition bytes_of_string :: "string \<Rightarrow> bytes" where
  "bytes_of_string cs = map (\<lambda>c. of_nat (of_char c)) cs"

definition boolStr :: "bool \<Rightarrow> string" where
  "boolStr b = (if b then ''true'' else ''false'')"

text \<open>
  \<open>_compareStrings\<close> compares the keccak256 hashes of the two strings; the hash is taken
  as injective, so the comparison is equality of the strings.
\<close>

definition compareStrings :: "string \<Rightarrow> string \<Rightarrow> bool" where
  "compareStrings a b = (a = b)"

section \<open>Data model\<close>

text \<open>
  Record fields share one name space in Isabelle, so the fields of each Solidity struct
  carry the struct's name as a prefix (\<open>DexConfig.router\<close> is \<open>dex_router\<close>).
\<close>

record DexConfig =
  dex_router :: address
  dex_isEnabled :: bool
  dex_defaultFee :: uint256
  dex_maxGasUsage :: uint256
  dex_supportedPools :: "address \<Rightarrow> bool"
  dex_supportedFees :: "uint256 \<Rightarrow> bool"

record ArbitrageParams =
  p_sourceToken :: address
  p_targetToken :: address
  p_amount :: uint256
  p_firstSwapData :: bytes
  p_secondSwapData :: bytes
  p_firstRouter :: address
  p_secondRouter :: address
  p_testMode :: bool
  p_expectedFirstOutput :: int256
  p_expectedSecondOutput :: int256
  p_executionId :: bytes32

record PoolConfig =
  pool_isEnabled :: bool
  pool_fee :: uint256
  pool_minLiquidity :: uint256
  pool_dexRouter :: address

record TokenConfig =
  token_isEnabled :: bool
  token_maxAmount :: uint256
  token_minAmount :: uint256
  token_decimals :: uint8

record TradeContext =
  tc_sourceTokenStartBalance :: uint256
  tc_targetTokenStartBalance :: uint256
  tc_tradeInputAmount :: uint256
  tc_intermediateTokenAmount :: uint256
  tc_tradeFinalBalance :: int256
  tc_expectedFirstLegOutput :: int256
  tc_actualFirstLegOutput :: uint256
  tc_expectedSecondOutput :: int256
  tc_actualSecondOutput :: int256
  tc_executed :: bool

record FlashLoanContext =
  ctx_sourceToken :: address
  ctx_targetToken :: address
  ctx_amount :: uint256
  ctx_firstSwapData :: bytes
  ctx_secondSwapData :: bytes
  ctx_firstRouter :: address
  ctx_secondRouter :: address
  ctx_testMode :: bool
  ctx_expectedFirstOutput :: int256
  ctx_expectedSecondOutput :: int256
  ctx_executionId :: bytes32

record Metrics =
  totalExecutions :: uint256
  successfulExecutions :: uint256
  failedExecutions :: uint256
  totalProfit :: uint256
  flashLoanExecutions :: uint256
  flashLoanSuccessful :: uint256
  flashLoanFailed :: uint256
  flashLoanProfit :: uint256

text \<open>
  The contract's storage.  \<open>owner\<close> is the slot of \<open>Ownable\<close>, \<open>paused\<close> the one of
  \<open>Pausable\<close>, \<open>entered\<close> the status of \<open>ReentrancyGuard\<close> (true while a
  \<open>nonReentrant\<close> function runs).  \<open>balancerVault\<close> is immutable.
\<close>

record contract_state =
  owner :: address
  paused :: bool
  entered :: bool
  balancerVault :: address
  uniswapRouterAddress :: address
  traderJoeRouterAddress :: address
  dexConfigs :: "string \<Rightarrow> DexConfig"
  poolConfigs :: "address \<Rightarrow> PoolConfig"
  tokenConfigs :: "address \<Rightarrow> TokenConfig"
  executedTrades :: "bytes32 \<Rightarrow> bool"
  tradeContexts :: "bytes32 \<Rightarrow> TradeContext"
  flashLoanContexts :: "bytes32 \<Rightarrow> FlashLoanContext"
  metrics :: Metrics

text \<open>The all-zero values a mapping holds at a key that was never written.\<close>

definition zero_DexConfig :: DexConfig where
  "zero_DexConfig =
     \<lparr>dex_router = 0, dex_isEnabled = False, dex_defaultFee = 0, dex_maxGasUsage = 0,
      dex_supportedPools = (\<lambda>p. False), dex_supportedFees = (\<lambda>f. False)\<rparr>"

definition zero_PoolConfig :: PoolConfig where
  "zero_PoolConfig =
     \<lparr>pool_isEnabled = False, pool_fee = 0, pool_minLiquidity = 0, pool_dexRouter = 0\<rparr>"

definition zero_TokenConfig :: TokenConfig where
  "zero_TokenConfig =
     \<lparr>token_isEnabled = False, token_maxAmount = 0, token_minAmount = 0, token_decimals = 0\<rparr>"

definition zero_TradeContext :: TradeContext where
  "zero_TradeContext =
     \<lparr>tc_sourceTokenStartBalance = 0, tc_targetTokenStartBalance = 0,
      tc_tradeInputAmount = 0, tc_intermediateTokenAmount = 0, tc_tradeFinalBalance = 0,
      tc_expectedFirstLegOutput = 0, tc_actualFirstLegOutput = 0,
      tc_expectedSecondOutput = 0, tc_actualSecondOutput = 0, tc_executed = False\<rparr>"

definition zero_FlashLoanContext :: FlashLoanContext where
  "zero_FlashLoanContext =
     \<lparr>ctx_sourceToken = 0, ctx_targetToken = 0, ctx_amount = 0, ctx_firstSwapData = [],
      ctx_secondSwapData = [], ctx_firstRouter = 0, ctx_secondRouter = 0,
      ctx_testMode = False, ctx_expectedFirstOutput = 0, ctx_expectedSecondOutput = 0,
      ctx_executionId = 0\<rparr>"

definition zero_Metrics :: Metrics where
  "zero_Metrics =
     \<lparr>totalExecutions = 0, successfulExecutions = 0, failedExecutions = 0, totalProfit = 0,
      flashLoanExecutions = 0, flashLoanSuccessful = 0, flashLoanFailed = 0,
      flashLoanProfit = 0\<rparr>"

text \<open>
  The constructor: \<open>Ownable\<close> makes the deployer the owner, the vault address must not be
  zero, everything else starts at zero.
\<close>

definition initial_storage :: "address \<Rightarrow> address \<Rightarrow> contract_state" where
  "initial_storage deployer vaultAddress =
     \<lparr>owner = deployer, paused = False, entered = False,
      balancerVault = vaultAddress, uniswapRouterAddress = 0,
      traderJoeRouterAddress = 0, dexConfigs = (\<lambda>n. zero_DexConfig),
      poolConfigs = (\<lambda>p. zero_PoolConfig), tokenConfigs = (\<lambda>t. zero_TokenConfig),
      executedTrades = (\<lambda>i. False), tradeContexts = (\<lambda>i. zero_TradeContext),
      flashLoanContexts = (\<lambda>i. zero_FlashLoanContext), metrics = zero_Metrics\<rparr>"

definition constructor :: "address \<Rightarrow> address \<Rightarrow> contract_state result" where
  "constructor deployer vaultAddress =
     (if vaultAddress = 0 then revert InvalidVaultAddress []
      else Inr (initial_storage deployer vaultAddress))"

section \<open>Configuration registry\<close>

text \<open>
  Modelled from the spec: the \<open>onlyOwner\<close> modifier comes from the imported \<open>Ownable\<close>
  contract, which is not part of the repository.  Administrative operations are
  administrator-only (single owner): a call from any other sender fails before any effect.
\<close>

definition notOwnerError :: error where
  "notOwnerError = ErrorString ''Ownable: caller is not the owner''"

text \<open>
  The loop of \<open>configureDex\<close> over \<open>supportedFeeTiers\<close>: each tier is checked against
  \<open>MAX_BPS\<close> and then recorded; the first tier at or above \<open>MAX_BPS\<close> reverts.
\<close>

fun storeFeeTiers :: "uint256 list \<Rightarrow> (uint256 \<Rightarrow> bool) \<Rightarrow> error + (uint256 \<Rightarrow> bool)" where
  "storeFeeTiers [] fees = Inr fees"
| "storeFeeTiers (t # ts) fees =
     (if t \<ge> MAX_BPS then Inl (InvalidSetup 3) else storeFeeTiers ts (fees(t := True)))"

definition configureDex ::
  "address \<Rightarrow> string \<Rightarrow> address \<Rightarrow> uint256 \<Rightarrow> uint256 \<Rightarrow> uint256 list \<Rightarrow> contract_state
    \<Rightarrow> (contract_state \<times> event list) result" where
  "configureDex sender dexName router defaultFee maxGasUsage supportedFeeTiers s =
     (if sender \<noteq> owner s then revert notOwnerError []
      else if router = 0 \<or> dexName = [] then revert (InvalidSetup 2) []
      else
        let config = (dexConfigs s dexName)
              \<lparr>dex_router := router, dex_isEnabled := True,
               dex_defaultFee := defaultFee, dex_maxGasUsage := maxGasUsage\<rparr>;
            s1 = (if compareStrings dexName ''uniswap'' then s\<lparr>uniswapRouterAddress := router\<rparr>
                  else if compareStrings dexName ''traderjoe''
                    then s\<lparr>traderJoeRouterAddress := router\<rparr>
                  else s)
        in case storeFeeTiers supportedFeeTiers (dex_supportedFees config) of
             Inl e \<Rightarrow> revert e []
           | Inr fees \<Rightarrow>
               Inr (s1\<lparr>dexConfigs := (dexConfigs s1)(dexName := config\<lparr>dex_supportedFees := fees\<rparr>)\<rparr>,
                    [DexConfigured dexName router defaultFee maxGasUsage]))"

definition configurePool ::
  "address \<Rightarrow> address \<Rightarrow> uint256 \<Rightarrow> uint256 \<Rightarrow> string \<Rightarrow> contract_state
    \<Rightarrow> (contract_state \<times> event list) result" where
  "configurePool sender pool fee minLiquidity dexName s =
     (if sender \<noteq> owner s then revert notOwnerError []
      else if pool = 0 then revert (InvalidSetup 4) []
      else if \<not> dex_isEnabled (dexConfigs s dexName) then revert (InvalidSetup 5) []
      else if fee \<ge> MAX_BPS then revert (InvalidSetup 3) []
      else if dex_router (dexConfigs s dexName) = 0 then revert (InvalidSetup 6) []
      else
        let dex = dexConfigs s dexName;
            s1 = s\<lparr>poolConfigs := (poolConfigs s)(pool :=
                    \<lparr>pool_isEnabled = True, pool_fee = fee, pool_minLiquidity = minLiquidity,
                     pool_dexRouter = dex_router dex\<rparr>)\<rparr>;
            s2 = s1\<lparr>dexConfigs := (dexConfigs s1)(dexName :=
                    dex\<lparr>dex_supportedPools := (dex_supportedPools dex)(pool := True)\<rparr>)\<rparr>
        in Inr (s2, [PoolConfigured pool fee minLiquidity (dex_router dex)]))"

definition configureToken ::
  "address \<Rightarrow> address \<Rightarrow> uint256 \<Rightarrow> uint256 \<Rightarrow> uint8 \<Rightarrow> contract_state
    \<Rightarrow> (contract_state \<times> event list) result" where
  "configureToken sender token maxAmount minAmount decimals s =
     (if sender \<noteq> owner s then revert notOwnerError []
      else if token = 0 then revert (InvalidSetup 7) []
      else if maxAmount \<le> minAmount then revert (InvalidSetup 8) []
      else if decimals > 18 then revert (InvalidSetup 9) []
      else Inr (s\<lparr>tokenConfigs := (tokenConfigs s)(token :=
                    \<lparr>token_isEnabled = True, token_maxAmount = maxAmount,
                     token_minAmount = minAmount, token_decimals = decimals\<rparr>)\<rparr>,
                [TokenConfigured token maxAmount minAmount decimals]))"

definition setTokenEnabled ::
  "address \<Rightarrow> address \<Rightarrow> bool \<Rightarrow> contract_state \<Rightarrow> (contract_state \<times> event list) result" where
  "setTokenEnabled sender token isEnabled s =
     (if sender \<noteq> owner s then revert notOwnerError []
      else if token = 0 then revert (InvalidSetup 7) []
      else if token_decimals (tokenConfigs s token) = 0 then revert (InvalidSetup 7) []
      else Inr (s\<lparr>tokenConfigs := (tokenConfigs s)(token :=
                    (tokenConfigs s token)\<lparr>token_isEnabled := isEnabled\<rparr>)\<rparr>, []))"

definition setDexEnabled ::
  "address \<Rightarrow> string \<Rightarrow> bool \<Rightarrow> contract_state \<Rightarrow> (contract_state \<times> event list) result" where
  "setDexEnabled sender dexName isEnabled s =
     (if sender \<noteq> owner s then revert notOwnerError []
      else if dex_router (dexConfigs s dexName) = 0 then revert (InvalidSetup 2) []
      else Inr (s\<lparr>dexConfigs := (dexConfigs s)(dexName :=
                    (dexConfigs s dexName)\<lparr>dex_isEnabled := isEnabled\<rparr>)\<rparr>, []))"

definition setRouterAddresses ::
  "address \<Rightarrow> address \<Rightarrow> address \<Rightarrow> contract_state \<Rightarrow> (contract_state \<times> event list) result" where
  "setRouterAddresses sender uni joe s =
     (if sender \<noteq> owner s then revert notOwnerError []
      else Inr (s\<lparr>uniswapRouterAddress := uni, traderJoeRouterAddress := joe\<rparr>, []))"

section \<open>Read-only views\<close>

definition getDexConfig :: "contract_state \<Rightarrow> string \<Rightarrow> address \<times> uint256 \<times> uint256 \<times> bool" where
  "getDexConfig s dexName =
     (let config = dexConfigs s dexName
      in (dex_router config, dex_defaultFee config, dex_maxGasUsage config, dex_isEnabled config))"

definition getPoolConfig :: "contract_state \<Rightarrow> address \<Rightarrow> bool \<times> uint256 \<times> uint256 \<times> address" where
  "getPoolConfig s pool =
     (let config = poolConfigs s pool
      in (pool_isEnabled config, pool_fee config, pool_minLiquidity config, pool_dexRouter config))"

definition getTokenConfig :: "contract_state \<Rightarrow> address \<Rightarrow> bool \<times> uint256 \<times> uint256 \<times> uint8" where
  "getTokenConfig s token =
     (let config = tokenConfigs s token
      in (token_isEnabled config, token_maxAmount config, token_minAmount config,
          token_decimals config))"

definition isDexFeeTierSupported :: "contract_state \<Rightarrow> string \<Rightarrow> uint256 \<Rightarrow> bool" where
  "isDexFeeTierSupported s dexName feeTier = dex_supportedFees (dexConfigs s dexName) feeTier"

definition getTradeContext ::
  "contract_state \<Rightarrow> bytes32 \<Rightarrow> uint256 \<times> int256 \<times> int256 \<times> uint256 \<times> int256 \<times> int256 \<times> bool" where
  "getTradeContext s executionId =
     (let context = tradeContexts s executionId
      in (tc_tradeInputAmount context, tc_tradeFinalBalance context,
          tc_expectedFirstLegOutput context, tc_actualFirstLegOutput context,
          tc_expectedSecondOutput context, tc_actualSecondOutput context, tc_executed context))"

text \<open>
  \<open>getContractStats\<close>: the multiplication \<open>successfulTrades * 10000\<close> and the division are
  checked operations of Solidity 0.8; the division is only reached when \<open>totalTrades > 0\<close>.
\<close>

definition successRateOf :: "uint256 \<Rightarrow> uint256 \<Rightarrow> error + uint256" where
  "successRateOf successfulTrades totalTrades =
     (if totalTrades > 0 then
        (case checked_mul successfulTrades 10000 of
           Inl e \<Rightarrow> Inl e
         | Inr scaled \<Rightarrow> checked_div scaled totalTrades)
      else Inr 0)"

definition getContractStats ::
  "contract_state \<Rightarrow> (uint256 \<times> uint256 \<times> uint256 \<times> uint256 \<times> uint256) result" where
  "getContractStats s =
     (let totalTrades = totalExecutions (metrics s);
          successfulTrades = successfulExecutions (metrics s);
          failedTrades = (if totalExecutions (metrics s) > successfulExecutions (metrics s)
                          then totalExecutions (metrics s) - successfulExecutions (metrics s)
                          else 0)
      in case successRateOf successfulTrades totalTrades of
           Inl e \<Rightarrow> revert e []
         | Inr successRate \<Rightarrow>
             Inr (totalTrades, successfulTrades, failedTrades, successRate,
                  totalProfit (metrics s)))"

definition getFlashLoanFeeBps :: uint256 where
  "getFlashLoanFeeBps = 0"

definition verifyFlashLoanConfiguration :: "contract_state \<Rightarrow> address \<times> uint256" where
  "verifyFlashLoanConfiguration s = (balancerVault s, 0)"

section \<open>Profit arithmetic of the arbitrage engine\<close>

text \<open>
  Step 7 of \<open>executeArbitrageInternal\<close>: the signed trade profit from the source-token
  balance before and after the two swaps, together with the \<open>StateLog\<close> event the branch
  emits.  \<open>-int256(rawLoss)\<close> is only evaluated when \<open>rawLoss\<close> is at most the largest
  \<open>int256\<close>, where the checked negation cannot fail.
\<close>

definition calcTradeProfit :: "bytes32 \<Rightarrow> uint256 \<Rightarrow> uint256 \<Rightarrow> int256 \<times> event list" where
  "calcTradeProfit executionId initialAccountBalance finalAccountBalance =
     (if finalAccountBalance \<ge> initialAccountBalance then
        (let rawProfit = finalAccountBalance - initialAccountBalance
         in if rawProfit > MAX_INT256 then
              (MAX_INT256,
               [StateLog executionId ''ProfitOverflow'' ''Profit too large for int256''])
            else
              (rawProfit,
               [StateLog executionId ''ProfitCalculation'' (''+'' @ uint2str rawProfit)]))
      else
        (let rawLoss = initialAccountBalance - finalAccountBalance
         in if rawLoss > MAX_INT256 then
              (MIN_INT256, [StateLog executionId ''LossOverflow'' ''Loss too large for int256''])
            else
              (- rawLoss,
               [StateLog executionId ''ProfitCalculation'' (''-'' @ uint2str rawLoss)])))"

section \<open>A deployed instance used in the examples\<close>

definition OWNER :: address where
  "OWNER = 0xA11CE"

definition VAULT :: address where
  "VAULT = 0xBA12"

definition ROUTER_A :: address where
  "ROUTER_A = 0xE592"

definition deployed :: contract_state where
  "deployed = initial_storage OWNER VAULT"

text \<open>
  Modelled from the spec: \<open>_pause\<close> and \<open>_unpause\<close> come from the imported \<open>Pausable\<close>
  contract, which is not part of the repository.  The pausable switch lets the administrator
  halt all new executions; pausing a paused contract and unpausing a running one fail.
\<close>

definition pausedError :: error where
  "pausedError = ErrorString ''Pausable: paused''"

definition notPausedError :: error where
  "notPausedError = ErrorString ''Pausable: not paused''"

definition pause :: "address \<Rightarrow> contract_state \<Rightarrow> (contract_state \<times> event list) result" where
  "pause sender s =
     (if sender \<noteq> owner s then revert notOwnerError []
      else if paused s then revert pausedError []
      else Inr (s\<lparr>paused := True\<rparr>, [Paused sender]))"

definition unpause :: "address \<Rightarrow> contract_state \<Rightarrow> (contract_state \<times> event list) result" where
  "unpause sender s =
     (if sender \<noteq> owner s then revert notOwnerError []
      else if \<not> paused s then revert notPausedError []
      else Inr (s\<lparr>paused := False\<rparr>, [Unpaused sender]))"

definition triggerCircuitBreaker ::
  "address \<Rightarrow> string \<Rightarrow> contract_state \<Rightarrow> (contract_state \<times> event list) result" where
  "triggerCircuitBreaker sender reason s =
     (if sender \<noteq> owner s then revert notOwnerError []
      else if paused s then revert pausedError []
      else Inr (s\<lparr>paused := True\<rparr>,
                [Paused sender, StateLog 0 ''CircuitBreakerTriggered'' reason]))"

section \<open>Histories of administrative calls\<close>

datatype admin_call =
    ConfigureDex string address uint256 uint256 "uint256 list"
  | ConfigurePool address uint256 uint256 string
  | ConfigureToken address uint256 uint256 uint8
  | SetTokenEnabled address bool
  | SetDexEnabled string bool
  | SetRouterAddresses address address
  | Pause
  | Unpause
  | TriggerCircuitBreaker string

fun admin_step ::
  "address \<Rightarrow> admin_call \<Rightarrow> contract_state \<Rightarrow> (contract_state \<times> event list) result" where
  "admin_step sender (ConfigureDex n r f g ts) s = configureDex sender n r f g ts s"
| "admin_step sender (ConfigurePool p f l n) s = configurePool sender p f l n s"
| "admin_step sender (ConfigureToken t mx mn d) s = configureToken sender t mx mn d s"
| "admin_step sender (SetTokenEnabled t b) s = setTokenEnabled sender t b s"
| "admin_step sender (SetDexEnabled n b) s = setDexEnabled sender n b s"
| "admin_step sender (SetRouterAddresses u j) s = setRouterAddresses sender u j s"
| "admin_step sender Pause s = pause sender s"
| "admin_step sender Unpause s = unpause sender s"
| "admin_step sender (TriggerCircuitBreaker r) s = triggerCircuitBreaker sender r s"

text \<open>A transaction that reverts leaves the storage as it was.\<close>

definition commit :: "(contract_state \<times> event list) result \<Rightarrow> contract_state \<Rightarrow> contract_state" where
  "commit r s = (case r of Inl err \<Rightarrow> s | Inr (s', evs) \<Rightarrow> s')"

fun run_admin :: "(address \<times> admin_call) list \<Rightarrow> contract_state \<Rightarrow> contract_state" where
  "run_admin [] s = s"
| "run_admin ((sender, c) # cs) s = run_admin cs (commit (admin_step sender c s) s)"

fun configures_dex :: "string \<Rightarrow> admin_call \<Rightarrow> bool" where
  "configures_dex n (ConfigureDex n' r f g ts) = (n = n')"
| "configures_dex n c = False"

definition never_configured_dex :: "string \<Rightarrow> (address \<times> admin_call) list \<Rightarrow> bool" where
  "never_configured_dex n history = list_all (\<lambda>(sender, c). \<not> configures_dex n c) history"

definition TOKEN_Z :: address where
  "TOKEN_Z = 0x70CE"

definition POOL_P :: address where
  "POOL_P = 0x9001"

definition busy_metrics :: Metrics where
  "busy_metrics = zero_Metrics\<lparr>totalExecutions := 2 ^ 243, successfulExecutions := 2 ^ 243,
      totalProfit := 5\<rparr>"

definition sample_metrics :: Metrics where
  "sample_metrics = zero_Metrics\<lparr>totalExecutions := 4, successfulExecutions := 3,
      failedExecutions := 9, totalProfit := 5\<rparr>"

section \<open>The world outside the contract\<close>

text \<open>
  Token balances and allowances live in the token contracts; \<open>chain\<close> holds the part of
  them the contract reads (\<open>balanceOf\<close> and \<open>allowance\<close> are views of it).  What the foreign
  contracts do when called (the routers, the tokens' \<open>approve\<close>, \<open>transfer\<close> and
  \<open>transferFrom\<close>, the lender) is not part of the repository and is a parameter: the
  record \<open>environment\<close>.  A call that fails leaves the chain as it was before the call.
  The routers and the tokens are taken not to call back into the contract while they run:
  their calls change the chain only.  The lender does call back, that is its purpose, and
  its calls into the contract are part of the model.
\<close>

record chain =
  balances :: "address \<Rightarrow> address \<Rightarrow> uint256"
  allowances :: "address \<Rightarrow> address \<Rightarrow> address \<Rightarrow> uint256"

text \<open>
  The answer of a token to a call that returns a \<open>bool\<close>: it reverts with some data, or
  returns no data at all (tokens that do not follow the standard), or returns a boolean.
\<close>

datatype token_answer = TokenReverted error | TokenReturned "bool option"

text \<open>
  The external functions of the contract that do not carry the \<open>nonReentrant\<close> modifier: a
  foreign contract can call them at any moment, also while a flash loan is in flight.  The
  views are left out, they write nothing.  \<open>transferOwnership\<close> and \<open>renounceOwnership\<close>
  are inherited from \<open>Ownable\<close>; a call of any other selector ends in the \<open>fallback\<close>.
\<close>

datatype plain_call =
    AdminCall admin_call
  | ApproveRouter address address uint256
  | EmergencyWithdraw address
  | WithdrawFunds address uint256
  | TransferOwnership address
  | RenounceOwnership
  | ReceiveFlashLoan "address list" "uint256 list" "uint256 list" bytes
  | ExecuteArbitrageWrapper ArbitrageParams
  | UnknownFunction bytes

text \<open>
  What the lender does when its \<open>flashLoan\<close> is called.  The address may hold no code: then
  the call is not made at all.  Otherwise the lender runs: it moves tokens and calls
  functions of the contract (the callback \<open>receiveFlashLoan\<close>, but nothing stops it, or a
  contract it calls in turn, shown as the sender, from calling any other function), in some
  order, and at the end it either returns or reverts with some revert data, which undoes
  all it did.  A call back into the contract that reverts is undone alone; whether the
  lender then goes on or reverts itself is the lender's choice.  The lender sees the storage
  (through the views) and the chain, so its moves may depend on both.
\<close>

datatype lender_move =
    MovesTokens "chain \<Rightarrow> chain"
  | CallsBack address plain_call

datatype lender_behaviour =
    VaultWithoutCode
  | VaultReverts error
  | VaultReturns "lender_move list"

text \<open>
  The lender's \<open>flashLoan\<close> seen from the caller: it completes (the storage and the chain
  its calls have left, the events emitted meanwhile), or it fails with some revert data and
  changes nothing, or it cannot be called because there is no code at its address.
\<close>

datatype lender_outcome =
    LoanCompleted contract_state chain "event list"
  | LoanFailed error
  | LoanNotCallable

record environment =
  self :: address
  blockTimestamp :: uint256
  blockNumber :: uint256
  keccak256 :: "bytes \<Rightarrow> bytes32"
  errorSelector :: "error \<Rightarrow> bytes4"
  raw_call :: "address \<Rightarrow> uint256 \<Rightarrow> bytes \<Rightarrow> chain \<Rightarrow> bool \<times> bytes \<times> chain"
  erc20_approve :: "address \<Rightarrow> address \<Rightarrow> address \<Rightarrow> uint256 \<Rightarrow> chain \<Rightarrow> token_answer \<times> chain"
  erc20_transfer :: "address \<Rightarrow> address \<Rightarrow> address \<Rightarrow> uint256 \<Rightarrow> chain \<Rightarrow> token_answer \<times> chain"
  erc20_transferFrom ::
    "address \<Rightarrow> address \<Rightarrow> address \<Rightarrow> address \<Rightarrow> uint256 \<Rightarrow> chain \<Rightarrow> token_answer \<times> chain"
  lender_flashLoan ::
    "address \<Rightarrow> address list \<Rightarrow> uint256 list \<Rightarrow> bytes \<Rightarrow> contract_state \<Rightarrow> chain
      \<Rightarrow> lender_behaviour"
  memoryBehind :: "bytes \<Rightarrow> bytes"

definition MAX_UINT256 :: uint256 where
  "MAX_UINT256 = 2 ^ 256 - 1"

text \<open>Events emitted earlier in the call stand in front of those of a later step.\<close>

definition prefix_events :: "event list \<Rightarrow> ('a \<times> event list) result \<Rightarrow> ('a \<times> event list) result" where
  "prefix_events evs r =
     (case r of
        Inl (e, evs') \<Rightarrow> Inl (e, evs @ evs')
      | Inr (x, evs') \<Rightarrow> Inr (x, evs @ evs'))"

definition bindE :: "(error + 'a) \<Rightarrow> ('a \<Rightarrow> error + 'b) \<Rightarrow> error + 'b" where
  "bindE m f = (case m of Inl e \<Rightarrow> Inl e | Inr x \<Rightarrow> f x)"

text \<open>
  A high-level call through the \<open>IERC20\<close> interface: the call fails when the token
  reverts, and also when it returns no data, since the interface declares a \<open>bool\<close> that
  cannot be decoded from nothing.  The returned value itself is not looked at by the caller.
\<close>

definition highLevelCall :: "token_answer \<times> chain \<Rightarrow> chain \<Rightarrow> error + chain" where
  "highLevelCall answer c =
     (case answer of
        (TokenReverted e, c') \<Rightarrow> Inl e
      | (TokenReturned None, c') \<Rightarrow> Inl (RawRevert [])
      | (TokenReturned (Some b), c') \<Rightarrow> Inr c')"

text \<open>
  The same call inside \<open>try ... catch { }\<close>: a revert of the token is caught and leaves the
  chain as it was; data that cannot be decoded still reverts the caller.
\<close>

definition tryCall :: "token_answer \<times> chain \<Rightarrow> chain \<Rightarrow> error + (bool \<times> chain)" where
  "tryCall answer c =
     (case answer of
        (TokenReverted e, c') \<Rightarrow> Inr (False, c)
      | (TokenReturned None, c') \<Rightarrow> Inl (RawRevert [])
      | (TokenReturned (Some b), c') \<Rightarrow> Inr (True, c'))"

text \<open>
  \<open>_safeApprove\<close>: a low-level \<open>approve\<close> first; when it fails or returns \<open>false\<close>, the
  allowance is reset to zero (a revert of the reset is swallowed by the empty \<open>catch\<close>) and
  \<open>approve\<close> is called again through the interface, where a failure reverts.
\<close>

definition safeApprove ::
  "environment \<Rightarrow> address \<Rightarrow> address \<Rightarrow> uint256 \<Rightarrow> chain \<Rightarrow> (chain \<times> event list) result" where
  "safeApprove env token spender amount c =
     (case erc20_approve env token (self env) spender amount c of
        (TokenReturned None, c1) \<Rightarrow> Inr (c1, [ApprovalUpdated token spender amount])
      | (TokenReturned (Some True), c1) \<Rightarrow> Inr (c1, [ApprovalUpdated token spender amount])
      | (answer, c1) \<Rightarrow>
          (let c2 = (case answer of TokenReverted e \<Rightarrow> c | TokenReturned b \<Rightarrow> c1)
           in case tryCall (erc20_approve env token (self env) spender 0 c2) c2 of
                Inl e \<Rightarrow> revert e []
              | Inr (resetDone, c3) \<Rightarrow>
                  (case highLevelCall (erc20_approve env token (self env) spender amount c3) c3 of
                     Inl e \<Rightarrow> revert e []
                   | Inr c4 \<Rightarrow> Inr (c4, [ApprovalUpdated token spender amount]))))"

section \<open>Arbitrage engine\<close>

text \<open>
  The overflow-guarded additions of step 7.  Every subtraction, negation and addition is
  the checked operation of Solidity 0.8; the guards are the source's.
\<close>

definition calcTradeFinalBalance ::
  "bytes32 \<Rightarrow> int256 \<Rightarrow> int256 \<Rightarrow> error + (int256 \<times> event list)" where
  "calcTradeFinalBalance executionId inputAmountInt tradeProfit =
     (if sle 0 tradeProfit then
        bindE (checked_ssub MAX_INT256 tradeProfit) (\<lambda>room.
          if slt room inputAmountInt then
            Inr (MAX_INT256, [StateLog executionId ''FinalBalanceOverflow'' ''Positive overflow''])
          else bindE (checked_sadd inputAmountInt tradeProfit) (\<lambda>total. Inr (total, [])))
      else
        bindE (checked_ssub MIN_INT256 tradeProfit) (\<lambda>room.
          if slt inputAmountInt room then
            Inr (MIN_INT256, [StateLog executionId ''FinalBalanceUnderflow'' ''Negative overflow''])
          else bindE (checked_sadd inputAmountInt tradeProfit) (\<lambda>total. Inr (total, []))))"

definition expectedProfitUpper ::
  "bytes32 \<Rightarrow> string \<Rightarrow> int256 \<Rightarrow> int256 \<Rightarrow> error + (int256 \<times> event list)" where
  "expectedProfitUpper executionId note expectedSecondOutput inputAmountInt =
     bindE (checked_ssub MAX_INT256 expectedSecondOutput) (\<lambda>room.
     bindE (checked_sneg inputAmountInt) (\<lambda>negInput.
       if slt room negInput then
         Inr (MAX_INT256, [StateLog executionId ''ExpectedProfitCalculationError'' note])
       else bindE (checked_ssub expectedSecondOutput inputAmountInt) (\<lambda>d. Inr (d, []))))"

definition expectedProfitLower ::
  "bytes32 \<Rightarrow> string \<Rightarrow> int256 \<Rightarrow> int256 \<Rightarrow> error + (int256 \<times> event list)" where
  "expectedProfitLower executionId note expectedSecondOutput inputAmountInt =
     bindE (checked_ssub MIN_INT256 expectedSecondOutput) (\<lambda>room.
     bindE (checked_sneg inputAmountInt) (\<lambda>negInput.
       if slt negInput room then
         Inr (MIN_INT256, [StateLog executionId ''ExpectedProfitCalculationError'' note])
       else bindE (checked_ssub expectedSecondOutput inputAmountInt) (\<lambda>d. Inr (d, []))))"

definition calcExpectedProfit ::
  "bytes32 \<Rightarrow> int256 \<Rightarrow> int256 \<Rightarrow> error + (int256 \<times> event list)" where
  "calcExpectedProfit executionId expectedSecondOutput inputAmountInt =
     (if sle 0 expectedSecondOutput \<and> sle 0 inputAmountInt then
        expectedProfitUpper executionId ''Positive overflow'' expectedSecondOutput inputAmountInt
      else if slt expectedSecondOutput 0 \<and> slt inputAmountInt 0 then
        expectedProfitLower executionId ''Negative overflow'' expectedSecondOutput inputAmountInt
      else if sle 0 expectedSecondOutput \<and> slt inputAmountInt 0 then
        expectedProfitUpper executionId ''Mixed sign overflow'' expectedSecondOutput inputAmountInt
      else
        expectedProfitLower executionId ''Mixed sign underflow'' expectedSecondOutput inputAmountInt)"

text \<open>The unsigned value shown in a \<open>SwapEvent\<close> for a signed expectation or balance.\<close>

definition expectedOutputForEvent :: "bytes32 \<Rightarrow> string \<Rightarrow> int256 \<Rightarrow> uint256 \<times> event list" where
  "expectedOutputForEvent executionId label expected =
     (if slt 0 expected then (expected, [])
      else (0, [StateLog executionId ''NegativeExpectedOutput'' (label @ int2str expected)]))"

definition approveIfNeeded ::
  "environment \<Rightarrow> bytes32 \<Rightarrow> string \<Rightarrow> address \<Rightarrow> address \<Rightarrow> uint256 \<Rightarrow> chain
    \<Rightarrow> (chain \<times> event list) result" where
  "approveIfNeeded env executionId stage token router needed c =
     (if allowances c token (self env) router < needed then
        (case safeApprove env token router MAX_UINT256 c of
           Inl err \<Rightarrow> Inl err
         | Inr (c', evs) \<Rightarrow> Inr (c', evs @ [StateLog executionId stage ''Updated'']))
      else Inr (c, []))"

text \<open>The raw call of a swap; a failed call changes nothing on the chain.\<close>

definition swapCall :: "environment \<Rightarrow> address \<Rightarrow> bytes \<Rightarrow> chain \<Rightarrow> bool \<times> bytes \<times> chain" where
  "swapCall env router payload c =
     (case raw_call env router MAX_GAS_FOR_CALL payload c of
        (success, returned, c') \<Rightarrow> (success, returned, if success then c' else c))"

definition swapErrorMessage :: "string \<Rightarrow> bytes \<Rightarrow> string" where
  "swapErrorMessage fallbackMsg returned =
     (if length returned > 4 then string_of_bytes returned else fallbackMsg)"

text \<open>
  The profit validation with the update of the metrics (the counters are incremented with
  checked arithmetic).
\<close>

definition profitValidation ::
  "bytes32 \<Rightarrow> bool \<Rightarrow> int256 \<Rightarrow> Metrics \<Rightarrow> (Metrics \<times> event list) result" where
  "profitValidation executionId testMode tradeProfit m =
     (if slt 0 tradeProfit then
        (case checked_add (successfulExecutions m) 1 of
           Inl e \<Rightarrow> revert e []
         | Inr n \<Rightarrow>
             (if slt 0 tradeProfit then
                (case checked_add (totalProfit m) tradeProfit of
                   Inl e \<Rightarrow> revert e []
                 | Inr p \<Rightarrow>
                     Inr (m\<lparr>successfulExecutions := n, totalProfit := p\<rparr>,
                          [StateLog executionId ''ProfitValidation'' ''Profitable'']))
              else
                Inr (m\<lparr>successfulExecutions := n\<rparr>,
                     [StateLog executionId ''MetricsUpdateWarning'' ''Failed to update metrics'',
                      StateLog executionId ''ProfitValidation'' ''Profitable''])))
      else if \<not> testMode then
        revert InsufficientProfit [StateLog executionId ''ProfitValidation'' ''NoProfit'']
      else Inr (m, [StateLog executionId ''ProfitValidation'' ''TestMode'']))"

text \<open>
  Step 7 to the end of \<open>executeArbitrageInternal\<close>: profit, final balance, expected
  profit, the profit gate, the metrics and the \<open>ArbitrageExecuted\<close> event.
\<close>

definition settleTrade ::
  "ArbitrageParams \<Rightarrow> contract_state \<Rightarrow> uint256 \<Rightarrow> uint256 \<Rightarrow> uint256
    \<Rightarrow> ((int256 \<times> contract_state) \<times> event list) result" where
  "settleTrade params s initialAccountBalance finalAccountBalance expectedSecondOutputForEvent =
     (let executionId = p_executionId params;
          evsBalance = [StateLog executionId ''BalanceParams''
             (''Initial: '' @ uint2str initialAccountBalance
              @ '', Final: '' @ uint2str finalAccountBalance
              @ '', Input: '' @ uint2str (p_amount params))];
          inputAmountInt = safeToInt256 (p_amount params);
          (tradeProfit, evsProfit) =
             calcTradeProfit executionId initialAccountBalance finalAccountBalance
      in case calcTradeFinalBalance executionId inputAmountInt tradeProfit of
           Inl e \<Rightarrow> revert e (evsBalance @ evsProfit)
         | Inr (tradeFinalBalance, evsFinal) \<Rightarrow>
             (let s1 = s\<lparr>tradeContexts := (tradeContexts s)(executionId :=
                         (tradeContexts s executionId)
                           \<lparr>tc_tradeFinalBalance := tradeFinalBalance,
                            tc_actualSecondOutput := tradeProfit,
                            tc_executed := True\<rparr>)\<rparr>
              in case calcExpectedProfit executionId (p_expectedSecondOutput params)
                        inputAmountInt of
                   Inl e \<Rightarrow> revert e (evsBalance @ evsProfit @ evsFinal)
                 | Inr (expectedProfit, evsExpected) \<Rightarrow>
                     (let (finalBalanceForEvent, evsNegative) =
                            (if slt 0 tradeFinalBalance then (tradeFinalBalance, [])
                             else (0, [StateLog executionId ''NegativeTradeFinalBalance''
                                         (int2str tradeFinalBalance)]));
                          evsDetails =
                            [SwapEvent executionId 3 ''AfterSecondSwap'' (p_sourceToken params)
                               finalBalanceForEvent expectedSecondOutputForEvent,
                             StateLog executionId ''ProfitDetails''
                               (''Actual: '' @ int2str tradeProfit
                                @ '', Expected: '' @ int2str expectedProfit
                                @ '', TestMode: '' @ boolStr (p_testMode params))];
                          evsSoFar = evsBalance @ evsProfit @ evsFinal @ evsExpected
                                     @ evsNegative @ evsDetails
                      in case profitValidation executionId (p_testMode params) tradeProfit
                                (metrics s1) of
                           Inl (e, evs) \<Rightarrow> revert e (evsSoFar @ evs)
                         | Inr (m1, evsValid) \<Rightarrow>
                             (case checked_add (totalExecutions m1) 1 of
                                Inl e \<Rightarrow> revert e (evsSoFar @ evsValid)
                              | Inr n \<Rightarrow>
                                  Inr ((tradeProfit,
                                        s1\<lparr>metrics := m1\<lparr>totalExecutions := n\<rparr>\<rparr>),
                                       evsSoFar @ evsValid @
                                       [ArbitrageExecuted (p_sourceToken params)
                                          (p_targetToken params) (p_amount params)
                                          finalAccountBalance tradeFinalBalance tradeProfit
                                          expectedProfit (p_testMode params)])))))"

text \<open>
  Steps 2 to 4: approval of the first router, the first swap, the tokens received.  The
  result is the storage, the chain and \<open>targetTokenReceived\<close>.
\<close>

definition firstLeg ::
  "environment \<Rightarrow> ArbitrageParams \<Rightarrow> contract_state \<Rightarrow> chain \<Rightarrow> uint256
    \<Rightarrow> ((contract_state \<times> chain \<times> uint256) \<times> event list) result" where
  "firstLeg env params s c initialTargetBalance =
     (let executionId = p_executionId params
      in case approveIfNeeded env executionId ''FirstRouterApproval'' (p_sourceToken params)
                (p_firstRouter params) (p_amount params) c of
           Inl err \<Rightarrow> Inl err
         | Inr (c1, evsApprove) \<Rightarrow>
             (let (expectedFirstOutputForEvent, evsExpected) =
                    expectedOutputForEvent executionId ''First: '' (p_expectedFirstOutput params);
                  evsStart = evsApprove @ evsExpected @
                    [SwapEvent executionId 1 ''first'' (p_firstRouter params) (p_amount params)
                       expectedFirstOutputForEvent];
                  (success1, result1, c2) =
                    swapCall env (p_firstRouter params) (p_firstSwapData params) c1
              in if \<not> success1 then
                   (let errorMsg = swapErrorMessage ''Failed First Swap'' result1
                    in revert (FirstSwapFailed errorMsg)
                         (evsStart @ [StateLog executionId ''FirstSwapError'' errorMsg]))
                 else
                   (let currentTargetBalance = balances c2 (p_targetToken params) (self env);
                        evsBalances =
                          [StateLog executionId ''FirstSwap'' ''Success'',
                           StateLog executionId ''FirstSwapBalances''
                             (''Initial: '' @ uint2str initialTargetBalance
                              @ '', Current: '' @ uint2str currentTargetBalance)];
                        (targetTokenReceived, evsCheck) =
                          (if currentTargetBalance > initialTargetBalance
                           then (currentTargetBalance - initialTargetBalance, [])
                           else (0, [StateLog executionId ''BalanceCheck''
                                       ''Zero or negative balance change'']));
                        s1 = s\<lparr>tradeContexts := (tradeContexts s)(executionId :=
                               (tradeContexts s executionId)
                                 \<lparr>tc_intermediateTokenAmount := targetTokenReceived,
                                  tc_actualFirstLegOutput := targetTokenReceived\<rparr>)\<rparr>;
                        evsAfter = evsStart @ evsBalances @ evsCheck @
                          [SwapEvent executionId 3 ''AfterFirstSwap'' (p_targetToken params)
                             targetTokenReceived expectedFirstOutputForEvent]
                    in if targetTokenReceived = 0 then
                         revert NoIntermediateTokens
                           (evsAfter @ [StateLog executionId ''IntermediateTokenReceived'' ''None''])
                       else Inr ((s1, c2, targetTokenReceived), evsAfter))))"

text \<open>
  Steps 5 and 6 and the first line of step 7: approval of the second router, the second
  swap, the final balance of the source token.  The result is the chain, that balance and
  the expected output shown in the events.
\<close>

definition secondLeg ::
  "environment \<Rightarrow> ArbitrageParams \<Rightarrow> chain \<Rightarrow> uint256
    \<Rightarrow> ((chain \<times> uint256 \<times> uint256) \<times> event list) result" where
  "secondLeg env params c targetTokenReceived =
     (let executionId = p_executionId params
      in case approveIfNeeded env executionId ''SecondRouterApproval'' (p_targetToken params)
                (p_secondRouter params) targetTokenReceived c of
           Inl err \<Rightarrow> Inl err
         | Inr (c1, evsApprove) \<Rightarrow>
             (let (expectedSecondOutputForEvent, evsExpected) =
                    expectedOutputForEvent executionId ''Second: '' (p_expectedSecondOutput params);
                  evsStart = evsApprove @ evsExpected @
                    [SwapEvent executionId 1 ''second'' (p_secondRouter params)
                       targetTokenReceived expectedSecondOutputForEvent];
                  (success2, result2, c2) =
                    swapCall env (p_secondRouter params) (p_secondSwapData params) c1
              in if \<not> success2 then
                   (let errorMsg = swapErrorMessage ''Failed Second Swap'' result2
                    in revert (SecondSwapFailed errorMsg)
                         (evsStart @ [StateLog executionId ''SecondSwapError'' errorMsg]))
                 else
                   Inr ((c2, balances c2 (p_sourceToken params) (self env),
                         expectedSecondOutputForEvent),
                        evsStart @ [StateLog executionId ''SecondSwap'' ''Success''])))"

text \<open>
  \<open>executeArbitrageInternal\<close> up to the point where the final balance has been read: the
  replay guard, the mark in \<open>executedTrades\<close>, the new trade context with the starting
  balances, then the two legs.  The result is the storage, the chain, the initial and the
  final balance of the source token, and the expected second output shown in the events.
\<close>

definition swapLegs ::
  "environment \<Rightarrow> ArbitrageParams \<Rightarrow> contract_state \<Rightarrow> chain
    \<Rightarrow> ((contract_state \<times> chain \<times> uint256 \<times> uint256 \<times> uint256) \<times> event list) result" where
  "swapLegs env params s c =
     (if executedTrades s (p_executionId params) then revert InvalidExecutionId []
      else
        (let executionId = p_executionId params;
             s1 = s\<lparr>executedTrades := (executedTrades s)(executionId := True)\<rparr>;
             initialAccountBalance = balances c (p_sourceToken params) (self env);
             initialTargetBalance = balances c (p_targetToken params) (self env);
             s2 = s1\<lparr>tradeContexts := (tradeContexts s1)(executionId :=
                    (tradeContexts s1 executionId)
                      \<lparr>tc_executed := False,
                       tc_sourceTokenStartBalance := initialAccountBalance,
                       tc_targetTokenStartBalance := initialTargetBalance,
                       tc_tradeInputAmount := p_amount params,
                       tc_expectedFirstLegOutput := p_expectedFirstOutput params,
                       tc_expectedSecondOutput := p_expectedSecondOutput params\<rparr>)\<rparr>;
             evsInput =
               [StateLog executionId ''InputContext''
                  (''Amount: '' @ uint2str (p_amount params)
                   @ '', Expected1: '' @ int2str (p_expectedFirstOutput params)
                   @ '', Expected2: '' @ int2str (p_expectedSecondOutput params)
                   @ '', TestMode: '' @ boolStr (p_testMode params)),
                SwapEvent executionId 3 ''BeforeFirstSwap'' (p_sourceToken params)
                  (p_amount params) (p_amount params)]
         in case firstLeg env params s2 c initialTargetBalance of
              Inl (e, evs) \<Rightarrow> Inl (e, evsInput @ evs)
            | Inr ((s3, c3, targetTokenReceived), evsFirst) \<Rightarrow>
                (case secondLeg env params c3 targetTokenReceived of
                   Inl (e, evs) \<Rightarrow> Inl (e, evsInput @ evsFirst @ evs)
                 | Inr ((c4, finalAccountBalance, expectedSecondOutputForEvent), evsSecond) \<Rightarrow>
                     Inr ((s3, c4, initialAccountBalance, finalAccountBalance,
                           expectedSecondOutputForEvent),
                          evsInput @ evsFirst @ evsSecond))))"

text \<open>\<open>executeArbitrageInternal\<close>: the two legs, then the settlement of the trade.\<close>

definition executeArbitrageInternal ::
  "environment \<Rightarrow> ArbitrageParams \<Rightarrow> contract_state \<Rightarrow> chain
    \<Rightarrow> ((int256 \<times> contract_state \<times> chain) \<times> event list) result" where
  "executeArbitrageInternal env params s c =
     (case swapLegs env params s c of
        Inl err \<Rightarrow> Inl err
      | Inr ((s1, c1, initialAccountBalance, finalAccountBalance,
              expectedSecondOutputForEvent), evsLegs) \<Rightarrow>
          (case settleTrade params s1 initialAccountBalance finalAccountBalance
                  expectedSecondOutputForEvent of
             Inl (e, evs) \<Rightarrow> Inl (e, evsLegs @ evs)
           | Inr ((tradeProfit, s2), evs) \<Rightarrow> Inr ((tradeProfit, s2, c1), evsLegs @ evs)))"

text \<open>
  \<open>executeArbitrageWrapper\<close>: the external entry point around the engine, callable only by
  the contract itself.
\<close>

definition executeArbitrageWrapper ::
  "environment \<Rightarrow> address \<Rightarrow> ArbitrageParams \<Rightarrow> contract_state \<Rightarrow> chain
    \<Rightarrow> ((int256 \<times> contract_state \<times> chain) \<times> event list) result" where
  "executeArbitrageWrapper env sender params s c =
     (if sender \<noteq> self env then revert (ErrorString ''Unauthorized'') []
      else executeArbitrageInternal env params s c)"

section \<open>Flash-loan orchestrator\<close>

text \<open>
  \<open>abi.encode(executionId)\<close> is the 32 bytes of the identifier; \<open>abi.decode\<close> of fewer
  than 32 bytes reverts without data.
\<close>

definition word_of_be :: "bytes \<Rightarrow> 'a::len word" where
  "word_of_be bs = foldl (\<lambda>acc b. acc * 256 + ucast b) 0 bs"

definition abi_encode_bytes32 :: "bytes32 \<Rightarrow> bytes" where
  "abi_encode_bytes32 w = be_bytes 32 w"

definition abi_decode_bytes32 :: "bytes \<Rightarrow> bytes32 option" where
  "abi_decode_bytes32 bs = (if length bs < 32 then None else Some (word_of_be (take 32 bs)))"

text \<open>
  The text logged for revert data caught as raw bytes: \<open>mload(add(errorData, 32))\<close> reads
  the 32 bytes of memory that start with the data, and the first four of them are shown in
  hexadecimal.  For an error of the contract itself these are its selector (a keccak256
  hash, a parameter of the environment).  Data shorter than four bytes is read together
  with whatever the memory holds behind it: \<open>memoryBehind\<close>, a parameter of the
  environment, followed by the zeros of memory never written.
\<close>

definition lowLevelErrorMessage :: "environment \<Rightarrow> error \<Rightarrow> string" where
  "lowLevelErrorMessage env e =
     (case e of
        RawRevert errorData \<Rightarrow>
          (if length errorData > 0
           then ''Error sig: '' @ bytes4ToString
                  (word_of_be (take 4 (errorData @ memoryBehind env errorData @ [0, 0, 0, 0])))
           else ''Unknown error'')
      | custom \<Rightarrow> ''Error sig: '' @ bytes4ToString (errorSelector env custom))"

text \<open>The three \<open>catch\<close> clauses around the engine in \<open>receiveFlashLoan\<close>.\<close>

definition arbitrageFailureLog :: "environment \<Rightarrow> bytes32 \<Rightarrow> error \<Rightarrow> event" where
  "arbitrageFailureLog env executionId e =
     (case e of
        ErrorString reason \<Rightarrow> StateLog executionId ''ArbitrageExecutionError'' reason
      | Panic errorCode \<Rightarrow>
          StateLog executionId ''ArithmeticError''
            (if errorCode = 0x11 then ''Arithmetic operation''
             else if errorCode = 0x01 then ''Assert failed''
             else if errorCode = 0x12 then ''Division by zero''
             else ''Other panic'')
      | other \<Rightarrow>
          StateLog executionId ''ArbitrageExecution''
            (''Failed with error: '' @ lowLevelErrorMessage env other))"

definition paramsOfContext :: "FlashLoanContext \<Rightarrow> bytes32 \<Rightarrow> ArbitrageParams" where
  "paramsOfContext context executionId =
     \<lparr>p_sourceToken = ctx_sourceToken context, p_targetToken = ctx_targetToken context,
      p_amount = ctx_amount context, p_firstSwapData = ctx_firstSwapData context,
      p_secondSwapData = ctx_secondSwapData context, p_firstRouter = ctx_firstRouter context,
      p_secondRouter = ctx_secondRouter context, p_testMode = ctx_testMode context,
      p_expectedFirstOutput = ctx_expectedFirstOutput context,
      p_expectedSecondOutput = ctx_expectedSecondOutput context,
      p_executionId = executionId\<rparr>"

text \<open>
  The \<open>try this.executeArbitrageWrapper(...)\<close> of the callback.  The self-call is a call
  frame of its own: when the engine reverts, everything it wrote and emitted is rolled back
  and the callback goes on from the storage and chain it had before the call, with
  \<open>executed = false\<close> written into the trade context and the failure logged.  The result is
  the success flag, the profit, the storage, the chain and the events.
\<close>

definition tryArbitrage ::
  "environment \<Rightarrow> ArbitrageParams \<Rightarrow> contract_state \<Rightarrow> chain
    \<Rightarrow> bool \<times> int256 \<times> contract_state \<times> chain \<times> event list" where
  "tryArbitrage env params s c =
     (case executeArbitrageWrapper env (self env) params s c of
        Inr ((result, s', c'), evs) \<Rightarrow>
          (True, result, s', c',
           evs @ [StateLog (p_executionId params) ''ArbitrageExecution'' ''Success''])
      | Inl (e, evs) \<Rightarrow>
          (False, 0,
           s\<lparr>tradeContexts := (tradeContexts s)(p_executionId params :=
                (tradeContexts s (p_executionId params))\<lparr>tc_executed := False\<rparr>)\<rparr>,
           c, [arbitrageFailureLog env (p_executionId params) e]))"

text \<open>The flash-loan profit counter: only a positive profit of a successful run is added.\<close>

definition recordFlashLoanProfit ::
  "bytes32 \<Rightarrow> bool \<Rightarrow> int256 \<Rightarrow> Metrics \<Rightarrow> (Metrics \<times> event list) result" where
  "recordFlashLoanProfit executionId arbitrageSuccess profit m =
     (if arbitrageSuccess then
        (if slt 0 profit then
           (case checked_add (flashLoanProfit m) profit of
              Inl e \<Rightarrow> revert e []
            | Inr p \<Rightarrow> Inr (m\<lparr>flashLoanProfit := p\<rparr>, []))
         else Inr (m, [StateLog executionId ''MetricsWarning''
                         ''Profit not added to metrics (negative)'']))
      else Inr (m, []))"

text \<open>\<open>amounts[0] + feeAmounts[0]\<close>: index checks, then a checked addition.\<close>

definition repayAmountOf ::
  "uint256 list \<Rightarrow> uint256 list \<Rightarrow> error + (uint256 \<times> uint256 \<times> uint256)" where
  "repayAmountOf amounts feeAmounts =
     (case amounts of
        [] \<Rightarrow> Inl (Panic 0x32)
      | borrowed # as \<Rightarrow>
          (case feeAmounts of
             [] \<Rightarrow> Inl (Panic 0x32)
           | fee # fs \<Rightarrow>
               (case checked_add borrowed fee of
                  Inl e \<Rightarrow> Inl e
                | Inr repayAmount \<Rightarrow> Inr (borrowed, fee, repayAmount))))"

text \<open>The repayment: cover a shortfall in test mode, then transfer to the lender.\<close>

definition repayLoan ::
  "environment \<Rightarrow> contract_state \<Rightarrow> FlashLoanContext \<Rightarrow> bytes32 \<Rightarrow> uint256 \<Rightarrow> chain
    \<Rightarrow> (chain \<times> event list) result" where
  "repayLoan env s context executionId repayAmount c =
     (let currentBalance = balances c (ctx_sourceToken context) (self env);
          covered =
            (if currentBalance < repayAmount then
               (if ctx_testMode context then
                  (case tryCall (erc20_transferFrom env (ctx_sourceToken context) (self env)
                                   (owner s) (self env) (repayAmount - currentBalance) c) c of
                     Inl e \<Rightarrow> revert e []
                   | Inr (True, c') \<Rightarrow>
                       Inr (c', [StateLog executionId ''TestModeShortfall'' ''Covered by owner''])
                   | Inr (False, c') \<Rightarrow>
                       revert TestModeShortfall
                         [StateLog executionId ''TestModeShortfall'' ''Failed to cover''])
                else
                  revert InsufficientRepayment
                    [StateLog executionId ''InsufficientBalance'' ''Cannot repay flash loan''])
             else Inr (c, []))
      in case covered of
           Inl err \<Rightarrow> Inl err
         | Inr (c1, evs) \<Rightarrow>
             (case highLevelCall (erc20_transfer env (ctx_sourceToken context) (self env)
                                    (balancerVault s) repayAmount c1) c1 of
                Inl e \<Rightarrow> revert e evs
              | Inr c2 \<Rightarrow> Inr (c2, evs)))"

definition receiveFlashLoan ::
  "environment \<Rightarrow> address \<Rightarrow> uint256 list \<Rightarrow> uint256 list \<Rightarrow> bytes \<Rightarrow> contract_state \<Rightarrow> chain
    \<Rightarrow> ((contract_state \<times> chain) \<times> event list) result" where
  "receiveFlashLoan env sender amounts feeAmounts userData s c =
     (if sender \<noteq> balancerVault s then revert UnauthorizedCaller []
      else case abi_decode_bytes32 userData of
        None \<Rightarrow> revert (RawRevert []) []
      | Some executionId \<Rightarrow>
          (let context = flashLoanContexts s executionId
           in if ctx_executionId context \<noteq> executionId then
                revert InvalidExecutionId [StateLog executionId ''ContextRetrieval'' ''Invalid'']
              else
                (let evsStart =
                       [StateLog executionId ''FlashLoanCallback''
                          (''Starting callback, token: '' @ addressToString (ctx_sourceToken context)
                           @ '', amount: '' @ uint2str (ctx_amount context))];
                     (arbitrageSuccess, profit, s1, c1, evsArbitrage) =
                       tryArbitrage env (paramsOfContext context executionId) s c
                 in case recordFlashLoanProfit executionId arbitrageSuccess profit (metrics s1) of
                      Inl (e, evs) \<Rightarrow> revert e (evsStart @ evsArbitrage @ evs)
                    | Inr (m2, evsMetrics) \<Rightarrow>
                        (case repayAmountOf amounts feeAmounts of
                           Inl e \<Rightarrow> revert e (evsStart @ evsArbitrage @ evsMetrics)
                         | Inr (borrowed, fee, repayAmount) \<Rightarrow>
                             (let evsInfo = evsStart @ evsArbitrage @ evsMetrics @
                                    [StateLog executionId ''RepaymentInfo''
                                       (''Principal: '' @ uint2str borrowed
                                        @ '', Fee: '' @ uint2str fee
                                        @ '', Total: '' @ uint2str repayAmount
                                        @ '', Balance: ''
                                        @ uint2str (balances c1 (ctx_sourceToken context) (self env)))]
                              in case repayLoan env s1 context executionId repayAmount c1 of
                                   Inl (e, evs) \<Rightarrow> revert e (evsInfo @ evs)
                                 | Inr (c2, evsRepay) \<Rightarrow>
                                     Inr ((s1\<lparr>metrics := m2,
                                              flashLoanContexts := (flashLoanContexts s1)
                                                (executionId := zero_FlashLoanContext)\<rparr>, c2),
                                          evsInfo @ evsRepay @
                                          [FlashLoanEvent executionId 2 (ctx_sourceToken context)
                                             (ctx_amount context) profit]))))))"

section \<open>Funds and ownership\<close>

text \<open>
  Modelled from the spec: \<open>safeTransfer\<close> comes from the imported \<open>SafeERC20\<close> library,
  which is not part of the repository.  The withdrawals are administrative, owner-only
  operations that send tokens held by the contract to the owner; the transfer fails when the
  token reverts or answers \<open>false\<close>, and a token that returns no data is accepted.
\<close>

definition safeTransfer ::
  "environment \<Rightarrow> address \<Rightarrow> address \<Rightarrow> uint256 \<Rightarrow> chain \<Rightarrow> error + chain" where
  "safeTransfer env token recipient amount c =
     (case erc20_transfer env token (self env) recipient amount c of
        (TokenReverted e, c') \<Rightarrow> Inl e
      | (TokenReturned None, c') \<Rightarrow> Inr c'
      | (TokenReturned (Some True), c') \<Rightarrow> Inr c'
      | (TokenReturned (Some False), c') \<Rightarrow>
          Inl (ErrorString ''SafeERC20: ERC20 operation did not succeed''))"

definition emergencyWithdraw ::
  "environment \<Rightarrow> address \<Rightarrow> address \<Rightarrow> contract_state \<Rightarrow> chain
    \<Rightarrow> ((bool \<times> chain) \<times> event list) result" where
  "emergencyWithdraw env sender token s c =
     (if sender \<noteq> owner s then revert notOwnerError []
      else if token = 0 then revert (InvalidSetup 7) []
      else
        (let balance = balances c token (self env)
         in if balance = 0 then Inr ((False, c), [])
            else case safeTransfer env token (owner s) balance c of
                   Inl e \<Rightarrow> revert e []
                 | Inr c' \<Rightarrow> Inr ((True, c'), [])))"

definition withdrawFunds ::
  "environment \<Rightarrow> address \<Rightarrow> address \<Rightarrow> uint256 \<Rightarrow> contract_state \<Rightarrow> chain
    \<Rightarrow> ((bool \<times> chain) \<times> event list) result" where
  "withdrawFunds env sender token amount s c =
     (if sender \<noteq> owner s then revert notOwnerError []
      else if token = 0 then revert (InvalidSetup 7) []
      else if amount = 0 then revert (InvalidSetup 8) []
      else
        (let balance = balances c token (self env)
         in if balance < amount then Inr ((False, c), [])
            else case safeTransfer env token (owner s) amount c of
                   Inl e \<Rightarrow> revert e []
                 | Inr c' \<Rightarrow> Inr ((True, c'), [])))"

definition approveRouter ::
  "environment \<Rightarrow> address \<Rightarrow> address \<Rightarrow> address \<Rightarrow> uint256 \<Rightarrow> contract_state \<Rightarrow> chain
    \<Rightarrow> (chain \<times> event list) result" where
  "approveRouter env sender token router amount s c =
     (if sender \<noteq> owner s then revert notOwnerError []
      else safeApprove env token router amount c)"

text \<open>
  Modelled from the spec: \<open>transferOwnership\<close> and \<open>renounceOwnership\<close> come from the
  imported \<open>Ownable\<close> contract, which is not part of the repository.  They are
  administrative, owner-only entry points and announce the change with
  \<open>OwnershipTransferred\<close>; the first hands the contract to a new owner, the second leaves
  it without one.
\<close>

definition transferOwnership ::
  "address \<Rightarrow> address \<Rightarrow> contract_state \<Rightarrow> (contract_state \<times> event list) result" where
  "transferOwnership sender newOwner s =
     (if sender \<noteq> owner s then revert notOwnerError []
      else Inr (s\<lparr>owner := newOwner\<rparr>, [OwnershipTransferred (owner s) newOwner]))"

definition renounceOwnership ::
  "address \<Rightarrow> contract_state \<Rightarrow> (contract_state \<times> event list) result" where
  "renounceOwnership sender s =
     (if sender \<noteq> owner s then revert notOwnerError []
      else Inr (s\<lparr>owner := 0\<rparr>, [OwnershipTransferred (owner s) 0]))"

section \<open>Calls into the contract\<close>

text \<open>
  One call of an external function without reentrancy guard, by \<open>sender\<close>: the new storage
  and chain and the events, or the revert.  The values the functions return are dropped.
\<close>

definition storageOnly ::
  "chain \<Rightarrow> (contract_state \<times> event list) result
    \<Rightarrow> ((contract_state \<times> chain) \<times> event list) result" where
  "storageOnly c r = (case r of Inl err \<Rightarrow> Inl err | Inr (s', evs) \<Rightarrow> Inr ((s', c), evs))"

definition chainOnly ::
  "contract_state \<Rightarrow> (('a \<times> chain) \<times> event list) result
    \<Rightarrow> ((contract_state \<times> chain) \<times> event list) result" where
  "chainOnly s r = (case r of Inl err \<Rightarrow> Inl err | Inr ((x, c'), evs) \<Rightarrow> Inr ((s, c'), evs))"

fun invoke ::
  "environment \<Rightarrow> address \<Rightarrow> plain_call \<Rightarrow> contract_state \<Rightarrow> chain
    \<Rightarrow> ((contract_state \<times> chain) \<times> event list) result" where
  "invoke env sender (AdminCall call) s c = storageOnly c (admin_step sender call s)"
| "invoke env sender (ApproveRouter token router amount) s c =
     (case approveRouter env sender token router amount s c of
        Inl err \<Rightarrow> Inl err
      | Inr (c', evs) \<Rightarrow> Inr ((s, c'), evs))"
| "invoke env sender (EmergencyWithdraw token) s c =
     chainOnly s (emergencyWithdraw env sender token s c)"
| "invoke env sender (WithdrawFunds token amount) s c =
     chainOnly s (withdrawFunds env sender token amount s c)"
| "invoke env sender (TransferOwnership newOwner) s c =
     storageOnly c (transferOwnership sender newOwner s)"
| "invoke env sender RenounceOwnership s c = storageOnly c (renounceOwnership sender s)"
| "invoke env sender (ReceiveFlashLoan tokens amounts feeAmounts userData) s c =
     receiveFlashLoan env sender amounts feeAmounts userData s c"
| "invoke env sender (ExecuteArbitrageWrapper params) s c =
     (case executeArbitrageWrapper env sender params s c of
        Inl err \<Rightarrow> Inl err
      | Inr ((profit, s', c'), evs) \<Rightarrow> Inr ((s', c'), evs))"
| "invoke env sender (UnknownFunction calldata) s c =
     revert (ErrorString ''Function not found'') []"

text \<open>
  The run of the lender: its moves in order.  A call into the contract that reverts leaves
  storage, chain and log as they were before it.  \<open>executeFlashLoanArbitrage\<close> is not among
  the calls: the lender runs while that function is in flight, \<open>entered\<close> is set in the
  storage every one of these calls finds (none of them writes it), and \<open>nonReentrant\<close>
  refuses the call at once.
\<close>

fun runLender ::
  "environment \<Rightarrow> lender_move list \<Rightarrow> contract_state \<Rightarrow> chain
    \<Rightarrow> contract_state \<times> chain \<times> event list" where
  "runLender env [] s c = (s, c, [])"
| "runLender env (MovesTokens f # moves) s c = runLender env moves s (f c)"
| "runLender env (CallsBack sender call # moves) s c =
     (case invoke env sender call s c of
        Inl err \<Rightarrow> runLender env moves s c
      | Inr ((s', c'), evs) \<Rightarrow>
          (case runLender env moves s' c' of
             (s'', c'', evs') \<Rightarrow> (s'', c'', evs @ evs')))"

section \<open>The flash-loan entry point\<close>

text \<open>The ten arguments of \<open>executeFlashLoanArbitrage\<close>, as one record.\<close>

record FlashLoanRequest =
  a_sourceToken :: address
  a_targetToken :: address
  a_amount :: uint256
  a_firstSwapData :: bytes
  a_secondSwapData :: bytes
  a_firstRouter :: address
  a_secondRouter :: address
  a_testMode :: bool
  a_expectedFirstOutput :: int256
  a_expectedSecondOutput :: int256

definition deriveExecutionId :: "environment \<Rightarrow> address \<Rightarrow> FlashLoanRequest \<Rightarrow> bytes32" where
  "deriveExecutionId env sender args =
     keccak256 env
       (be_bytes 20 (a_sourceToken args) @ be_bytes 20 (a_targetToken args)
        @ be_bytes 32 (a_amount args) @ be_bytes 20 (a_firstRouter args)
        @ be_bytes 20 (a_secondRouter args) @ be_bytes 32 (blockTimestamp env)
        @ be_bytes 32 (blockNumber env) @ be_bytes 20 sender @ bytes_of_string ''flashloan'')"

definition contextOfRequest :: "FlashLoanRequest \<Rightarrow> bytes32 \<Rightarrow> FlashLoanContext" where
  "contextOfRequest args executionId =
     \<lparr>ctx_sourceToken = a_sourceToken args, ctx_targetToken = a_targetToken args,
      ctx_amount = a_amount args, ctx_firstSwapData = a_firstSwapData args,
      ctx_secondSwapData = a_secondSwapData args, ctx_firstRouter = a_firstRouter args,
      ctx_secondRouter = a_secondRouter args, ctx_testMode = a_testMode args,
      ctx_expectedFirstOutput = a_expectedFirstOutput args,
      ctx_expectedSecondOutput = a_expectedSecondOutput args,
      ctx_executionId = executionId\<rparr>"

definition panicReasonOf :: "uint256 \<Rightarrow> string" where
  "panicReasonOf errorCode =
     (if errorCode = 0x01 then ''Assertion failed''
      else if errorCode = 0x11 then ''Arithmetic operation underflow or overflow''
      else if errorCode = 0x12 then ''Division or modulo by zero''
      else if errorCode = 0x21 then ''Invalid enum value''
      else if errorCode = 0x22 then ''Storage byte array is incorrectly encoded''
      else if errorCode = 0x31 then ''calldata is too short''
      else if errorCode = 0x32 then ''Return data too short''
      else if errorCode = 0x41 then ''Invalid array length''
      else if errorCode = 0x51 then ''Invalid memory array access''
      else ''Unknown panic code: '' @ uint2str errorCode)"

text \<open>The event logged by the \<open>catch\<close> clause that takes the lender's failure.\<close>

definition flashLoanFailureLog :: "environment \<Rightarrow> bytes32 \<Rightarrow> error \<Rightarrow> event" where
  "flashLoanFailureLog env executionId e =
     (case e of
        ErrorString reason \<Rightarrow> StateLog executionId ''FlashLoanError'' reason
      | Panic errorCode \<Rightarrow> StateLog executionId ''FlashLoanPanic'' (panicReasonOf errorCode)
      | other \<Rightarrow> StateLog executionId ''FlashLoanLowLevelError'' (lowLevelErrorMessage env other))"

text \<open>
  The body of each \<open>catch\<close> clause: the two failure counters are incremented, the context is
  deleted and the current balance of the source token is returned.
\<close>

definition flashLoanFailed_branch ::
  "environment \<Rightarrow> bytes32 \<Rightarrow> address \<Rightarrow> error \<Rightarrow> contract_state \<Rightarrow> chain
    \<Rightarrow> ((uint256 \<times> contract_state \<times> chain) \<times> event list) result" where
  "flashLoanFailed_branch env executionId sourceToken e s c =
     (let evs = [flashLoanFailureLog env executionId e]
      in case checked_add (flashLoanFailed (metrics s)) 1 of
           Inl err \<Rightarrow> revert err evs
         | Inr failed \<Rightarrow>
             (case checked_add (flashLoanExecutions (metrics s)) 1 of
                Inl err \<Rightarrow> revert err evs
              | Inr executions \<Rightarrow>
                  Inr ((balances c sourceToken (self env),
                        s\<lparr>metrics := (metrics s)\<lparr>flashLoanFailed := failed,
                                                  flashLoanExecutions := executions\<rparr>,
                          flashLoanContexts := (flashLoanContexts s)
                            (executionId := zero_FlashLoanContext)\<rparr>,
                        c), evs)))"

definition flashLoanSucceeded_branch ::
  "environment \<Rightarrow> bytes32 \<Rightarrow> address \<Rightarrow> uint256 \<Rightarrow> contract_state \<Rightarrow> chain
    \<Rightarrow> ((uint256 \<times> contract_state \<times> chain) \<times> event list) result" where
  "flashLoanSucceeded_branch env executionId sourceToken preCallBalance s c =
     (case checked_add (flashLoanExecutions (metrics s)) 1 of
        Inl err \<Rightarrow> revert err []
      | Inr executions \<Rightarrow>
          (case checked_add (flashLoanSuccessful (metrics s)) 1 of
             Inl err \<Rightarrow> revert err []
           | Inr successful \<Rightarrow>
               (let finalBalance = balances c sourceToken (self env)
                in Inr ((finalBalance,
                         s\<lparr>metrics := (metrics s)\<lparr>flashLoanExecutions := executions,
                                                   flashLoanSuccessful := successful\<rparr>\<rparr>,
                         c),
                        [StateLog executionId ''BalanceChange''
                           (''Pre: '' @ uint2str preCallBalance
                            @ '', Post: '' @ uint2str finalBalance),
                         StateLog executionId ''FlashLoanComplete'' ''Success'']))))"

text \<open>
  Modelled from the spec: \<open>nonReentrant\<close> and \<open>whenNotPaused\<close> come from the imported
  \<open>ReentrancyGuard\<close> and \<open>Pausable\<close> contracts, which are not part of the repository.  The
  reentrancy guard prevents a second call from starting while one is in flight, and the
  pausable switch halts all new executions.  \<open>nonReentrant\<close> stands first in the source and
  is checked first; it marks the call as entered for its duration.
\<close>

definition reentrantError :: error where
  "reentrantError = ErrorString ''ReentrancyGuard: reentrant call''"

text \<open>
  The storage with which the lender is called: the call is marked as entered and the
  context is stored under the derived execution id.
\<close>

definition openFlashLoan ::
  "environment \<Rightarrow> address \<Rightarrow> FlashLoanRequest \<Rightarrow> contract_state \<Rightarrow> contract_state" where
  "openFlashLoan env sender args s =
     s\<lparr>entered := True,
       flashLoanContexts := (flashLoanContexts s)
         (deriveExecutionId env sender args :=
            contextOfRequest args (deriveExecutionId env sender args))\<rparr>"

text \<open>
  The call \<open>balancerVault.flashLoan(this, tokens, amounts, userData)\<close> and its outcome.
  The lender is called with the storage in which the guard is set and the context stored.
\<close>

definition lenderCall ::
  "environment \<Rightarrow> address \<Rightarrow> FlashLoanRequest \<Rightarrow> contract_state \<Rightarrow> chain \<Rightarrow> lender_outcome" where
  "lenderCall env sender args s c =
     (case lender_flashLoan env (self env) [a_sourceToken args] [a_amount args]
             (abi_encode_bytes32 (deriveExecutionId env sender args))
             (openFlashLoan env sender args s) c of
        VaultWithoutCode \<Rightarrow> LoanNotCallable
      | VaultReverts e \<Rightarrow> LoanFailed e
      | VaultReturns moves \<Rightarrow>
          (case runLender env moves (openFlashLoan env sender args s) c of
             (s2, c2, evsLoan) \<Rightarrow> LoanCompleted s2 c2 evsLoan))"

text \<open>
  \<open>executeFlashLoanArbitrage\<close>.  The \<open>try\<close> around the lender's call catches what the
  lender reverts with.  It does not catch the check, made by the caller before a high-level
  call, that the address holds code: with no code there the whole function reverts, without
  revert data.
\<close>

definition executeFlashLoanArbitrage ::
  "environment \<Rightarrow> address \<Rightarrow> FlashLoanRequest \<Rightarrow> contract_state \<Rightarrow> chain
    \<Rightarrow> ((uint256 \<times> contract_state \<times> chain) \<times> event list) result" where
  "executeFlashLoanArbitrage env sender args s c =
     (if entered s then revert reentrantError []
      else if paused s then revert pausedError []
      else if a_sourceToken args = a_targetToken args then revert InvalidTokens []
      else if a_amount args = 0 then revert ZeroAmount []
      else if balancerVault s = 0 then revert InvalidVaultAddress []
      else if \<not> token_isEnabled (tokenConfigs s (a_sourceToken args)) then revert DisabledToken []
      else
        (let evsExpected =
               [StateLog 0 ''ExpectedValues''
                  (''First: '' @ int2str (a_expectedFirstOutput args)
                   @ '', Second: '' @ int2str (a_expectedSecondOutput args)
                   @ '', TestMode: '' @ boolStr (a_testMode args))];
             executionId = deriveExecutionId env sender args;
             evsStart = evsExpected @
               [FlashLoanEvent executionId 1 (a_sourceToken args) (a_amount args) 0];
             preCallBalance = balances c (a_sourceToken args) (self env)
         in case (case lenderCall env sender args s c of
                    LoanCompleted s2 c2 evsLoan \<Rightarrow>
                      prefix_events (evsStart @ evsLoan)
                        (flashLoanSucceeded_branch env executionId (a_sourceToken args)
                           preCallBalance s2 c2)
                  | LoanFailed e \<Rightarrow>
                      prefix_events evsStart
                        (flashLoanFailed_branch env executionId (a_sourceToken args) e
                           (openFlashLoan env sender args s) c)
                  | LoanNotCallable \<Rightarrow> revert (RawRevert []) evsStart) of
              Inl err \<Rightarrow> Inl err
            | Inr ((balance, s3, c3), evs) \<Rightarrow> Inr ((balance, s3\<lparr>entered := False\<rparr>, c3), evs)))"

section \<open>Traces\<close>

text \<open>The trade profits carried by the \<open>ArbitrageExecuted\<close> events of a trace, in order.\<close>

fun arbitrageProfits :: "event list \<Rightarrow> int256 list" where
  "arbitrageProfits [] = []"
| "arbitrageProfits (ArbitrageExecuted src tgt amount balance final profit expected test # evs) =
     profit # arbitrageProfits evs"
| "arbitrageProfits (ev # evs) = arbitrageProfits evs"

text \<open>
  The profits carried by the \<open>FlashLoanEvent\<close> events of stage 2 (completed) of a trace, in
  order: one for each callback that ran to its end.
\<close>

fun completedLoanProfits :: "event list \<Rightarrow> int256 list" where
  "completedLoanProfits [] = []"
| "completedLoanProfits (FlashLoanEvent executionId stage token amount profit # evs) =
     (if stage = 2 then profit # completedLoanProfits evs else completedLoanProfits evs)"
| "completedLoanProfits (ev # evs) = completedLoanProfits evs"

text \<open>What a signed profit adds to a cumulative profit counter: its positive part.\<close>

definition positivePart :: "int256 \<Rightarrow> nat" where
  "positivePart profit = (if 0 < sint profit then nat (sint profit) else 0)"

text \<open>
  The sum of the positive parts of the trade profits, and of the profits of the completed
  callbacks, announced in a trace.
\<close>

definition tradeGains :: "event list \<Rightarrow> nat" where
  "tradeGains evs = sum_list (map positivePart (arbitrageProfits evs))"

definition loanGains :: "event list \<Rightarrow> nat" where
  "loanGains evs = sum_list (map positivePart (completedLoanProfits evs))"

section \<open>Histories of the contract\<close>

text \<open>
  Every external function that writes: the calls without reentrancy guard and
  \<open>executeFlashLoanArbitrage\<close>.  \<open>perform\<close> is one call of one of them.
\<close>

datatype operation =
    Plain plain_call
  | ExecuteFlashLoanArbitrage FlashLoanRequest

fun perform ::
  "environment \<Rightarrow> address \<Rightarrow> operation \<Rightarrow> contract_state \<Rightarrow> chain
    \<Rightarrow> ((contract_state \<times> chain) \<times> event list) result" where
  "perform env sender (Plain call) s c = invoke env sender call s c"
| "perform env sender (ExecuteFlashLoanArbitrage args) s c =
     (case executeFlashLoanArbitrage env sender args s c of
        Inl err \<Rightarrow> Inl err
      | Inr ((balance, s', c'), evs) \<Rightarrow> Inr ((s', c'), evs))"

text \<open>
  \<open>reached k s\<close>: the storage \<open>s\<close> is what \<open>k\<close> transactions that did not revert have made
  of a freshly deployed contract.  Each transaction is a call of one external function, by
  any sender, in any environment, on any chain.
\<close>

inductive reached :: "nat \<Rightarrow> contract_state \<Rightarrow> bool" where
  deployment: "constructor deployer vaultAddress = Inr s \<Longrightarrow> reached 0 s"
| transaction:
    "reached k s \<Longrightarrow> perform env sender operation s c = Inr ((s', c'), evs)
      \<Longrightarrow> reached (Suc k) s'"

text \<open>
  \<open>later s s'\<close>: the storage \<open>s'\<close> is found at or after the moment at which the storage
  was \<open>s\<close>, with nothing done since that moment rolled back.  Time goes on by a call of an
  external function that returns (a transaction, or a call made by a foreign contract while
  a flash loan is in flight), by the entry into \<open>executeFlashLoanArbitrage\<close> before the
  lender is called, from the return of the engine inside the callback to the return of the
  callback, and from the return of the lender to the return of
  \<open>executeFlashLoanArbitrage\<close>.
\<close>

inductive later :: "contract_state \<Rightarrow> contract_state \<Rightarrow> bool" where
  now: "later s s"
| call_returned:
    "later s s1 \<Longrightarrow> perform env sender operation s1 c = Inr ((s2, c2), evs) \<Longrightarrow> later s s2"
| loan_opened:
    "later s s1 \<Longrightarrow> later s (openFlashLoan env sender args s1)"
| callback_finished:
    "later s s1 \<Longrightarrow> abi_decode_bytes32 userData = Some executionId
      \<Longrightarrow> tryArbitrage env (paramsOfContext (flashLoanContexts s0 executionId) executionId) s0 c
          = (arbitrageSuccess, profit, s1, c1, evsArbitrage)
      \<Longrightarrow> receiveFlashLoan env sender amounts feeAmounts userData s0 c = Inr ((s2, c2), evs)
      \<Longrightarrow> later s s2"
| loan_finished:
    "later s s1 \<Longrightarrow> lenderCall env sender args s0 c = LoanCompleted s1 c1 evsLoan
      \<Longrightarrow> executeFlashLoanArbitrage env sender args s0 c = Inr ((balance, s2, c2), evs)
      \<Longrightarrow> later s s2"

section \<open>An example environment\<close>

text \<open>
  Two standard tokens, two routers and a lender, for the concrete runs below.  The first
  router takes 1000 units of the source token from the contract and gives 500 units of the
  target token; the second takes those 500 units back and pays \<open>900 + b\<close> units of the
  source token, where \<open>b\<close> is the first byte of the payload.  A router called with an empty
  payload fails.
\<close>

definition SELF :: address where
  "SELF = 0xC0DE"

definition TOKEN_S :: address where
  "TOKEN_S = 0x5A"

definition TOKEN_T :: address where
  "TOKEN_T = 0x7B"

definition ROUTER_B :: address where
  "ROUTER_B = 0xE593"

definition credit :: "address \<Rightarrow> address \<Rightarrow> uint256 \<Rightarrow> chain \<Rightarrow> chain" where
  "credit token holder n c =
     c\<lparr>balances := (balances c)(token := (balances c token)(holder := balances c token holder + n))\<rparr>"

definition debit :: "address \<Rightarrow> address \<Rightarrow> uint256 \<Rightarrow> chain \<Rightarrow> chain" where
  "debit token holder n c =
     c\<lparr>balances := (balances c)(token := (balances c token)(holder := balances c token holder - n))\<rparr>"

definition demo_raw_call :: "address \<Rightarrow> uint256 \<Rightarrow> bytes \<Rightarrow> chain \<Rightarrow> bool \<times> bytes \<times> chain" where
  "demo_raw_call router gas payload c =
     (case payload of
        [] \<Rightarrow> (False, [], c)
      | b # bs \<Rightarrow>
          (if router = ROUTER_A
           then (True, [], credit TOKEN_T SELF 500 (debit TOKEN_S SELF 1000 c))
           else (True, [], credit TOKEN_S SELF (900 + ucast b) (debit TOKEN_T SELF 500 c))))"

definition demo_approve ::
  "address \<Rightarrow> address \<Rightarrow> address \<Rightarrow> uint256 \<Rightarrow> chain \<Rightarrow> token_answer \<times> chain" where
  "demo_approve token holder spender amount c =
     (TokenReturned (Some True),
      c\<lparr>allowances := (allowances c)(token := (allowances c token)
           (holder := (allowances c token holder)(spender := amount)))\<rparr>)"

definition demo_transfer ::
  "address \<Rightarrow> address \<Rightarrow> address \<Rightarrow> uint256 \<Rightarrow> chain \<Rightarrow> token_answer \<times> chain" where
  "demo_transfer token sender recipient amount c =
     (if balances c token sender < amount
      then (TokenReverted (ErrorString ''ERC20: transfer amount exceeds balance''), c)
      else (TokenReturned (Some True), credit token recipient amount (debit token sender amount c)))"

definition demo_transferFrom ::
  "address \<Rightarrow> address \<Rightarrow> address \<Rightarrow> address \<Rightarrow> uint256 \<Rightarrow> chain \<Rightarrow> token_answer \<times> chain" where
  "demo_transferFrom token spender holder recipient amount c =
     (if allowances c token holder spender < amount \<or> balances c token holder < amount
      then (TokenReverted (ErrorString ''ERC20: insufficient allowance''), c)
      else (TokenReturned (Some True), credit token recipient amount (debit token holder amount c)))"

definition demo_env :: environment where
  "demo_env =
     \<lparr>self = SELF, blockTimestamp = 1700000000, blockNumber = 59000000,
      keccak256 = (\<lambda>bs. 0x1D), errorSelector = (\<lambda>e. 0),
      raw_call = demo_raw_call, erc20_approve = demo_approve,
      erc20_transfer = demo_transfer, erc20_transferFrom = demo_transferFrom,
      lender_flashLoan = (\<lambda>recipient tokens amounts userData s c.
         VaultReverts (ErrorString ''BAL#528'')),
      memoryBehind = (\<lambda>errorData. [])\<rparr>"

text \<open>The same environment at a moment when the routers reject every swap.\<close>

definition failing_env :: environment where
  "failing_env = demo_env\<lparr>raw_call := (\<lambda>router gas payload c. (False, [], c))\<rparr>"

text \<open>
  The contract holds the 1000 borrowed units of the source token; the owner holds 10000
  units and has allowed the contract to pull them (the test-mode cover).
\<close>

definition demo_chain :: chain where
  "demo_chain =
     \<lparr>balances = (\<lambda>token holder.
         if token = TOKEN_S \<and> holder = SELF then 1000
         else if token = TOKEN_S \<and> holder = OWNER then 10000 else 0),
      allowances = (\<lambda>token holder spender.
         if token = TOKEN_S \<and> holder = OWNER \<and> spender = SELF then 10000 else 0)\<rparr>"

definition demo_params :: "uint8 \<Rightarrow> bool \<Rightarrow> ArbitrageParams" where
  "demo_params b testMode =
     \<lparr>p_sourceToken = TOKEN_S, p_targetToken = TOKEN_T, p_amount = 1000,
      p_firstSwapData = [1], p_secondSwapData = [b], p_firstRouter = ROUTER_A,
      p_secondRouter = ROUTER_B, p_testMode = testMode, p_expectedFirstOutput = 500,
      p_expectedSecondOutput = 1040, p_executionId = 0x1D\<rparr>"

definition demo_request :: "uint8 \<Rightarrow> bool \<Rightarrow> FlashLoanRequest" where
  "demo_request b testMode =
     \<lparr>a_sourceToken = TOKEN_S, a_targetToken = TOKEN_T, a_amount = 1000,
      a_firstSwapData = [1], a_secondSwapData = [b], a_firstRouter = ROUTER_A,
      a_secondRouter = ROUTER_B, a_testMode = testMode, a_expectedFirstOutput = 500,
      a_expectedSecondOutput = 1040\<rparr>"

text \<open>The deployed contract after the owner has configured the source token.\<close>

definition configured :: contract_state where
  "configured = deployed\<lparr>tokenConfigs := (tokenConfigs deployed)(TOKEN_S :=
     \<lparr>token_isEnabled = True, token_maxAmount = 1000000, token_minAmount = 5,
      token_decimals = 6\<rparr>)\<rparr>"

text \<open>
  The storage after a run of the engine on the freshly deployed contract that reverted inside
  the \<open>try\<close> of the callback: only \<open>executed = false\<close> has been written.
\<close>

definition after_failed_attempt :: contract_state where
  "after_failed_attempt =
     deployed\<lparr>tradeContexts := (tradeContexts deployed)
       (0x1D := (tradeContexts deployed 0x1D)\<lparr>tc_executed := False\<rparr>)\<rparr>"

text \<open>
  The storage of a contract whose lender has failed \<open>2 ^ 256 - 1\<close> times, and the storage
  in which the callback finds the context of the example request.
\<close>

definition worn_out :: contract_state where
  "worn_out = configured\<lparr>metrics := zero_Metrics\<lparr>flashLoanFailed := 2 ^ 256 - 1,
     flashLoanExecutions := 2 ^ 256 - 1\<rparr>\<rparr>"

definition demo_userData :: bytes where
  "demo_userData =
     [0, 0, 0, 0, 0, 0, 0, 0, 0, 0, 0, 0, 0, 0, 0, 0,
      0, 0, 0, 0, 0, 0, 0, 0, 0, 0, 0, 0, 0, 0, 0, 0x1D]"

definition in_flight :: "uint8 \<Rightarrow> bool \<Rightarrow> contract_state" where
  "in_flight b testMode =
     configured\<lparr>entered := True,
       flashLoanContexts := (flashLoanContexts configured)
         (0x1D := contextOfRequest (demo_request b testMode) 0x1D)\<rparr>"

text \<open>
  A lender that lends: it hands the amount asked for to the recipient and calls the
  callback, with no fee.  \<open>lending_chain\<close> is the chain before such a loan, the lender
  holding 5000 units of the source token, and \<open>lent_chain\<close> the chain the callback finds.
\<close>

definition lending_chain :: chain where
  "lending_chain =
     \<lparr>balances = (\<lambda>token holder.
         if token = TOKEN_S \<and> holder = VAULT then 5000
         else if token = TOKEN_S \<and> holder = OWNER then 10000 else 0),
      allowances = (\<lambda>token holder spender.
         if token = TOKEN_S \<and> holder = OWNER \<and> spender = SELF then 10000 else 0)\<rparr>"

definition lending_env :: environment where
  "lending_env =
     demo_env\<lparr>lender_flashLoan := (\<lambda>recipient tokens amounts userData s c.
       VaultReturns
         [MovesTokens (\<lambda>c. credit (hd tokens) recipient (hd amounts)
                             (debit (hd tokens) VAULT (hd amounts) c)),
          CallsBack VAULT (ReceiveFlashLoan tokens amounts [0] userData)])\<rparr>"

definition lent_chain :: chain where
  "lent_chain = credit TOKEN_S SELF 1000 (debit TOKEN_S VAULT 1000 lending_chain)"

text \<open>
  Two pairs of routers for the extremes of the profit: with the first the second swap pays
  \<open>2 ^ 255 + 1000\<close> units of the source token; with the second the first swap takes
  \<open>2 ^ 255 + 1000\<close> units, all that the contract holds on \<open>wealthy_chain\<close>, and the
  second swap pays nothing.
\<close>

definition windfall_env :: environment where
  "windfall_env =
     demo_env\<lparr>raw_call := (\<lambda>router gas payload c.
       if router = ROUTER_A
       then (True, [], credit TOKEN_T SELF 500 (debit TOKEN_S SELF 1000 c))
       else (True, [], credit TOKEN_S SELF (2 ^ 255 + 1000) (debit TOKEN_T SELF 500 c)))\<rparr>"

definition wipeout_env :: environment where
  "wipeout_env =
     demo_env\<lparr>raw_call := (\<lambda>router gas payload c.
       if router = ROUTER_A
       then (True, [], credit TOKEN_T SELF 500 (debit TOKEN_S SELF (2 ^ 255 + 1000) c))
       else (True, [], debit TOKEN_T SELF 500 c))\<rparr>"

definition wealthy_chain :: chain where
  "wealthy_chain =
     \<lparr>balances = (\<lambda>token holder.
         if token = TOKEN_S \<and> holder = SELF then 2 ^ 255 + 1000 else 0),
      allowances = (\<lambda>token holder spender. 0)\<rparr>"

section \<open>What a call leaves behind\<close>

text \<open>
  Three relations between the storage before a call, the events of the call and the storage
  after it.  \<open>accounted\<close>: each cumulative profit counter has grown by the sum of the
  positive profits announced in the events.  \<open>marksKept\<close>: every execution id marked as
  executed is still marked.  \<open>guardKept\<close>: the reentrancy status, the lender's address and
  the two counters of flash-loan attempts are as they were.
\<close>

definition accounted :: "contract_state \<Rightarrow> event list \<Rightarrow> contract_state \<Rightarrow> bool" where
  "accounted s evs s' =
     (unat (totalProfit (metrics s')) = unat (totalProfit (metrics s)) + tradeGains evs
      \<and> unat (flashLoanProfit (metrics s')) = unat (flashLoanProfit (metrics s)) + loanGains evs)"

definition marksKept :: "contract_state \<Rightarrow> contract_state \<Rightarrow> bool" where
  "marksKept s s' = (\<forall>executionId. executedTrades s executionId \<longrightarrow> executedTrades s' executionId)"

definition guardKept :: "contract_state \<Rightarrow> contract_state \<Rightarrow> bool" where
  "guardKept s s' =
     (entered s' = entered s \<and> balancerVault s' = balancerVault s
      \<and> flashLoanFailed (metrics s') = flashLoanFailed (metrics s)
      \<and> flashLoanExecutions (metrics s') = flashLoanExecutions (metrics s))"

section \<open>Verified properties\<close>

subsection \<open>Signed reading of 256-bit words\<close>

lemma uint_MAX_INT256: "uint MAX_INT256 = 2 ^ 255 - 1"
  by (simp add: MAX_INT256_def)

lemma sint_MAX_INT256: "sint MAX_INT256 = 2 ^ 255 - 1"
  by (simp add: MAX_INT256_def)

lemma sint_MIN_INT256: "sint MIN_INT256 = - (2 ^ 255)"
  by (simp add: MIN_INT256_def)

lemma sint_small:
  assumes "uint (w :: uint256) \<le> 2 ^ 255 - 1"
  shows "sint w = uint w"
proof -
  have "0 \<le> uint w"
    by simp
  then have "- (2 ^ 255) \<le> uint w" and "uint w < 2 ^ 255"
    using assms by linarith+
  then have "signed_take_bit 255 (uint w) = uint w"
    by (intro signed_take_bit_int_eq_self) simp_all
  then show ?thesis
    by (simp add: sint_uint)
qed

lemma sint_neg_small:
  assumes "uint (w :: uint256) \<le> 2 ^ 255 - 1"
  shows "sint (- w) = - uint w"
proof -
  have "0 \<le> uint w"
    by simp
  then have "- (2 ^ 255) \<le> - uint w" and "- uint w < 2 ^ 255"
    using assms by linarith+
  then have "signed_take_bit 255 (- uint w) = - uint w"
    by (intro signed_take_bit_int_eq_self) simp_all
  then show ?thesis
    using sint_small [OF assms] by (simp add: sint_word_ariths)
qed
lemma word_gt_MAX_iff: "(w > MAX_INT256) = (uint w > 2 ^ 255 - 1)"
  by (simp add: word_less_def uint_MAX_INT256)

text \<open>
  The profit computed in step 7 from an initial and a final balance: the exact signed
  difference when it fits in \<open>int256\<close>, otherwise the nearest bound.
\<close>

lemma calcTradeProfit_saturating:
  "(in_int256 (uint final - uint initial) \<longrightarrow>
      sint (fst (calcTradeProfit eid initial final)) = uint final - uint initial)
   \<and> (uint final - uint initial > 2 ^ 255 - 1 \<longrightarrow>
      fst (calcTradeProfit eid initial final) = MAX_INT256
      \<and> sint (fst (calcTradeProfit eid initial final)) = 2 ^ 255 - 1)
   \<and> (uint initial - uint final > 2 ^ 255 - 1 \<longrightarrow>
      fst (calcTradeProfit eid initial final) = MIN_INT256
      \<and> sint (fst (calcTradeProfit eid initial final)) = - (2 ^ 255))"
proof (cases "initial \<le> final")
  case True
  then have le: "uint initial \<le> uint final"
    by (simp add: word_le_def)
  then have sub: "uint (final - initial) = uint final - uint initial"
    using uint_sub_lem [of initial final] by simp
  show ?thesis
  proof (cases "final - initial > MAX_INT256")
    case big: True
    then have "uint final - uint initial > 2 ^ 255 - 1"
      using sub by (simp add: word_gt_MAX_iff)
    with True big le show ?thesis
      by (simp add: calcTradeProfit_def Let_def in_int256_def sint_MAX_INT256)
  next
    case small: False
    then have bound: "uint (final - initial) \<le> 2 ^ 255 - 1"
      by (simp add: word_gt_MAX_iff)
    have "sint (final - initial) = uint final - uint initial"
      using sint_small [OF bound] sub by simp
    with True small le bound sub show ?thesis
      by (simp add: calcTradeProfit_def Let_def)
  qed
next
  case False
  then have lt: "uint final < uint initial"
    by (simp add: word_le_def)
  then have sub: "uint (initial - final) = uint initial - uint final"
    using uint_sub_lem [of final initial] by simp
  show ?thesis
  proof (cases "initial - final > MAX_INT256")
    case big: True
    then have "uint initial - uint final > 2 ^ 255 - 1"
      using sub by (simp add: word_gt_MAX_iff)
    with False big lt show ?thesis
      by (simp add: calcTradeProfit_def Let_def in_int256_def sint_MIN_INT256)
  next
    case small: False
    then have bound: "uint (initial - final) \<le> 2 ^ 255 - 1"
      by (simp add: word_gt_MAX_iff)
    have "sint (- (initial - final)) = uint final - uint initial"
      using sint_neg_small [OF bound] sub by simp
    with False small lt bound sub show ?thesis
      by (simp add: calcTradeProfit_def Let_def)
  qed
qed

subsection \<open>Configuration of a DEX\<close>

lemma storeFeeTiers_fails_iff:
  "isl (storeFeeTiers ts fees) \<longleftrightarrow> (\<exists>t \<in> set ts. t \<ge> MAX_BPS)"
  by (induction ts arbitrary: fees) auto

lemma storeFeeTiers_error:
  "storeFeeTiers ts fees = Inl e \<Longrightarrow> e = InvalidSetup 3"
  by (induction ts arbitrary: fees) (auto split: if_splits)

text \<open>
  C5, the scenario as the specification gives it: the fee tier 10000 is not below
  \<open>MAX_BPS\<close>, so the call of the owner reverts with \<open>InvalidSetup(3)\<close>.
\<close>

theorem configureDex_example_reverts:
  "configureDex OWNER ''uniswap'' ROUTER_A 30 3000000 [100, 500, 3000, 10000] deployed
     = Inl (InvalidSetup 3, [])"
  by (simp add: configureDex_def deployed_def initial_storage_def OWNER_def ROUTER_A_def
      revert_def MAX_BPS_def Let_def zero_DexConfig_def)

text \<open>
  C5, amended.  Called by the owner, \<open>configureDex\<close> fails exactly when the router is the
  zero address, the name is empty, or some supplied fee tier is at least 10000 bps; whenever
  it succeeds, \<open>getDexConfig\<close> of that name returns the router, the default fee, the gas
  limit and \<open>true\<close>.  In particular the scenario succeeds with the tiers 100, 500, 3000.
\<close>

theorem configureDex_fails_iff:
  assumes "sender = owner s"
  shows "(isl (configureDex sender dexName router defaultFee maxGasUsage tiers s)
           \<longleftrightarrow> router = 0 \<or> dexName = [] \<or> (\<exists>t \<in> set tiers. t \<ge> 10000))
         \<and> (\<forall>s' evs. configureDex sender dexName router defaultFee maxGasUsage tiers s
                = Inr (s', evs)
              \<longrightarrow> getDexConfig s' dexName = (router, defaultFee, maxGasUsage, True))"
proof -
  let ?cfg = "(dexConfigs s dexName)\<lparr>dex_router := router, dex_isEnabled := True,
       dex_defaultFee := defaultFee, dex_maxGasUsage := maxGasUsage\<rparr>"
  have tiers: "isl (storeFeeTiers tiers (dex_supportedFees ?cfg))
      \<longleftrightarrow> (\<exists>t \<in> set tiers. t \<ge> 10000)"
    using storeFeeTiers_fails_iff [of tiers "dex_supportedFees ?cfg"]
    by (simp add: MAX_BPS_def)
  show ?thesis
    using assms tiers
    by (auto simp: configureDex_def revert_def Let_def getDexConfig_def split: sum.splits)
qed

theorem configureDex_fails_iff_witness:
  "OWNER = owner deployed
   \<and> \<not> isl (configureDex OWNER ''uniswap'' ROUTER_A 30 3000000 [100, 500, 3000] deployed)
   \<and> getDexConfig
        (fst (projr (configureDex OWNER ''uniswap'' ROUTER_A 30 3000000 [100, 500, 3000] deployed)))
        ''uniswap'' = (ROUTER_A, 30, 3000000, True)"
proof -
  have own: "OWNER = owner deployed"
    by (simp add: deployed_def initial_storage_def)
  have ok: "\<not> isl (configureDex OWNER ''uniswap'' ROUTER_A 30 3000000 [100, 500, 3000] deployed)"
    using configureDex_fails_iff [OF own, of "''uniswap''" ROUTER_A 30 3000000 "[100, 500, 3000]"]
    by (simp add: ROUTER_A_def)
  then obtain s' evs where
    eq: "configureDex OWNER ''uniswap'' ROUTER_A 30 3000000 [100, 500, 3000] deployed = Inr (s', evs)"
    by (cases "configureDex OWNER ''uniswap'' ROUTER_A 30 3000000 [100, 500, 3000] deployed") auto
  then have "getDexConfig s' ''uniswap'' = (ROUTER_A, 30, 3000000, True)"
    using configureDex_fails_iff [OF own, of "''uniswap''" ROUTER_A 30 3000000 "[100, 500, 3000]"]
    by blast
  with own ok eq show ?thesis
    by simp
qed

subsection \<open>Preconditions of the configuration calls\<close>

lemma admin_step_keeps_unconfigured_dex:
  assumes "dexConfigs s n = zero_DexConfig" and "\<not> configures_dex n c"
  shows "dexConfigs (commit (admin_step sender c s) s) n = zero_DexConfig"
proof (cases c)
  case (ConfigureDex n' r f g ts)
  with assms have "n' \<noteq> n" by auto
  with assms ConfigureDex show ?thesis
    by (auto simp: commit_def configureDex_def revert_def Let_def split: sum.splits)
next
  case (ConfigurePool p f l n')
  with assms show ?thesis
    by (auto simp: commit_def configurePool_def revert_def Let_def zero_DexConfig_def)
next
  case (SetDexEnabled n' b)
  with assms show ?thesis
    by (auto simp: commit_def setDexEnabled_def revert_def zero_DexConfig_def)
qed (auto simp: commit_def configureToken_def setTokenEnabled_def setRouterAddresses_def
    pause_def unpause_def triggerCircuitBreaker_def revert_def assms)

lemma run_admin_keeps_unconfigured_dex:
  assumes "never_configured_dex n history" and "dexConfigs s n = zero_DexConfig"
  shows "dexConfigs (run_admin history s) n = zero_DexConfig"
  using assms
proof (induction history arbitrary: s)
  case Nil
  then show ?case by simp
next
  case (Cons a history)
  obtain sender c where a: "a = (sender, c)"
    by (cases a)
  from Cons.prems a have "\<not> configures_dex n c" and rest: "never_configured_dex n history"
    by (simp_all add: never_configured_dex_def)
  then have "dexConfigs (commit (admin_step sender c s) s) n = zero_DexConfig"
    using Cons.prems(2) by (intro admin_step_keeps_unconfigured_dex)
  with Cons.IH [OF rest] a show ?case
    by simp
qed

text \<open>
  C9.  \<open>configurePool\<close> fails whenever the named DEX was never configured (no call of
  \<open>configureDex\<close> for that name in the administrative history since deployment) or is not
  enabled, and also when the pool is the zero address, the fee is at least 10000 bps or the
  router of the DEX is unset; \<open>configureToken\<close> fails for every pair with
  \<open>maxAmount \<le> minAmount\<close>, equal values included.
\<close>

theorem configuration_preconditions:
  "(never_configured_dex dexName history \<longrightarrow>
      isl (configurePool sender pool fee minLiquidity dexName
             (run_admin history (initial_storage deployer vaultAddress))))
   \<and> (\<not> dex_isEnabled (dexConfigs s dexName) \<or> pool = 0 \<or> fee \<ge> 10000
        \<or> dex_router (dexConfigs s dexName) = 0 \<longrightarrow>
      isl (configurePool sender pool fee minLiquidity dexName s))
   \<and> (maxAmount \<le> minAmount \<longrightarrow>
      isl (configureToken sender token maxAmount minAmount decimals s))"
proof (intro conjI impI)
  assume "never_configured_dex dexName history"
  then have "dexConfigs (run_admin history (initial_storage deployer vaultAddress)) dexName
      = zero_DexConfig"
    by (intro run_admin_keeps_unconfigured_dex) (simp_all add: initial_storage_def)
  then show "isl (configurePool sender pool fee minLiquidity dexName
      (run_admin history (initial_storage deployer vaultAddress)))"
    by (simp add: configurePool_def revert_def zero_DexConfig_def)
next
  assume "\<not> dex_isEnabled (dexConfigs s dexName) \<or> pool = 0 \<or> fee \<ge> 10000
      \<or> dex_router (dexConfigs s dexName) = 0"
  then show "isl (configurePool sender pool fee minLiquidity dexName s)"
    by (auto simp: configurePool_def revert_def MAX_BPS_def Let_def)
next
  assume "maxAmount \<le> minAmount"
  then show "isl (configureToken sender token maxAmount minAmount decimals s)"
    by (simp add: configureToken_def revert_def)
qed

theorem configuration_preconditions_witness:
  "never_configured_dex ''uniswap''
      [(OWNER, ConfigureDex ''traderjoe'' ROUTER_A 30 3000000 [30]),
       (OWNER, SetDexEnabled ''uniswap'' True)]
   \<and> isl (configurePool OWNER POOL_P 30 1000 ''uniswap''
        (run_admin [(OWNER, ConfigureDex ''traderjoe'' ROUTER_A 30 3000000 [30]),
                    (OWNER, SetDexEnabled ''uniswap'' True)] (initial_storage OWNER VAULT)))
   \<and> (10000 :: uint256) \<ge> 10000
   \<and> isl (configurePool OWNER POOL_P 10000 1000 ''traderjoe''
        (run_admin [(OWNER, ConfigureDex ''traderjoe'' ROUTER_A 30 3000000 [30])] deployed))
   \<and> (500 :: uint256) \<le> 500
   \<and> isl (configureToken OWNER TOKEN_Z 500 500 18 deployed)"
proof -
  let ?h = "[(OWNER, ConfigureDex ''traderjoe'' ROUTER_A 30 3000000 [30]),
       (OWNER, SetDexEnabled ''uniswap'' True)]"
  have h: "never_configured_dex ''uniswap'' ?h"
    by (simp add: never_configured_dex_def)
  have a: "isl (configurePool OWNER POOL_P 30 1000 ''uniswap''
        (run_admin ?h (initial_storage OWNER VAULT)))"
    using configuration_preconditions [of "''uniswap''" ?h] h by blast
  have b: "isl (configurePool OWNER POOL_P 10000 1000 ''traderjoe''
        (run_admin [(OWNER, ConfigureDex ''traderjoe'' ROUTER_A 30 3000000 [30])] deployed))"
    using configuration_preconditions [of _ _ _ POOL_P 10000] by simp
  have c: "isl (configureToken OWNER TOKEN_Z 500 500 18 deployed)"
    using configuration_preconditions [of _ _ _ _ _ _ _ _ _ 500 500] by simp
  from h a b c show ?thesis
    by simp
qed

subsection \<open>Enabling and disabling a token\<close>

text \<open>
  C8.  \<open>setTokenEnabled\<close> takes \<open>decimals = 0\<close> as the mark of a token that was never
  configured, but \<open>configureToken\<close> accepts zero decimals: a token the owner configured
  with zero decimals can afterwards not be disabled, the call reverts with
  \<open>InvalidSetup(7)\<close>.
\<close>

theorem setTokenEnabled_rejects_zero_decimals:
  "configureToken OWNER TOKEN_Z 1000 5 0 deployed
     = Inr (deployed\<lparr>tokenConfigs := (tokenConfigs deployed)(TOKEN_Z :=
              \<lparr>token_isEnabled = True, token_maxAmount = 1000, token_minAmount = 5,
               token_decimals = 0\<rparr>)\<rparr>, [TokenConfigured TOKEN_Z 1000 5 0])
   \<and> setTokenEnabled OWNER TOKEN_Z False
       (deployed\<lparr>tokenConfigs := (tokenConfigs deployed)(TOKEN_Z :=
              \<lparr>token_isEnabled = True, token_maxAmount = 1000, token_minAmount = 5,
               token_decimals = 0\<rparr>)\<rparr>)
     = Inl (InvalidSetup 7, [])"
  by (simp add: configureToken_def setTokenEnabled_def deployed_def initial_storage_def
      OWNER_def TOKEN_Z_def revert_def)

subsection \<open>Contract statistics\<close>

text \<open>
  C10, as stated, fails: with \<open>2 ^ 243\<close> executions, all of them successful, the checked
  multiplication \<open>successfulTrades * 10000\<close> overflows and the view reverts with
  \<open>Panic(0x11)\<close>; it is not total on every metrics state.
\<close>

theorem getContractStats_overflow_reverts:
  "getContractStats (deployed\<lparr>metrics := busy_metrics\<rparr>) = Inl (Panic 0x11, [])"
  by (simp add: getContractStats_def successRateOf_def checked_mul_def busy_metrics_def
      zero_Metrics_def revert_def Let_def)

lemma unat_10000: "unat (10000 :: uint256) = 10000"
  by simp

text \<open>
  C10, amended.  \<open>getContractStats\<close> never divides by zero.  When \<open>totalExecutions = 0\<close>,
  or \<open>successfulExecutions * 10000\<close> fits in 256 bits, it returns: \<open>successRate = 0\<close> in
  the first case and \<open>successfulExecutions * 10000 / totalExecutions\<close> otherwise, and as
  \<open>failedTrades\<close> the derived value \<open>totalExecutions - successfulExecutions\<close> clamped at
  zero.  Otherwise it reverts with \<open>Panic(0x11)\<close>.  The stored counter
  \<open>failedExecutions\<close> has no influence on the result.
\<close>

theorem getContractStats_amended:
  "(totalExecutions (metrics s) = 0 \<or> unat (successfulExecutions (metrics s)) * 10000 < 2 ^ 256
      \<longrightarrow> (\<exists>failedTrades successRate.
            getContractStats s = Inr (totalExecutions (metrics s),
              successfulExecutions (metrics s), failedTrades, successRate,
              totalProfit (metrics s))
          \<and> unat failedTrades
              = unat (totalExecutions (metrics s)) - unat (successfulExecutions (metrics s))
          \<and> unat successRate
              = (if totalExecutions (metrics s) = 0 then 0
                 else unat (successfulExecutions (metrics s)) * 10000
                        div unat (totalExecutions (metrics s)))))
   \<and> (totalExecutions (metrics s) \<noteq> 0
        \<and> 2 ^ 256 \<le> unat (successfulExecutions (metrics s)) * 10000
      \<longrightarrow> getContractStats s = Inl (Panic 0x11, []))
   \<and> getContractStats (s\<lparr>metrics := (metrics s)\<lparr>failedExecutions := stored\<rparr>\<rparr>)
        = getContractStats s"
proof (intro conjI impI)
  let ?t = "totalExecutions (metrics s)" and ?u = "successfulExecutions (metrics s)"
  assume ok: "?t = 0 \<or> unat ?u * 10000 < 2 ^ 256"
  have failed: "unat (if ?t > ?u then ?t - ?u else 0) = unat ?t - unat ?u"
    by (auto simp: word_less_nat_alt unat_sub word_le_nat_alt)
  show "\<exists>failedTrades successRate.
            getContractStats s = Inr (?t, ?u, failedTrades, successRate, totalProfit (metrics s))
          \<and> unat failedTrades = unat ?t - unat ?u
          \<and> unat successRate = (if ?t = 0 then 0 else unat ?u * 10000 div unat ?t)"
  proof (cases "?t = 0")
    case True
    then show ?thesis
      by (simp add: getContractStats_def successRateOf_def Let_def)
  next
    case False
    with ok have small: "unat ?u * 10000 < 2 ^ 256"
      by simp
    then have "unat (?u * 10000) = unat ?u * 10000"
      by (simp add: unat_word_ariths)
    then have "unat (?u * 10000 div ?t) = unat ?u * 10000 div unat ?t"
      by (simp add: unat_div)
    with False small failed show ?thesis
      by (simp add: getContractStats_def successRateOf_def checked_mul_def checked_div_def
          Let_def word_greater_zero_iff)
  qed
next
  assume "totalExecutions (metrics s) \<noteq> 0
        \<and> 2 ^ 256 \<le> unat (successfulExecutions (metrics s)) * 10000"
  then show "getContractStats s = Inl (Panic 0x11, [])"
    by (simp add: getContractStats_def successRateOf_def checked_mul_def revert_def Let_def
        word_greater_zero_iff)
next
  show "getContractStats (s\<lparr>metrics := (metrics s)\<lparr>failedExecutions := stored\<rparr>\<rparr>)
        = getContractStats s"
    by (simp add: getContractStats_def Let_def split: sum.splits)
qed

theorem getContractStats_amended_witness:
  "unat (successfulExecutions (metrics (deployed\<lparr>metrics := sample_metrics\<rparr>))) * 10000 < 2 ^ 256
   \<and> (\<exists>failedTrades successRate.
         getContractStats (deployed\<lparr>metrics := sample_metrics\<rparr>)
           = Inr (4, 3, failedTrades, successRate, 5)
         \<and> unat failedTrades = 1 \<and> unat successRate = 7500)
   \<and> totalExecutions (metrics (deployed\<lparr>metrics := busy_metrics\<rparr>)) \<noteq> 0
   \<and> 2 ^ 256 \<le> unat (successfulExecutions (metrics (deployed\<lparr>metrics := busy_metrics\<rparr>))) * 10000
   \<and> getContractStats (deployed\<lparr>metrics := busy_metrics\<rparr>) = Inl (Panic 0x11, [])"
  using getContractStats_amended [of "deployed\<lparr>metrics := sample_metrics\<rparr>"]
    getContractStats_amended [of "deployed\<lparr>metrics := busy_metrics\<rparr>"]
  by (simp add: sample_metrics_def busy_metrics_def zero_Metrics_def)

subsection \<open>Checked signed arithmetic\<close>

lemma sint_bounds: "- (2 ^ 255) \<le> sint (w :: int256)" "sint (w :: int256) < 2 ^ 255"
  using sint_ge [of w] sint_lt [of w] by simp_all

lemma signed_self_256:
  "in_int256 k \<Longrightarrow> signed_take_bit 255 k = k"
  unfolding in_int256_def by (intro signed_take_bit_int_eq_self) simp_all

lemma checked_ssub_Inr:
  "checked_ssub a b = Inr r \<longleftrightarrow> in_int256 (sint a - sint b) \<and> r = a - b"
  by (auto simp: checked_ssub_def)

lemma checked_sadd_Inr:
  "checked_sadd a b = Inr r \<longleftrightarrow> in_int256 (sint a + sint b) \<and> r = a + b"
  by (auto simp: checked_sadd_def)

lemma checked_sneg_Inr:
  "checked_sneg a = Inr r \<longleftrightarrow> in_int256 (- sint a) \<and> r = - a"
  by (auto simp: checked_sneg_def)

lemma sint_sub_exact: "in_int256 (sint a - sint b) \<Longrightarrow> sint (a - b :: int256) = sint a - sint b"
  by (simp add: sint_word_ariths signed_self_256)

lemma sint_add_exact: "in_int256 (sint a + sint b) \<Longrightarrow> sint (a + b :: int256) = sint a + sint b"
  by (simp add: sint_word_ariths signed_self_256)

lemma sint_neg_exact: "in_int256 (- sint a) \<Longrightarrow> sint (- a :: int256) = - sint a"
  by (simp add: sint_word_ariths signed_self_256)

lemma sint_safeToInt256_nonneg: "0 \<le> sint (safeToInt256 v)"
proof (cases "v > MAX_INT256")
  case True
  then show ?thesis
    by (simp add: safeToInt256_def sint_MAX_INT256)
next
  case False
  then have "uint v \<le> 2 ^ 255 - 1"
    by (simp add: word_gt_MAX_iff)
  then have "sint v = uint v"
    by (rule sint_small)
  with False show ?thesis
    by (simp add: safeToInt256_def)
qed

lemma calcTradeFinalBalance_total:
  "\<exists>r. calcTradeFinalBalance eid a tp = Inr r"
proof (cases "sle 0 tp")
  case True
  then have nonneg: "0 \<le> sint tp"
    by (simp add: sle_def)
  have room: "in_int256 (sint MAX_INT256 - sint tp)"
    using nonneg sint_bounds [of tp] by (simp add: in_int256_def sint_MAX_INT256)
  show ?thesis
  proof (cases "slt (MAX_INT256 - tp) a")
    case True
    with \<open>sle 0 tp\<close> room show ?thesis
      by (simp add: calcTradeFinalBalance_def bindE_def checked_ssub_def)
  next
    case False
    then have "sint a \<le> sint MAX_INT256 - sint tp"
      using sint_sub_exact [OF room] by (simp add: slt_def)
    then have "in_int256 (sint a + sint tp)"
      using nonneg sint_bounds [of a] by (simp add: in_int256_def sint_MAX_INT256)
    with False \<open>sle 0 tp\<close> room show ?thesis
      by (simp add: calcTradeFinalBalance_def bindE_def checked_ssub_def checked_sadd_def)
  qed
next
  case False
  then have neg: "sint tp < 0"
    by (simp add: sle_def)
  have room: "in_int256 (sint MIN_INT256 - sint tp)"
    using neg sint_bounds [of tp] by (simp add: in_int256_def sint_MIN_INT256)
  show ?thesis
  proof (cases "slt a (MIN_INT256 - tp)")
    case True
    with \<open>\<not> sle 0 tp\<close> room show ?thesis
      by (simp add: calcTradeFinalBalance_def bindE_def checked_ssub_def)
  next
    case notlt: False
    then have "sint MIN_INT256 - sint tp \<le> sint a"
      using sint_sub_exact [OF room] by (simp add: slt_def)
    then have "in_int256 (sint a + sint tp)"
      using neg sint_bounds [of a] by (simp add: in_int256_def sint_MIN_INT256)
    with notlt \<open>\<not> sle 0 tp\<close> room show ?thesis
      by (simp add: calcTradeFinalBalance_def bindE_def checked_ssub_def checked_sadd_def)
  qed
qed

lemma expectedProfitUpper_total:
  assumes "0 \<le> sint e" and "0 \<le> sint a"
  shows "\<exists>r. expectedProfitUpper eid note e a = Inr r"
proof -
  have room: "in_int256 (sint MAX_INT256 - sint e)"
    using assms sint_bounds [of e] by (simp add: in_int256_def sint_MAX_INT256)
  have neg: "in_int256 (- sint a)"
    using assms sint_bounds [of a] by (simp add: in_int256_def)
  have diff: "in_int256 (sint e - sint a)"
    using assms sint_bounds [of a] sint_bounds [of e] by (simp add: in_int256_def)
  show ?thesis
    using room neg diff
    by (simp add: expectedProfitUpper_def bindE_def checked_ssub_def checked_sneg_def)
qed

lemma expectedProfitLower_total:
  assumes "sint e < 0" and "0 \<le> sint a"
  shows "\<exists>r. expectedProfitLower eid note e a = Inr r"
proof -
  have room: "in_int256 (sint MIN_INT256 - sint e)"
    using assms sint_bounds [of e] by (simp add: in_int256_def sint_MIN_INT256)
  have neg: "in_int256 (- sint a)"
    using assms sint_bounds [of a] by (simp add: in_int256_def)
  show ?thesis
  proof (cases "slt (- a) (MIN_INT256 - e)")
    case True
    with room neg show ?thesis
      by (simp add: expectedProfitLower_def bindE_def checked_ssub_def checked_sneg_def)
  next
    case False
    then have "sint MIN_INT256 - sint e \<le> - sint a"
      using sint_sub_exact [OF room] sint_neg_exact [OF neg] by (simp add: slt_def)
    then have "in_int256 (sint e - sint a)"
      using assms sint_bounds [of e] by (simp add: in_int256_def sint_MIN_INT256)
    with False room neg show ?thesis
      by (simp add: expectedProfitLower_def bindE_def checked_ssub_def checked_sneg_def)
  qed
qed

lemma calcExpectedProfit_total:
  assumes "0 \<le> sint a"
  shows "\<exists>r. calcExpectedProfit eid e a = Inr r"
proof (cases "0 \<le> sint e")
  case True
  with assms expectedProfitUpper_total [OF True assms] show ?thesis
    by (simp add: calcExpectedProfit_def sle_def)
next
  case False
  then have "sint e < 0"
    by simp
  with assms expectedProfitLower_total [OF this assms] show ?thesis
    by (simp add: calcExpectedProfit_def sle_def slt_def)
qed

subsection \<open>Events of the engine\<close>

lemma arbitrageProfits_append [simp]:
  "arbitrageProfits (xs @ ys) = arbitrageProfits xs @ arbitrageProfits ys"
  by (induction xs rule: arbitrageProfits.induct) simp_all

lemma calcTradeProfit_events [simp]:
  "arbitrageProfits (snd (calcTradeProfit eid i f)) = []"
  by (simp add: calcTradeProfit_def Let_def)

lemma calcTradeFinalBalance_events:
  "calcTradeFinalBalance eid a tp = Inr (v, evs) \<Longrightarrow> arbitrageProfits evs = []"
  by (auto simp: calcTradeFinalBalance_def bindE_def split: if_splits sum.splits)

lemma expectedProfitUpper_events:
  "expectedProfitUpper eid note e a = Inr (v, evs) \<Longrightarrow> arbitrageProfits evs = []"
  by (auto simp: expectedProfitUpper_def bindE_def split: if_splits sum.splits)

lemma expectedProfitLower_events:
  "expectedProfitLower eid note e a = Inr (v, evs) \<Longrightarrow> arbitrageProfits evs = []"
  by (auto simp: expectedProfitLower_def bindE_def split: if_splits sum.splits)

lemma calcExpectedProfit_events:
  "calcExpectedProfit eid e a = Inr (v, evs) \<Longrightarrow> arbitrageProfits evs = []"
  by (auto simp: calcExpectedProfit_def split: if_splits
      dest: expectedProfitUpper_events expectedProfitLower_events)

lemma profitValidation_events:
  "profitValidation eid t tp m = Inl (e, evs) \<Longrightarrow> arbitrageProfits evs = []"
  "profitValidation eid t tp m = Inr (m', evs) \<Longrightarrow> arbitrageProfits evs = []"
  by (auto simp: profitValidation_def revert_def split: if_splits sum.splits)

subsection \<open>The profit gate and the profit counter\<close>

lemma sint_pos_unat:
  assumes "0 < sint (w :: int256)"
  shows "unat w = nat (sint w)"
proof (cases "uint w \<le> 2 ^ 255 - 1")
  case True
  then show ?thesis
    using sint_small [OF True] by simp
next
  case False
  then have "2 ^ 255 \<le> uint w"
    by simp
  then have "signed_take_bit 255 (uint w) \<le> uint w - 2 ^ Suc 255"
    by (rule signed_take_bit_int_less_eq)
  moreover have "sint w = signed_take_bit 255 (uint w)"
    by (simp add: sint_uint)
  moreover have "uint w < 2 ^ Suc 255"
    using uint_bounded [of w] by simp
  ultimately have "sint w < 0"
    by linarith
  with assms show ?thesis
    by simp
qed

lemma checked_add_Inr:
  "checked_add a b = Inr r \<Longrightarrow> unat r = unat a + unat b"
  by (auto simp: checked_add_def unat_word_ariths split: if_splits)

lemma checked_add_one:
  "unat a < 2 ^ 256 - 1 \<Longrightarrow> checked_add a 1 = Inr (a + 1) \<and> unat (a + 1) = unat a + 1"
  by (simp add: checked_add_def unat_word_ariths)

lemma profitValidation_Inl:
  assumes "profitValidation eid t tp m = Inl (e, evs)" and "\<not> slt 0 tp"
  shows "e = InsufficientProfit \<and> \<not> t"
  using assms by (auto simp: profitValidation_def revert_def split: if_splits)

lemma profitValidation_Inr:
  assumes "profitValidation eid t tp m = Inr (m', evs)"
  shows "(\<not> t \<longrightarrow> 0 < sint tp)"
    and "unat (totalProfit m') = unat (totalProfit m) + (if 0 < sint tp then nat (sint tp) else 0)"
    and "flashLoanProfit m' = flashLoanProfit m"
    and "totalExecutions m' = totalExecutions m"
  using assms
  by (auto simp: profitValidation_def revert_def slt_def sint_pos_unat
      split: if_splits sum.splits dest!: checked_add_Inr)

lemma profitValidation_gate:
  assumes "\<not> t" and "sint tp \<le> 0"
  shows "profitValidation eid t tp m
     = Inl (InsufficientProfit, [StateLog eid ''ProfitValidation'' ''NoProfit''])"
  using assms by (simp add: profitValidation_def revert_def slt_def)

lemma settleTrade_Inr:
  assumes "settleTrade params s i f shown = Inr ((profit, s'), evs)"
  shows "profit = fst (calcTradeProfit (p_executionId params) i f)"
    and "\<not> p_testMode params \<longrightarrow> 0 < sint profit"
    and "arbitrageProfits evs = [profit]"
    and "unat (totalProfit (metrics s'))
          = unat (totalProfit (metrics s)) + (if 0 < sint profit then nat (sint profit) else 0)"
    and "flashLoanProfit (metrics s') = flashLoanProfit (metrics s)"
    and "executedTrades s' = executedTrades s"
    and "tc_actualSecondOutput (tradeContexts s' (p_executionId params)) = profit"
proof -
  let ?eid = "p_executionId params"
  obtain tp evsP where tp: "calcTradeProfit ?eid i f = (tp, evsP)"
    by (cases "calcTradeProfit ?eid i f")
  have evsP: "arbitrageProfits evsP = []"
    using calcTradeProfit_events [of ?eid i f] tp by simp
  obtain tfb evsF where
    tfb: "calcTradeFinalBalance ?eid (safeToInt256 (p_amount params)) tp = Inr (tfb, evsF)"
    using calcTradeFinalBalance_total [of ?eid "safeToInt256 (p_amount params)" tp] by auto
  obtain ep evsE where
    ep: "calcExpectedProfit ?eid (p_expectedSecondOutput params) (safeToInt256 (p_amount params))
          = Inr (ep, evsE)"
    using calcExpectedProfit_total [OF sint_safeToInt256_nonneg, of ?eid] by fastforce
  note evsF = calcTradeFinalBalance_events [OF tfb]
  note evsE = calcExpectedProfit_events [OF ep]
  let ?s1 = "s\<lparr>tradeContexts := (tradeContexts s)(?eid := (tradeContexts s ?eid)
     \<lparr>tc_tradeFinalBalance := tfb, tc_actualSecondOutput := tp, tc_executed := True\<rparr>)\<rparr>"
  obtain m1 evsV where pv: "profitValidation ?eid (p_testMode params) tp (metrics s) = Inr (m1, evsV)"
    using assms tp tfb ep
    by (cases "profitValidation ?eid (p_testMode params) tp (metrics s)")
      (auto simp: settleTrade_def Let_def revert_def split: if_splits)
  note facts = profitValidation_Inr [OF pv] profitValidation_events(2) [OF pv]
  obtain n where n: "checked_add (totalExecutions m1) 1 = Inr n"
    using assms tp tfb ep pv
    by (cases "checked_add (totalExecutions m1) 1")
      (auto simp: settleTrade_def Let_def revert_def split: if_splits)
  have res: "profit = tp \<and> s' = ?s1\<lparr>metrics := m1\<lparr>totalExecutions := n\<rparr>\<rparr>
      \<and> arbitrageProfits evs = [tp]"
    using assms tp tfb ep pv n evsP evsF evsE facts(5)
    by (auto simp: settleTrade_def Let_def split: if_splits)
  show "profit = fst (calcTradeProfit (p_executionId params) i f)"
    using res tp by simp
  show "\<not> p_testMode params \<longrightarrow> 0 < sint profit"
    using res facts(1) by simp
  show "arbitrageProfits evs = [profit]"
    using res by simp
  show "unat (totalProfit (metrics s'))
          = unat (totalProfit (metrics s)) + (if 0 < sint profit then nat (sint profit) else 0)"
    using res facts(2) by simp
  show "flashLoanProfit (metrics s') = flashLoanProfit (metrics s)"
    using res facts(3) by simp
  show "executedTrades s' = executedTrades s"
    using res by simp
  show "tc_actualSecondOutput (tradeContexts s' (p_executionId params)) = profit"
    using res by simp
qed

lemma settleTrade_gate:
  assumes "\<not> p_testMode params" and "sint (fst (calcTradeProfit (p_executionId params) i f)) \<le> 0"
  shows "\<exists>evs. settleTrade params s i f shown = Inl (InsufficientProfit, evs)
           \<and> arbitrageProfits evs = []"
proof -
  let ?eid = "p_executionId params"
  obtain tp evsP where tp: "calcTradeProfit ?eid i f = (tp, evsP)"
    by (cases "calcTradeProfit ?eid i f")
  have evsP: "arbitrageProfits evsP = []"
    using calcTradeProfit_events [of ?eid i f] tp by simp
  obtain tfb evsF where
    tfb: "calcTradeFinalBalance ?eid (safeToInt256 (p_amount params)) tp = Inr (tfb, evsF)"
    using calcTradeFinalBalance_total [of ?eid "safeToInt256 (p_amount params)" tp] by auto
  obtain ep evsE where
    ep: "calcExpectedProfit ?eid (p_expectedSecondOutput params) (safeToInt256 (p_amount params))
          = Inr (ep, evsE)"
    using calcExpectedProfit_total [OF sint_safeToInt256_nonneg, of ?eid] by fastforce
  note evsF = calcTradeFinalBalance_events [OF tfb]
  note evsE = calcExpectedProfit_events [OF ep]
  have "sint tp \<le> 0"
    using assms(2) tp by simp
  note gate = profitValidation_gate [OF assms(1) this]
  show ?thesis
    using tp tfb ep gate evsP evsF evsE
    by (auto simp: settleTrade_def Let_def revert_def split: if_splits)
qed

subsection \<open>The two legs\<close>

lemma safeApprove_events:
  "safeApprove env token spender amount c = Inl (e, evs) \<Longrightarrow> arbitrageProfits evs = []"
  "safeApprove env token spender amount c = Inr (c', evs) \<Longrightarrow> arbitrageProfits evs = []"
  by (auto simp: safeApprove_def revert_def Let_def
      split: prod.splits token_answer.splits option.splits bool.splits sum.splits)

lemma approveIfNeeded_events:
  "approveIfNeeded env eid stage token router needed c = Inl (e, evs) \<Longrightarrow> arbitrageProfits evs = []"
  "approveIfNeeded env eid stage token router needed c = Inr (c', evs) \<Longrightarrow> arbitrageProfits evs = []"
  by (auto simp: approveIfNeeded_def split: if_splits sum.splits dest: safeApprove_events)

lemma expectedOutputForEvent_events [simp]:
  "arbitrageProfits (snd (expectedOutputForEvent eid label expected)) = []"
  by (simp add: expectedOutputForEvent_def)

lemma firstLeg_events:
  "firstLeg env params s c t = Inl (e, evs) \<Longrightarrow> arbitrageProfits evs = []"
  "firstLeg env params s c t = Inr (x, evs) \<Longrightarrow> arbitrageProfits evs = []"
  by (auto simp: firstLeg_def Let_def revert_def
      split: sum.splits prod.splits if_splits dest: approveIfNeeded_events
      dest!: arg_cong [where f = "\<lambda>p. arbitrageProfits (snd p)"])

lemma firstLeg_storage:
  "firstLeg env params s c t = Inr ((s', c', received), evs) \<Longrightarrow>
     executedTrades s' = executedTrades s \<and> metrics s' = metrics s"
  by (auto simp: firstLeg_def Let_def revert_def split: sum.splits prod.splits if_splits)

lemma secondLeg_events:
  "secondLeg env params c r = Inl (e, evs) \<Longrightarrow> arbitrageProfits evs = []"
  "secondLeg env params c r = Inr (x, evs) \<Longrightarrow> arbitrageProfits evs = []"
  by (auto simp: secondLeg_def Let_def revert_def
      split: sum.splits prod.splits if_splits dest: approveIfNeeded_events
      dest!: arg_cong [where f = "\<lambda>p. arbitrageProfits (snd p)"])

lemma swapLegs_events:
  "swapLegs env params s c = Inl (e, evs) \<Longrightarrow> arbitrageProfits evs = []"
  "swapLegs env params s c = Inr (x, evs) \<Longrightarrow> arbitrageProfits evs = []"
  by (auto simp: swapLegs_def Let_def revert_def split: sum.splits prod.splits if_splits
      dest: firstLeg_events secondLeg_events)

lemma swapLegs_storage:
  assumes "swapLegs env params s c = Inr ((s', c', i, f, shown), evs)"
  shows "\<not> executedTrades s (p_executionId params)"
    and "executedTrades s' = (executedTrades s)(p_executionId params := True)"
    and "metrics s' = metrics s"
  using assms
  by (auto simp: swapLegs_def Let_def revert_def split: sum.splits prod.splits if_splits
      dest!: firstLeg_storage)

subsection \<open>Concrete runs in the example environment\<close>

lemmas demo_defs =
  demo_env_def demo_chain_def demo_params_def demo_raw_call_def demo_approve_def
  demo_transfer_def demo_transferFrom_def credit_def debit_def failing_env_def
  SELF_def TOKEN_S_def TOKEN_T_def ROUTER_A_def ROUTER_B_def OWNER_def VAULT_def
  deployed_def initial_storage_def

lemmas engine_defs =
  executeArbitrageInternal_def swapLegs_def firstLeg_def secondLeg_def settleTrade_def
  approveIfNeeded_def safeApprove_def expectedOutputForEvent_def swapCall_def
  swapErrorMessage_def calcTradeProfit_def calcTradeFinalBalance_def calcExpectedProfit_def
  expectedProfitUpper_def expectedProfitLower_def profitValidation_def safeToInt256_def
  checked_add_def checked_ssub_def checked_sadd_def checked_sneg_def in_int256_def bindE_def
  slt_def sle_def MAX_INT256_def MIN_INT256_def MAX_UINT256_def MAX_GAS_FOR_CALL_def
  revert_def prefix_events_def highLevelCall_def tryCall_def zero_Metrics_def
  zero_TradeContext_def Let_def

lemma demo_swapLegs:
  "\<exists>s1 c1 shown evs. swapLegs demo_env (demo_params b t) deployed demo_chain
      = Inr ((s1, c1, 1000, 900 + ucast b, shown), evs)"
  by (simp add: demo_defs engine_defs)

lemma demo_run_profit:
  "\<exists>s' c' evs. executeArbitrageInternal demo_env (demo_params 150 False) deployed demo_chain
      = Inr ((50, s', c'), evs)"
  by (simp add: demo_defs engine_defs)

lemma demo_loss: "sint (fst (calcTradeProfit eid 1000 (900 + ucast (50 :: uint8)))) = - 50"
  by (simp add: engine_defs)

subsection \<open>The profit gate\<close>

text \<open>
  C1.  With \<open>testMode = false\<close>: whenever the engine returns, so that its
  \<open>ArbitrageExecuted\<close> event is committed, the trade profit is strictly positive and is the
  profit carried by that event, the only such event of the run; and whenever both swaps went
  through and the profit computed from the two balances is zero or negative, the engine
  reverts with \<open>InsufficientProfit\<close> and no \<open>ArbitrageExecuted\<close> event was emitted before
  the revert.  A revert returns no storage and no chain: the whole unit of work is undone.
\<close>

theorem profit_gate:
  assumes "\<not> p_testMode params"
  shows "(executeArbitrageInternal env params s c = Inr ((profit, s', c'), evs)
            \<longrightarrow> 0 < sint profit \<and> arbitrageProfits evs = [profit])
         \<and> (swapLegs env params s c = Inr ((s1, c1, initial, final, shown), evsLegs)
              \<and> sint (fst (calcTradeProfit (p_executionId params) initial final)) \<le> 0
            \<longrightarrow> (\<exists>evsRevert.
                   executeArbitrageInternal env params s c = Inl (InsufficientProfit, evsRevert)
                   \<and> arbitrageProfits evsRevert = []))"
proof (intro conjI impI)
  assume run: "executeArbitrageInternal env params s c = Inr ((profit, s', c'), evs)"
  then obtain s2 c2 i f sh evsL evsS where
    legs: "swapLegs env params s c = Inr ((s2, c2, i, f, sh), evsL)" and
    settle: "settleTrade params s2 i f sh = Inr ((profit, s'), evsS)" and
    evs: "evs = evsL @ evsS"
    by (auto simp: executeArbitrageInternal_def split: sum.splits prod.splits)
  show "0 < sint profit"
    using settleTrade_Inr(2) [OF settle] assms by simp
  show "arbitrageProfits evs = [profit]"
    using settleTrade_Inr(3) [OF settle] swapLegs_events(2) [OF legs] evs by simp
next
  assume "swapLegs env params s c = Inr ((s1, c1, initial, final, shown), evsLegs)
      \<and> sint (fst (calcTradeProfit (p_executionId params) initial final)) \<le> 0"
  then have legs: "swapLegs env params s c = Inr ((s1, c1, initial, final, shown), evsLegs)"
    and loss: "sint (fst (calcTradeProfit (p_executionId params) initial final)) \<le> 0"
    by simp_all
  obtain evsS where settle: "settleTrade params s1 initial final shown
      = Inl (InsufficientProfit, evsS)" and none: "arbitrageProfits evsS = []"
    using settleTrade_gate [OF assms loss] by blast
  show "\<exists>evsRevert.
      executeArbitrageInternal env params s c = Inl (InsufficientProfit, evsRevert)
      \<and> arbitrageProfits evsRevert = []"
    using legs settle none swapLegs_events(2) [OF legs]
    by (simp add: executeArbitrageInternal_def)
qed

theorem profit_gate_witness:
  "\<not> p_testMode (demo_params 150 False)
   \<and> (\<exists>s' c' evs.
         executeArbitrageInternal demo_env (demo_params 150 False) deployed demo_chain
           = Inr ((50, s', c'), evs)
         \<and> 0 < sint (50 :: int256) \<and> arbitrageProfits evs = [50])
   \<and> \<not> p_testMode (demo_params 50 False)
   \<and> (\<exists>evsRevert.
         executeArbitrageInternal demo_env (demo_params 50 False) deployed demo_chain
           = Inl (InsufficientProfit, evsRevert)
         \<and> arbitrageProfits evsRevert = [])"
proof -
  have t1: "\<not> p_testMode (demo_params 150 False)" and t2: "\<not> p_testMode (demo_params 50 False)"
    by (simp_all add: demo_params_def)
  obtain s' c' evs where
    run: "executeArbitrageInternal demo_env (demo_params 150 False) deployed demo_chain
      = Inr ((50, s', c'), evs)"
    using demo_run_profit by blast
  have good: "0 < sint (50 :: int256) \<and> arbitrageProfits evs = [50]"
    using profit_gate [OF t1, of demo_env deployed demo_chain 50 s' c' evs] run by blast
  obtain s1 c1 shown evsLegs where
    legs: "swapLegs demo_env (demo_params 50 False) deployed demo_chain
      = Inr ((s1, c1, 1000, 900 + ucast (50 :: uint8), shown), evsLegs)"
    using demo_swapLegs [of 50 False] by blast
  have "sint (fst (calcTradeProfit (p_executionId (demo_params 50 False)) 1000
      (900 + ucast (50 :: uint8)))) \<le> 0"
    using demo_loss [of "p_executionId (demo_params 50 False)"] by simp
  then have bad: "\<exists>evsRevert.
      executeArbitrageInternal demo_env (demo_params 50 False) deployed demo_chain
        = Inl (InsufficientProfit, evsRevert) \<and> arbitrageProfits evsRevert = []"
    using profit_gate [OF t2, of demo_env deployed demo_chain] legs by blast
  from t1 t2 run good bad show ?thesis
    by blast
qed

subsection \<open>The recorded trade profit\<close>

lemma swapLegs_balances:
  assumes "swapLegs env params s c = Inr ((s1, c1, initial, final, shown), evs)"
  shows "initial = balances c (p_sourceToken params) (self env)"
    and "final = balances c1 (p_sourceToken params) (self env)"
  using assms
  by (auto simp: swapLegs_def secondLeg_def Let_def revert_def
      split: sum.splits prod.splits if_splits)

lemma profitValidation_returns:
  assumes "t \<or> 0 < sint tp"
    and "unat (successfulExecutions m) < 2 ^ 256 - 1" and "unat (totalProfit m) < 2 ^ 255"
  shows "\<exists>m' evs. profitValidation eid t tp m = Inr (m', evs)"
proof (cases "0 < sint tp")
  case True
  then have "unat tp = nat (sint tp)"
    by (rule sint_pos_unat)
  moreover have "sint tp < 2 ^ 255"
    using sint_bounds(2) [of tp] .
  ultimately have "unat (totalProfit m) + unat tp < 2 ^ 256"
    using assms(3) True by simp
  then show ?thesis
    using True checked_add_one [OF assms(2)]
    by (simp add: profitValidation_def slt_def checked_add_def)
next
  case False
  then show ?thesis
    using assms(1) by (simp add: profitValidation_def slt_def)
qed

lemma settleTrade_returns:
  assumes "p_testMode params \<or> 0 < sint (fst (calcTradeProfit (p_executionId params) i f))"
    and "unat (totalExecutions (metrics s)) < 2 ^ 256 - 1"
    and "unat (successfulExecutions (metrics s)) < 2 ^ 256 - 1"
    and "unat (totalProfit (metrics s)) < 2 ^ 255"
  shows "\<exists>profit s' evs. settleTrade params s i f shown = Inr ((profit, s'), evs)"
proof -
  let ?eid = "p_executionId params"
  obtain tp evsP where tp: "calcTradeProfit ?eid i f = (tp, evsP)"
    by (cases "calcTradeProfit ?eid i f")
  obtain tfb evsF where
    tfb: "calcTradeFinalBalance ?eid (safeToInt256 (p_amount params)) tp = Inr (tfb, evsF)"
    using calcTradeFinalBalance_total [of ?eid "safeToInt256 (p_amount params)" tp] by auto
  obtain ep evsE where
    ep: "calcExpectedProfit ?eid (p_expectedSecondOutput params) (safeToInt256 (p_amount params))
          = Inr (ep, evsE)"
    using calcExpectedProfit_total [OF sint_safeToInt256_nonneg, of ?eid] by fastforce
  have "p_testMode params \<or> 0 < sint tp"
    using assms(1) tp by simp
  from profitValidation_returns [OF this assms(3,4)] obtain m1 evsV where
    pv: "profitValidation ?eid (p_testMode params) tp (metrics s) = Inr (m1, evsV)"
    by blast
  have "totalExecutions m1 = totalExecutions (metrics s)"
    using profitValidation_Inr(4) [OF pv] .
  then have "unat (totalExecutions m1) < 2 ^ 256 - 1"
    using assms(2) by simp
  note n = checked_add_one [OF this]
  show ?thesis
    using tp tfb ep pv n
    by (simp add: settleTrade_def Let_def split: if_splits)
qed

lemma settleTrade_last_event:
  assumes "settleTrade params s i f shown = Inr ((profit, s'), evs)"
  shows "\<exists>before tradeFinalBalance expectedProfit.
      evs = before @ [ArbitrageExecuted (p_sourceToken params) (p_targetToken params)
                        (p_amount params) f tradeFinalBalance profit expectedProfit
                        (p_testMode params)]"
  using assms
  by (auto simp: settleTrade_def Let_def revert_def split: sum.splits prod.splits if_splits)

text \<open>
  C3.  The trade profit is computed from the balance of the source token that the contract
  holds when the engine starts and the balance it holds after the second swap (the chain
  the engine returns).  Whenever the engine returns, the profit it returns is the exact
  signed difference \<open>final - initial\<close> of these two balances when that difference fits in
  \<open>int256\<close>; it is \<open>MAX_INT256\<close> when the difference is above the largest \<open>int256\<close> and
  \<open>MIN_INT256\<close> when the loss is above it: clamped, never wrapped.  That value is the one
  stored in the trade context (\<open>actualSecondOutput\<close>) and announced by the
  \<open>ArbitrageExecuted\<close> event that ends the trace.  And the value is recorded, not thrown:
  whenever both swaps went through, in test mode or with a final balance above the initial
  one, and the counters have room (fewer than \<open>2 ^ 256 - 1\<close> executions, a cumulative
  profit below \<open>2 ^ 255\<close>), the engine returns, on the chain the swaps have left; the two
  balances the legs hand to the settlement are the balances read on the chain.
\<close>

theorem recorded_profit_saturating:
  "(executeArbitrageInternal env params s c = Inr ((profit, s', c'), evs)
      \<and> initial = balances c (p_sourceToken params) (self env)
      \<and> final = balances c' (p_sourceToken params) (self env)
    \<longrightarrow> (in_int256 (uint final - uint initial) \<longrightarrow> sint profit = uint final - uint initial)
        \<and> (uint final - uint initial > 2 ^ 255 - 1 \<longrightarrow>
             profit = MAX_INT256 \<and> sint profit = 2 ^ 255 - 1)
        \<and> (uint initial - uint final > 2 ^ 255 - 1 \<longrightarrow>
             profit = MIN_INT256 \<and> sint profit = - (2 ^ 255))
        \<and> tc_actualSecondOutput (tradeContexts s' (p_executionId params)) = profit
        \<and> (\<exists>before tradeFinalBalance expectedProfit.
              evs = before @ [ArbitrageExecuted (p_sourceToken params) (p_targetToken params)
                                (p_amount params) final tradeFinalBalance profit expectedProfit
                                (p_testMode params)]))
   \<and> (swapLegs env params s c = Inr ((s1, c1, balanceBefore, balanceAfter, shown), evsLegs)
        \<and> (p_testMode params \<or> uint balanceBefore < uint balanceAfter)
        \<and> unat (totalExecutions (metrics s)) < 2 ^ 256 - 1
        \<and> unat (successfulExecutions (metrics s)) < 2 ^ 256 - 1
        \<and> unat (totalProfit (metrics s)) < 2 ^ 255
      \<longrightarrow> balanceBefore = balances c (p_sourceToken params) (self env)
          \<and> balanceAfter = balances c1 (p_sourceToken params) (self env)
          \<and> (\<exists>recorded s2 evsRun.
                executeArbitrageInternal env params s c = Inr ((recorded, s2, c1), evsRun)))"
proof -
  have first: "(in_int256 (uint final - uint initial) \<longrightarrow> sint profit = uint final - uint initial)
        \<and> (uint final - uint initial > 2 ^ 255 - 1 \<longrightarrow>
             profit = MAX_INT256 \<and> sint profit = 2 ^ 255 - 1)
        \<and> (uint initial - uint final > 2 ^ 255 - 1 \<longrightarrow>
             profit = MIN_INT256 \<and> sint profit = - (2 ^ 255))
        \<and> tc_actualSecondOutput (tradeContexts s' (p_executionId params)) = profit
        \<and> (\<exists>before tradeFinalBalance expectedProfit.
              evs = before @ [ArbitrageExecuted (p_sourceToken params) (p_targetToken params)
                                (p_amount params) final tradeFinalBalance profit expectedProfit
                                (p_testMode params)])"
    if run: "executeArbitrageInternal env params s c = Inr ((profit, s', c'), evs)"
      and initial: "initial = balances c (p_sourceToken params) (self env)"
      and final: "final = balances c' (p_sourceToken params) (self env)"
  proof -
    from run obtain s2 i f sh evsL evsS where
      legs: "swapLegs env params s c = Inr ((s2, c', i, f, sh), evsL)" and
      settle: "settleTrade params s2 i f sh = Inr ((profit, s'), evsS)" and
      evs: "evs = evsL @ evsS"
      by (auto simp: executeArbitrageInternal_def split: sum.splits prod.splits)
    have i: "i = initial" and f: "f = final"
      using swapLegs_balances [OF legs] initial final by simp_all
    have profit: "profit = fst (calcTradeProfit (p_executionId params) initial final)"
      using settleTrade_Inr(1) [OF settle] i f by simp
    note cases = calcTradeProfit_saturating [of final initial "p_executionId params"]
    have recorded: "tc_actualSecondOutput (tradeContexts s' (p_executionId params)) = profit"
      using settleTrade_Inr(7) [OF settle] .
    obtain before tradeFinalBalance expectedProfit where
      "evsS = before @ [ArbitrageExecuted (p_sourceToken params) (p_targetToken params)
                          (p_amount params) final tradeFinalBalance profit expectedProfit
                          (p_testMode params)]"
      using settleTrade_last_event [OF settle] f by blast
    then have "evs = (evsL @ before) @
        [ArbitrageExecuted (p_sourceToken params) (p_targetToken params)
           (p_amount params) final tradeFinalBalance profit expectedProfit (p_testMode params)]"
      using evs by simp
    then have announced: "\<exists>before tradeFinalBalance expectedProfit.
        evs = before @ [ArbitrageExecuted (p_sourceToken params) (p_targetToken params)
                          (p_amount params) final tradeFinalBalance profit expectedProfit
                          (p_testMode params)]"
      by blast
    from cases profit recorded announced show ?thesis
      by (simp add: sint_MAX_INT256 sint_MIN_INT256)
  qed
  have second: "balanceBefore = balances c (p_sourceToken params) (self env)
          \<and> balanceAfter = balances c1 (p_sourceToken params) (self env)
          \<and> (\<exists>recorded s2 evsRun.
                executeArbitrageInternal env params s c = Inr ((recorded, s2, c1), evsRun))"
    if legs: "swapLegs env params s c
        = Inr ((s1, c1, balanceBefore, balanceAfter, shown), evsLegs)"
      and mode: "p_testMode params \<or> uint balanceBefore < uint balanceAfter"
      and room: "unat (totalExecutions (metrics s)) < 2 ^ 256 - 1"
        "unat (successfulExecutions (metrics s)) < 2 ^ 256 - 1"
        "unat (totalProfit (metrics s)) < 2 ^ 255"
  proof -
    have same: "metrics s1 = metrics s"
      using swapLegs_storage(3) [OF legs] .
    have "p_testMode params
        \<or> 0 < sint (fst (calcTradeProfit (p_executionId params) balanceBefore balanceAfter))"
    proof (cases "uint balanceBefore < uint balanceAfter")
      case True
      note cases = calcTradeProfit_saturating [of balanceAfter balanceBefore "p_executionId params"]
      show ?thesis
      proof (cases "in_int256 (uint balanceAfter - uint balanceBefore)")
        case fits: True
        with cases True show ?thesis
          by simp
      next
        case False
        with True have "uint balanceAfter - uint balanceBefore > 2 ^ 255 - 1"
          by (simp add: in_int256_def)
        with cases show ?thesis
          by (simp add: sint_MAX_INT256)
      qed
    next
      case False
      with mode show ?thesis
        by simp
    qed
    from settleTrade_returns [OF this, of s1 shown] room same obtain recorded s2 evsS where
      "settleTrade params s1 balanceBefore balanceAfter shown = Inr ((recorded, s2), evsS)"
      by auto
    with legs swapLegs_balances [OF legs] show ?thesis
      by (simp add: executeArbitrageInternal_def)
  qed
  from first second show ?thesis
    by blast
qed

lemma windfall_swapLegs:
  "\<exists>s1 c1 shown evs. swapLegs windfall_env (demo_params b t) deployed demo_chain
      = Inr ((s1, c1, 1000, 2 ^ 255 + 1000, shown), evs)"
  by (simp add: windfall_env_def demo_defs engine_defs)

lemma wipeout_swapLegs:
  "\<exists>s1 c1 shown evs. swapLegs wipeout_env (demo_params b t) deployed wealthy_chain
      = Inr ((s1, c1, 2 ^ 255 + 1000, 0, shown), evs)"
  by (simp add: wipeout_env_def wealthy_chain_def demo_defs engine_defs)

lemma deployed_room:
  "unat (totalExecutions (metrics deployed)) < 2 ^ 256 - 1"
  "unat (successfulExecutions (metrics deployed)) < 2 ^ 256 - 1"
  "unat (totalProfit (metrics deployed)) < 2 ^ 255"
  by (simp_all add: deployed_def initial_storage_def zero_Metrics_def)

theorem recorded_profit_saturating_witness:
  "(\<exists>s1 c1 shown evsLegs s2 evsRun.
       swapLegs demo_env (demo_params 150 False) deployed demo_chain
         = Inr ((s1, c1, 1000, 1050, shown), evsLegs)
       \<and> uint (1000 :: uint256) < uint (1050 :: uint256)
       \<and> in_int256 (uint (1050 :: uint256) - uint (1000 :: uint256))
       \<and> executeArbitrageInternal demo_env (demo_params 150 False) deployed demo_chain
           = Inr ((50, s2, c1), evsRun)
       \<and> tc_actualSecondOutput (tradeContexts s2 0x1D) = 50)
   \<and> (\<exists>s1 c1 shown evsLegs s2 evsRun.
       swapLegs windfall_env (demo_params 150 False) deployed demo_chain
         = Inr ((s1, c1, 1000, 2 ^ 255 + 1000, shown), evsLegs)
       \<and> uint (1000 :: uint256) < uint (2 ^ 255 + 1000 :: uint256)
       \<and> uint (2 ^ 255 + 1000 :: uint256) - uint (1000 :: uint256) > 2 ^ 255 - 1
       \<and> executeArbitrageInternal windfall_env (demo_params 150 False) deployed demo_chain
           = Inr ((MAX_INT256, s2, c1), evsRun)
       \<and> tc_actualSecondOutput (tradeContexts s2 0x1D) = MAX_INT256)
   \<and> (\<exists>s1 c1 shown evsLegs s2 evsRun.
       swapLegs wipeout_env (demo_params 150 True) deployed wealthy_chain
         = Inr ((s1, c1, 2 ^ 255 + 1000, 0, shown), evsLegs)
       \<and> p_testMode (demo_params 150 True)
       \<and> uint (2 ^ 255 + 1000 :: uint256) - uint (0 :: uint256) > 2 ^ 255 - 1
       \<and> executeArbitrageInternal wipeout_env (demo_params 150 True) deployed wealthy_chain
           = Inr ((MIN_INT256, s2, c1), evsRun)
       \<and> tc_actualSecondOutput (tradeContexts s2 0x1D) = MIN_INT256)
   \<and> unat (totalExecutions (metrics deployed)) < 2 ^ 256 - 1
   \<and> unat (successfulExecutions (metrics deployed)) < 2 ^ 256 - 1
   \<and> unat (totalProfit (metrics deployed)) < 2 ^ 255"
proof -
  have id: "p_executionId (demo_params b t) = 0x1D" "p_sourceToken (demo_params b t) = TOKEN_S"
    "p_testMode (demo_params b t) = t" "self demo_env = SELF" "self windfall_env = SELF"
    "self wipeout_env = SELF" for b t
    by (simp_all add: demo_params_def demo_env_def windfall_env_def wipeout_env_def)
  have sizes: "uint (1000 :: uint256) < uint (1050 :: uint256)"
    "in_int256 (uint (1050 :: uint256) - uint (1000 :: uint256))"
    "uint (1000 :: uint256) < uint (2 ^ 255 + 1000 :: uint256)"
    "uint (2 ^ 255 + 1000 :: uint256) - uint (1000 :: uint256) > 2 ^ 255 - 1"
    "uint (2 ^ 255 + 1000 :: uint256) - uint (0 :: uint256) > 2 ^ 255 - 1"
    by (simp_all add: in_int256_def)
  have a: "\<exists>s1 c1 shown evsLegs s2 evsRun.
       swapLegs demo_env (demo_params 150 False) deployed demo_chain
         = Inr ((s1, c1, 1000, 1050, shown), evsLegs)
       \<and> executeArbitrageInternal demo_env (demo_params 150 False) deployed demo_chain
           = Inr ((50, s2, c1), evsRun)
       \<and> tc_actualSecondOutput (tradeContexts s2 0x1D) = 50"
  proof -
    obtain s1 c1 shown evsLegs where
      legs: "swapLegs demo_env (demo_params 150 False) deployed demo_chain
        = Inr ((s1, c1, 1000, 1050, shown), evsLegs)"
      using demo_swapLegs [of 150 False] by auto
    have "1000 = balances demo_chain TOKEN_S SELF \<and> 1050 = balances c1 TOKEN_S SELF
        \<and> (\<exists>recorded s2 evsRun.
              executeArbitrageInternal demo_env (demo_params 150 False) deployed demo_chain
                = Inr ((recorded, s2, c1), evsRun))"
      using recorded_profit_saturating
        [where env = demo_env and params = "demo_params 150 False" and s = deployed
          and c = demo_chain and ?s1.0 = s1 and ?c1.0 = c1 and balanceBefore = "1000"
          and balanceAfter = "1050" and shown = shown and evsLegs = evsLegs
          and profit = 0 and s' = deployed and c' = demo_chain and evs = "[]"
          and initial = 0 and final = 0]
        legs sizes deployed_room
      by (simp add: id)
    then obtain recorded s2 evsRun where
      bal: "1000 = balances demo_chain TOKEN_S SELF" "1050 = balances c1 TOKEN_S SELF" and
      run: "executeArbitrageInternal demo_env (demo_params 150 False) deployed demo_chain
        = Inr ((recorded, s2, c1), evsRun)"
      by blast
    have "sint recorded = 50
        \<and> tc_actualSecondOutput (tradeContexts s2 0x1D) = recorded"
      using recorded_profit_saturating
        [where env = demo_env and params = "demo_params 150 False" and s = deployed
          and c = demo_chain and profit = recorded and s' = s2 and c' = c1 and evs = evsRun
          and initial = "1000" and final = "1050"
          and ?s1.0 = deployed and ?c1.0 = demo_chain and balanceBefore = 0
          and balanceAfter = 0 and shown = 0 and evsLegs = "[]"]
        run bal sizes
      by (simp add: id)
    then have reading: "sint recorded = 50"
      and stored: "tc_actualSecondOutput (tradeContexts s2 0x1D) = recorded"
      by simp_all
    have "sint recorded = sint (50 :: int256)"
      using reading by simp
    then have "recorded = 50"
      by (rule signed_word_eqI)
    with stored have "recorded = 50 \<and> tc_actualSecondOutput (tradeContexts s2 0x1D) = 50"
      by simp
    with legs run show ?thesis
      by blast
  qed
  have b: "\<exists>s1 c1 shown evsLegs s2 evsRun.
       swapLegs windfall_env (demo_params 150 False) deployed demo_chain
         = Inr ((s1, c1, 1000, 2 ^ 255 + 1000, shown), evsLegs)
       \<and> executeArbitrageInternal windfall_env (demo_params 150 False) deployed demo_chain
           = Inr ((MAX_INT256, s2, c1), evsRun)
       \<and> tc_actualSecondOutput (tradeContexts s2 0x1D) = MAX_INT256"
  proof -
    obtain s1 c1 shown evsLegs where
      legs: "swapLegs windfall_env (demo_params 150 False) deployed demo_chain
        = Inr ((s1, c1, 1000, 2 ^ 255 + 1000, shown), evsLegs)"
      using windfall_swapLegs [of 150 False] by auto
    have "1000 = balances demo_chain TOKEN_S SELF \<and> 2 ^ 255 + 1000 = balances c1 TOKEN_S SELF
        \<and> (\<exists>recorded s2 evsRun.
              executeArbitrageInternal windfall_env (demo_params 150 False) deployed demo_chain
                = Inr ((recorded, s2, c1), evsRun))"
      using recorded_profit_saturating
        [where env = windfall_env and params = "demo_params 150 False" and s = deployed
          and c = demo_chain and ?s1.0 = s1 and ?c1.0 = c1 and balanceBefore = "1000"
          and balanceAfter = "2 ^ 255 + 1000" and shown = shown and evsLegs = evsLegs
          and profit = 0 and s' = deployed and c' = demo_chain and evs = "[]"
          and initial = 0 and final = 0]
        legs sizes deployed_room
      by (simp add: id)
    then obtain recorded s2 evsRun where
      bal: "1000 = balances demo_chain TOKEN_S SELF" "2 ^ 255 + 1000 = balances c1 TOKEN_S SELF" and
      run: "executeArbitrageInternal windfall_env (demo_params 150 False) deployed demo_chain
        = Inr ((recorded, s2, c1), evsRun)"
      by blast
    have "recorded = MAX_INT256
        \<and> tc_actualSecondOutput (tradeContexts s2 0x1D) = recorded"
      using recorded_profit_saturating
        [where env = windfall_env and params = "demo_params 150 False" and s = deployed
          and c = demo_chain and profit = recorded and s' = s2 and c' = c1 and evs = evsRun
          and initial = "1000" and final = "2 ^ 255 + 1000"
          and ?s1.0 = deployed and ?c1.0 = demo_chain and balanceBefore = 0
          and balanceAfter = 0 and shown = 0 and evsLegs = "[]"]
        run bal sizes
      by (simp add: id)
    then have "recorded = MAX_INT256 \<and> tc_actualSecondOutput (tradeContexts s2 0x1D) = MAX_INT256"
      by simp
    with legs run show ?thesis
      by blast
  qed
  have c: "\<exists>s1 c1 shown evsLegs s2 evsRun.
       swapLegs wipeout_env (demo_params 150 True) deployed wealthy_chain
         = Inr ((s1, c1, 2 ^ 255 + 1000, 0, shown), evsLegs)
       \<and> executeArbitrageInternal wipeout_env (demo_params 150 True) deployed wealthy_chain
           = Inr ((MIN_INT256, s2, c1), evsRun)
       \<and> tc_actualSecondOutput (tradeContexts s2 0x1D) = MIN_INT256"
  proof -
    obtain s1 c1 shown evsLegs where
      legs: "swapLegs wipeout_env (demo_params 150 True) deployed wealthy_chain
        = Inr ((s1, c1, 2 ^ 255 + 1000, 0, shown), evsLegs)"
      using wipeout_swapLegs [of 150 True] by auto
    have "2 ^ 255 + 1000 = balances wealthy_chain TOKEN_S SELF \<and> 0 = balances c1 TOKEN_S SELF
        \<and> (\<exists>recorded s2 evsRun.
              executeArbitrageInternal wipeout_env (demo_params 150 True) deployed wealthy_chain
                = Inr ((recorded, s2, c1), evsRun))"
      using recorded_profit_saturating
        [where env = wipeout_env and params = "demo_params 150 True" and s = deployed
          and c = wealthy_chain and ?s1.0 = s1 and ?c1.0 = c1 and balanceBefore = "2 ^ 255 + 1000"
          and balanceAfter = "0" and shown = shown and evsLegs = evsLegs
          and profit = 0 and s' = deployed and c' = wealthy_chain and evs = "[]"
          and initial = 0 and final = 0]
        legs sizes deployed_room
      by (simp add: id)
    then obtain recorded s2 evsRun where
      bal: "2 ^ 255 + 1000 = balances wealthy_chain TOKEN_S SELF" "0 = balances c1 TOKEN_S SELF" and
      run: "executeArbitrageInternal wipeout_env (demo_params 150 True) deployed wealthy_chain
        = Inr ((recorded, s2, c1), evsRun)"
      by blast
    have "recorded = MIN_INT256
        \<and> tc_actualSecondOutput (tradeContexts s2 0x1D) = recorded"
      using recorded_profit_saturating
        [where env = wipeout_env and params = "demo_params 150 True" and s = deployed
          and c = wealthy_chain and profit = recorded and s' = s2 and c' = c1 and evs = evsRun
          and initial = "2 ^ 255 + 1000" and final = "0"
          and ?s1.0 = deployed and ?c1.0 = wealthy_chain and balanceBefore = 0
          and balanceAfter = 0 and shown = 0 and evsLegs = "[]"]
        run bal sizes
      by (simp add: id)
    then have "recorded = MIN_INT256 \<and> tc_actualSecondOutput (tradeContexts s2 0x1D) = MIN_INT256"
      by simp
    with legs run show ?thesis
      by blast
  qed
  from a b c sizes deployed_room id(3) [of 150 True] show ?thesis
    by simp
qed

subsection \<open>Validation of a flash-loan request\<close>

lemmas flash_defs =
  executeFlashLoanArbitrage_def lenderCall_def openFlashLoan_def deriveExecutionId_def
  contextOfRequest_def flashLoanFailed_branch_def flashLoanSucceeded_branch_def
  demo_request_def configured_def pausedError_def reentrantError_def




subsection \<open>What each call leaves behind\<close>

lemma positivePart_zero [simp]: "positivePart 0 = 0"
  by (simp add: positivePart_def)

lemma completedLoanProfits_append [simp]:
  "completedLoanProfits (xs @ ys) = completedLoanProfits xs @ completedLoanProfits ys"
  by (induction xs rule: completedLoanProfits.induct) simp_all

lemma tradeGains_append [simp]: "tradeGains (xs @ ys) = tradeGains xs + tradeGains ys"
  by (simp add: tradeGains_def)

lemma loanGains_append [simp]: "loanGains (xs @ ys) = loanGains xs + loanGains ys"
  by (simp add: loanGains_def)

lemma gains_Nil [simp]: "tradeGains [] = 0" "loanGains [] = 0"
  by (simp_all add: tradeGains_def loanGains_def)

lemma calcTradeProfit_loan_events [simp]:
  "completedLoanProfits (snd (calcTradeProfit eid i f)) = []"
  by (simp add: calcTradeProfit_def Let_def)

lemma calcTradeFinalBalance_loan_events:
  "calcTradeFinalBalance eid a tp = Inr (v, evs) \<Longrightarrow> completedLoanProfits evs = []"
  by (auto simp: calcTradeFinalBalance_def bindE_def split: if_splits sum.splits)

lemma expectedProfitUpper_loan_events:
  "expectedProfitUpper eid note e a = Inr (v, evs) \<Longrightarrow> completedLoanProfits evs = []"
  by (auto simp: expectedProfitUpper_def bindE_def split: if_splits sum.splits)

lemma expectedProfitLower_loan_events:
  "expectedProfitLower eid note e a = Inr (v, evs) \<Longrightarrow> completedLoanProfits evs = []"
  by (auto simp: expectedProfitLower_def bindE_def split: if_splits sum.splits)

lemma calcExpectedProfit_loan_events:
  "calcExpectedProfit eid e a = Inr (v, evs) \<Longrightarrow> completedLoanProfits evs = []"
  by (auto simp: calcExpectedProfit_def split: if_splits
      dest: expectedProfitUpper_loan_events expectedProfitLower_loan_events)

lemma profitValidation_loan_events:
  "profitValidation eid t tp m = Inr (m', evs) \<Longrightarrow> completedLoanProfits evs = []"
  by (auto simp: profitValidation_def revert_def split: if_splits sum.splits)

lemma profitValidation_loan_counters:
  assumes "profitValidation eid t tp m = Inr (m', evs)"
  shows "flashLoanFailed m' = flashLoanFailed m"
    and "flashLoanExecutions m' = flashLoanExecutions m"
  using assms
  by (auto simp: profitValidation_def revert_def split: if_splits sum.splits)

lemma safeApprove_loan_events:
  "safeApprove env token spender amount c = Inr (c', evs) \<Longrightarrow> completedLoanProfits evs = []"
  by (auto simp: safeApprove_def revert_def Let_def
      split: prod.splits token_answer.splits option.splits bool.splits sum.splits)

lemma approveIfNeeded_loan_events:
  "approveIfNeeded env eid stage token router needed c = Inr (c', evs)
    \<Longrightarrow> completedLoanProfits evs = []"
  by (auto simp: approveIfNeeded_def split: if_splits sum.splits dest: safeApprove_loan_events)

lemma expectedOutputForEvent_loan_events [simp]:
  "completedLoanProfits (snd (expectedOutputForEvent eid label expected)) = []"
  by (simp add: expectedOutputForEvent_def)

lemma firstLeg_loan_events:
  "firstLeg env params s c t = Inr (x, evs) \<Longrightarrow> completedLoanProfits evs = []"
  by (auto simp: firstLeg_def Let_def revert_def
      split: sum.splits prod.splits if_splits dest: approveIfNeeded_loan_events
      dest!: arg_cong [where f = "\<lambda>p. completedLoanProfits (snd p)"])

lemma secondLeg_loan_events:
  "secondLeg env params c r = Inr (x, evs) \<Longrightarrow> completedLoanProfits evs = []"
  by (auto simp: secondLeg_def Let_def revert_def
      split: sum.splits prod.splits if_splits dest: approveIfNeeded_loan_events
      dest!: arg_cong [where f = "\<lambda>p. completedLoanProfits (snd p)"])

lemma swapLegs_loan_events:
  "swapLegs env params s c = Inr (x, evs) \<Longrightarrow> completedLoanProfits evs = []"
  by (auto simp: swapLegs_def Let_def revert_def split: sum.splits prod.splits if_splits
      dest: firstLeg_loan_events secondLeg_loan_events)

lemma firstLeg_frame:
  "firstLeg env params s c t = Inr ((s', c', received), evs) \<Longrightarrow>
     \<exists>tc. s' = s\<lparr>tradeContexts := tc\<rparr>"
  by (auto simp: firstLeg_def Let_def revert_def split: sum.splits prod.splits if_splits)

lemma swapLegs_frame:
  assumes "swapLegs env params s c = Inr ((s', c', i, f, shown), evs)"
  shows "\<exists>tc. s' = s\<lparr>executedTrades := (executedTrades s)(p_executionId params := True),
                     tradeContexts := tc\<rparr>"
  using assms
  by (auto simp: swapLegs_def Let_def revert_def split: sum.splits prod.splits if_splits
      dest!: firstLeg_frame)

lemma accounted_trans:
  "accounted s evs1 s1 \<Longrightarrow> accounted s1 evs2 s2 \<Longrightarrow> accounted s (evs1 @ evs2) s2"
  by (simp add: accounted_def)

lemma marksKept_trans: "marksKept s s1 \<Longrightarrow> marksKept s1 s2 \<Longrightarrow> marksKept s s2"
  by (simp add: marksKept_def)

lemma guardKept_trans: "guardKept s s1 \<Longrightarrow> guardKept s1 s2 \<Longrightarrow> guardKept s s2"
  by (simp add: guardKept_def)

lemma kept_refl [simp]: "accounted s [] s" "marksKept s s" "guardKept s s"
  by (simp_all add: accounted_def marksKept_def guardKept_def)

lemma settleTrade_frame:
  assumes "settleTrade params s i f shown = Inr ((profit, s'), evs)"
  shows "\<exists>tc m. s' = s\<lparr>tradeContexts := tc, metrics := m\<rparr>
           \<and> flashLoanFailed m = flashLoanFailed (metrics s)
           \<and> flashLoanExecutions m = flashLoanExecutions (metrics s)"
    and "completedLoanProfits evs = []"
proof -
  let ?eid = "p_executionId params"
  obtain tp evsP where tp: "calcTradeProfit ?eid i f = (tp, evsP)"
    by (cases "calcTradeProfit ?eid i f")
  have evsP: "completedLoanProfits evsP = []"
    using calcTradeProfit_loan_events [of ?eid i f] tp by simp
  obtain tfb evsF where
    tfb: "calcTradeFinalBalance ?eid (safeToInt256 (p_amount params)) tp = Inr (tfb, evsF)"
    using calcTradeFinalBalance_total [of ?eid "safeToInt256 (p_amount params)" tp] by auto
  obtain ep evsE where
    ep: "calcExpectedProfit ?eid (p_expectedSecondOutput params) (safeToInt256 (p_amount params))
          = Inr (ep, evsE)"
    using calcExpectedProfit_total [OF sint_safeToInt256_nonneg, of ?eid] by fastforce
  note evsF = calcTradeFinalBalance_loan_events [OF tfb]
  note evsE = calcExpectedProfit_loan_events [OF ep]
  let ?s1 = "s\<lparr>tradeContexts := (tradeContexts s)(?eid := (tradeContexts s ?eid)
     \<lparr>tc_tradeFinalBalance := tfb, tc_actualSecondOutput := tp, tc_executed := True\<rparr>)\<rparr>"
  obtain m1 evsV where pv: "profitValidation ?eid (p_testMode params) tp (metrics s) = Inr (m1, evsV)"
    using assms tp tfb ep
    by (cases "profitValidation ?eid (p_testMode params) tp (metrics s)")
      (auto simp: settleTrade_def Let_def revert_def split: if_splits)
  note facts = profitValidation_loan_counters [OF pv] profitValidation_loan_events [OF pv]
  obtain n where n: "checked_add (totalExecutions m1) 1 = Inr n"
    using assms tp tfb ep pv
    by (cases "checked_add (totalExecutions m1) 1")
      (auto simp: settleTrade_def Let_def revert_def split: if_splits)
  have res: "s' = ?s1\<lparr>metrics := m1\<lparr>totalExecutions := n\<rparr>\<rparr>
      \<and> completedLoanProfits evs = []"
    using assms tp tfb ep pv n evsP evsF evsE facts(3)
    by (auto simp: settleTrade_def Let_def split: if_splits)
  show "\<exists>tc m. s' = s\<lparr>tradeContexts := tc, metrics := m\<rparr>
           \<and> flashLoanFailed m = flashLoanFailed (metrics s)
           \<and> flashLoanExecutions m = flashLoanExecutions (metrics s)"
    using res facts(1,2)
    by (intro exI [where x = "tradeContexts ?s1"] exI [where x = "m1\<lparr>totalExecutions := n\<rparr>"])
      simp
  show "completedLoanProfits evs = []"
    using res by simp
qed

lemma executeArbitrageInternal_effects:
  assumes "executeArbitrageInternal env params s c = Inr ((profit, s', c'), evs)"
  shows "accounted s evs s'" and "marksKept s s'" and "guardKept s s'"
    and "executedTrades s' (p_executionId params)"
    and "arbitrageProfits evs = [profit]" and "completedLoanProfits evs = []"
proof -
  obtain s2 c2 i f sh evsL evsS where
    legs: "swapLegs env params s c = Inr ((s2, c2, i, f, sh), evsL)" and
    settle: "settleTrade params s2 i f sh = Inr ((profit, s'), evsS)" and
    evs: "evs = evsL @ evsS"
    using assms by (auto simp: executeArbitrageInternal_def split: sum.splits prod.splits)
  obtain tc where s2: "s2 = s\<lparr>executedTrades := (executedTrades s)(p_executionId params := True),
      tradeContexts := tc\<rparr>"
    using swapLegs_frame [OF legs] by blast
  obtain tc' m where s': "s' = s2\<lparr>tradeContexts := tc', metrics := m\<rparr>"
    and m: "flashLoanFailed m = flashLoanFailed (metrics s2)"
      "flashLoanExecutions m = flashLoanExecutions (metrics s2)"
    using settleTrade_frame(1) [OF settle] by blast
  show trade: "arbitrageProfits evs = [profit]"
    using settleTrade_Inr(3) [OF settle] swapLegs_events(2) [OF legs] evs by simp
  show loan: "completedLoanProfits evs = []"
    using settleTrade_frame(2) [OF settle] swapLegs_loan_events [OF legs] evs by simp
  show "accounted s evs s'"
    using settleTrade_Inr(4,5) [OF settle] s2 trade loan
    by (simp add: accounted_def tradeGains_def loanGains_def positivePart_def)
  show "marksKept s s'"
    using s2 s' by (simp add: marksKept_def)
  show "guardKept s s'"
    using s2 s' m by (simp add: guardKept_def)
  show "executedTrades s' (p_executionId params)"
    using s2 s' by simp
qed

lemma arbitrageFailureLog_quiet [simp]:
  "arbitrageProfits [arbitrageFailureLog env eid e] = []"
  "completedLoanProfits [arbitrageFailureLog env eid e] = []"
  by (cases e; simp add: arbitrageFailureLog_def)+

lemma flashLoanFailureLog_quiet [simp]:
  "arbitrageProfits [flashLoanFailureLog env eid e] = []"
  "completedLoanProfits [flashLoanFailureLog env eid e] = []"
  by (cases e; simp add: flashLoanFailureLog_def)+

lemma tryArbitrage_effects:
  assumes "tryArbitrage env params s c = (ok, profit, s1, c1, evs)"
  shows "accounted s evs s1" and "marksKept s s1" and "guardKept s s1"
    and "completedLoanProfits evs = []" and "\<not> ok \<longrightarrow> profit = 0"
    and "ok \<longrightarrow> executedTrades s1 (p_executionId params)"
proof -
  have all: "accounted s evs s1 \<and> marksKept s s1 \<and> guardKept s s1
      \<and> completedLoanProfits evs = [] \<and> (\<not> ok \<longrightarrow> profit = 0)
      \<and> (ok \<longrightarrow> executedTrades s1 (p_executionId params))"
  proof (cases "executeArbitrageWrapper env (self env) params s c")
    case (Inl err)
    then have res: "ok = False \<and> profit = 0
        \<and> evs = [arbitrageFailureLog env (p_executionId params) (fst err)]
        \<and> s1 = s\<lparr>tradeContexts := (tradeContexts s)(p_executionId params :=
                  (tradeContexts s (p_executionId params))\<lparr>tc_executed := False\<rparr>)\<rparr>"
      using assms by (cases err) (auto simp: tryArbitrage_def)
    then show ?thesis
      by (simp add: accounted_def marksKept_def guardKept_def tradeGains_def loanGains_def)
  next
    case (Inr r)
    then obtain evsE where
      run: "executeArbitrageInternal env params s c = Inr ((profit, s1, c1), evsE)" and
      res: "ok = True
        \<and> evs = evsE @ [StateLog (p_executionId params) ''ArbitrageExecution'' ''Success'']"
      using assms
      by (cases r) (auto simp: tryArbitrage_def executeArbitrageWrapper_def revert_def
          split: if_splits)
    note e = executeArbitrageInternal_effects [OF run]
    have "accounted s evs s1"
      using e(1) res by (simp add: accounted_def tradeGains_def loanGains_def)
    with e res show ?thesis
      by simp
  qed
  from all show "accounted s evs s1" "marksKept s s1" "guardKept s s1"
    "completedLoanProfits evs = []" "\<not> ok \<longrightarrow> profit = 0"
    "ok \<longrightarrow> executedTrades s1 (p_executionId params)"
    by simp_all
qed

lemma recordFlashLoanProfit_effects:
  assumes "recordFlashLoanProfit eid ok profit m = Inr (m2, evs)"
  shows "unat (flashLoanProfit m2) = unat (flashLoanProfit m) + (if ok then positivePart profit else 0)"
    and "totalProfit m2 = totalProfit m"
    and "flashLoanFailed m2 = flashLoanFailed m" and "flashLoanExecutions m2 = flashLoanExecutions m"
    and "arbitrageProfits evs = []" and "completedLoanProfits evs = []"
  using assms
  by (auto simp: recordFlashLoanProfit_def revert_def positivePart_def slt_def sint_pos_unat
      split: if_splits sum.splits dest!: checked_add_Inr)

lemma repayLoan_events:
  assumes "repayLoan env s context eid amount c = Inr (c', evs)"
  shows "arbitrageProfits evs = []" and "completedLoanProfits evs = []"
  using assms
  by (auto simp: repayLoan_def Let_def revert_def
      split: if_splits sum.splits prod.splits bool.splits)

lemma receiveFlashLoan_shape:
  assumes "receiveFlashLoan env sender amounts feeAmounts userData s c = Inr ((s', c'), evs)"
  shows "\<exists>executionId ok profit s1 c1 evsA m2 evsM evsR info.
      abi_decode_bytes32 userData = Some executionId
      \<and> tryArbitrage env (paramsOfContext (flashLoanContexts s executionId) executionId) s c
          = (ok, profit, s1, c1, evsA)
      \<and> recordFlashLoanProfit executionId ok profit (metrics s1) = Inr (m2, evsM)
      \<and> repayLoan env s1 (flashLoanContexts s executionId) executionId
            (hd amounts + hd feeAmounts) c1 = Inr (c', evsR)
      \<and> s' = s1\<lparr>metrics := m2, flashLoanContexts := (flashLoanContexts s1)
                   (executionId := zero_FlashLoanContext)\<rparr>
      \<and> evs = [StateLog executionId ''FlashLoanCallback'' (fst info)] @ evsA @ evsM
              @ [StateLog executionId ''RepaymentInfo'' (snd info)] @ evsR
              @ [FlashLoanEvent executionId 2
                   (ctx_sourceToken (flashLoanContexts s executionId))
                   (ctx_amount (flashLoanContexts s executionId)) profit]"
proof -
  from assms obtain executionId where
    decode: "abi_decode_bytes32 userData = Some executionId"
    by (auto simp: receiveFlashLoan_def revert_def split: if_splits option.splits)
  let ?ctx = "flashLoanContexts s executionId"
  obtain ok profit s1 c1 evsA where
    attempt: "tryArbitrage env (paramsOfContext ?ctx executionId) s c = (ok, profit, s1, c1, evsA)"
    by (cases "tryArbitrage env (paramsOfContext ?ctx executionId) s c") auto
  from assms decode attempt obtain m2 evsM where
    rec: "recordFlashLoanProfit executionId ok profit (metrics s1) = Inr (m2, evsM)"
    by (cases "recordFlashLoanProfit executionId ok profit (metrics s1)")
      (auto simp: receiveFlashLoan_def revert_def Let_def split: if_splits)
  from assms decode attempt rec obtain borrowed fee repay where
    amt: "repayAmountOf amounts feeAmounts = Inr (borrowed, fee, repay)"
    by (cases "repayAmountOf amounts feeAmounts")
      (auto simp: receiveFlashLoan_def revert_def Let_def split: if_splits)
  then have repay: "repay = hd amounts + hd feeAmounts"
    by (auto simp: repayAmountOf_def checked_add_def split: list.splits if_splits)
  from assms decode attempt rec amt obtain evsR where
    rp: "repayLoan env s1 ?ctx executionId repay c1 = Inr (c', evsR)"
    by (cases "repayLoan env s1 ?ctx executionId repay c1")
      (auto simp: receiveFlashLoan_def revert_def Let_def split: if_splits)
  from assms decode attempt rec amt rp have
    "s' = s1\<lparr>metrics := m2, flashLoanContexts := (flashLoanContexts s1)
                   (executionId := zero_FlashLoanContext)\<rparr>
     \<and> (\<exists>info. evs = [StateLog executionId ''FlashLoanCallback'' (fst info)] @ evsA @ evsM
              @ [StateLog executionId ''RepaymentInfo'' (snd info)] @ evsR
              @ [FlashLoanEvent executionId 2 (ctx_sourceToken ?ctx) (ctx_amount ?ctx) profit])"
    by (auto simp: receiveFlashLoan_def revert_def Let_def split: if_splits)
  with decode attempt rec rp repay show ?thesis
    by blast
qed

lemma receiveFlashLoan_effects:
  assumes "receiveFlashLoan env sender amounts feeAmounts userData s c = Inr ((s', c'), evs)"
  shows "accounted s evs s'" and "marksKept s s'" and "guardKept s s'"
proof -
  obtain executionId ok profit s1 c1 evsA m2 evsM evsR info where
    attempt: "tryArbitrage env (paramsOfContext (flashLoanContexts s executionId) executionId) s c
          = (ok, profit, s1, c1, evsA)" and
    rec: "recordFlashLoanProfit executionId ok profit (metrics s1) = Inr (m2, evsM)" and
    rp: "repayLoan env s1 (flashLoanContexts s executionId) executionId
            (hd amounts + hd feeAmounts) c1 = Inr (c', evsR)" and
    s': "s' = s1\<lparr>metrics := m2, flashLoanContexts := (flashLoanContexts s1)
                   (executionId := zero_FlashLoanContext)\<rparr>" and
    evs: "evs = [StateLog executionId ''FlashLoanCallback'' (fst info)] @ evsA @ evsM
              @ [StateLog executionId ''RepaymentInfo'' (snd info)] @ evsR
              @ [FlashLoanEvent executionId 2
                   (ctx_sourceToken (flashLoanContexts s executionId))
                   (ctx_amount (flashLoanContexts s executionId)) profit]"
    using receiveFlashLoan_shape [OF assms] by blast
  note t = tryArbitrage_effects [OF attempt]
  note r = recordFlashLoanProfit_effects [OF rec]
  note p = repayLoan_events [OF rp]
  have gain: "(if ok then positivePart profit else 0) = positivePart profit"
    using t(5) by auto
  show "accounted s evs s'"
    using t(1,4) r(1,2,5,6) p gain s' evs
    by (simp add: accounted_def tradeGains_def loanGains_def)
  show "marksKept s s'"
    using t(2) s' by (simp add: marksKept_def)
  show "guardKept s s'"
    using t(3) r(3,4) s' by (simp add: guardKept_def)
qed

lemma receiveFlashLoan_after_engine:
  assumes "abi_decode_bytes32 userData = Some executionId"
    and "tryArbitrage env (paramsOfContext (flashLoanContexts s executionId) executionId) s c
          = (ok, profit, s1, c1, evsA)"
    and "receiveFlashLoan env sender amounts feeAmounts userData s c = Inr ((s', c'), evs)"
  shows "executedTrades s' = executedTrades s1"
  using receiveFlashLoan_shape [OF assms(3)] assms(1,2) by auto

lemma admin_step_effects:
  assumes "admin_step sender call s = Inr (s', evs)"
  shows "metrics s' = metrics s" and "executedTrades s' = executedTrades s"
    and "entered s' = entered s" and "balancerVault s' = balancerVault s"
    and "arbitrageProfits evs = []" and "completedLoanProfits evs = []"
  using assms
  by (cases call;
      auto simp: configureDex_def configurePool_def configureToken_def
        setTokenEnabled_def setDexEnabled_def setRouterAddresses_def pause_def unpause_def
        triggerCircuitBreaker_def revert_def Let_def split: sum.splits if_splits)+

lemma quiet_call:
  assumes "metrics s' = metrics s" and "executedTrades s' = executedTrades s"
    and "entered s' = entered s" and "balancerVault s' = balancerVault s"
    and "arbitrageProfits evs = []" and "completedLoanProfits evs = []"
  shows "accounted s evs s' \<and> marksKept s s' \<and> guardKept s s'"
  using assms by (simp add: accounted_def marksKept_def guardKept_def tradeGains_def loanGains_def)

lemma withdrawal_events:
  "emergencyWithdraw env sender token s c = Inr (r, evs) \<Longrightarrow> evs = []"
  "withdrawFunds env sender token amount s c = Inr (r, evs) \<Longrightarrow> evs = []"
  by (auto simp: emergencyWithdraw_def withdrawFunds_def revert_def Let_def
      split: if_splits sum.splits)

lemma approveRouter_events:
  assumes "approveRouter env sender token router amount s c = Inr (c', evs)"
  shows "arbitrageProfits evs = []" and "completedLoanProfits evs = []"
  using assms safeApprove_events(2) safeApprove_loan_events
  by (auto simp: approveRouter_def revert_def split: if_splits)

lemma ownership_effects:
  assumes "transferOwnership sender newOwner s = Inr (s', evs)
      \<or> renounceOwnership sender s = Inr (s', evs)"
  shows "metrics s' = metrics s" and "executedTrades s' = executedTrades s"
    and "entered s' = entered s" and "balancerVault s' = balancerVault s"
    and "arbitrageProfits evs = []" and "completedLoanProfits evs = []"
  using assms
  by (auto simp: transferOwnership_def renounceOwnership_def revert_def split: if_splits)

lemma invoke_effects:
  assumes "invoke env sender call s c = Inr ((s', c'), evs)"
  shows "accounted s evs s' \<and> marksKept s s' \<and> guardKept s s'"
proof (cases call)
  case (AdminCall a)
  then obtain r where "admin_step sender a s = Inr (s', evs)"
    using assms by (auto simp: storageOnly_def split: sum.splits)
  from quiet_call [OF admin_step_effects [OF this]] show ?thesis .
next
  case (ApproveRouter token router amount)
  then have "approveRouter env sender token router amount s c = Inr (c', evs) \<and> s' = s"
    using assms by (auto split: sum.splits)
  then show ?thesis
    using approveRouter_events by (intro quiet_call) auto
next
  case (EmergencyWithdraw token)
  then have "s' = s \<and> evs = []"
    using assms by (auto simp: chainOnly_def split: sum.splits dest: withdrawal_events)
  then show ?thesis
    by simp
next
  case (WithdrawFunds token amount)
  then have "s' = s \<and> evs = []"
    using assms by (auto simp: chainOnly_def split: sum.splits dest: withdrawal_events)
  then show ?thesis
    by simp
next
  case (TransferOwnership newOwner)
  then have "transferOwnership sender newOwner s = Inr (s', evs)"
    using assms by (auto simp: storageOnly_def split: sum.splits)
  then have "transferOwnership sender newOwner s = Inr (s', evs)
      \<or> renounceOwnership sender s = Inr (s', evs)"
    by simp
  from quiet_call [OF ownership_effects [OF this]] show ?thesis .
next
  case RenounceOwnership
  then have "renounceOwnership sender s = Inr (s', evs)"
    using assms by (auto simp: storageOnly_def split: sum.splits)
  then have "transferOwnership sender 0 s = Inr (s', evs)
      \<or> renounceOwnership sender s = Inr (s', evs)"
    by simp
  from quiet_call [OF ownership_effects [OF this]] show ?thesis .
next
  case (ReceiveFlashLoan tokens amounts feeAmounts userData)
  then have "receiveFlashLoan env sender amounts feeAmounts userData s c = Inr ((s', c'), evs)"
    using assms by simp
  from receiveFlashLoan_effects [OF this] show ?thesis
    by simp
next
  case (ExecuteArbitrageWrapper params)
  then obtain profit where
    "executeArbitrageInternal env params s c = Inr ((profit, s', c'), evs)"
    using assms
    by (auto simp: executeArbitrageWrapper_def revert_def split: sum.splits if_splits)
  from executeArbitrageInternal_effects(1-3) [OF this] show ?thesis
    by simp
next
  case (UnknownFunction calldata)
  then show ?thesis
    using assms by (simp add: revert_def)
qed

lemma runLender_effects:
  "runLender env moves s c = (s', c', evs)
    \<Longrightarrow> accounted s evs s' \<and> marksKept s s' \<and> guardKept s s'"
proof (induction moves arbitrary: s c s' c' evs)
  case Nil
  then show ?case
    by simp
next
  case (Cons move moves)
  show ?case
  proof (cases move)
    case (MovesTokens f)
    with Cons.prems have "runLender env moves s (f c) = (s', c', evs)"
      by simp
    from Cons.IH [OF this] show ?thesis .
  next
    case (CallsBack sender call)
    show ?thesis
    proof (cases "invoke env sender call s c")
      case (Inl err)
      with CallsBack Cons.prems have "runLender env moves s c = (s', c', evs)"
        by simp
      from Cons.IH [OF this] show ?thesis .
    next
      case (Inr r)
      obtain s1 c1 evs1 where r: "r = ((s1, c1), evs1)"
        by (cases r) auto
      obtain s2 c2 evs2 where rest: "runLender env moves s1 c1 = (s2, c2, evs2)"
        by (cases "runLender env moves s1 c1") auto
      from Inr r rest CallsBack Cons.prems have res: "s' = s2 \<and> evs = evs1 @ evs2"
        by simp
      have first: "accounted s evs1 s1 \<and> marksKept s s1 \<and> guardKept s s1"
        using invoke_effects Inr r by blast
      from Cons.IH [OF rest] first res show ?thesis
        by (auto intro: accounted_trans marksKept_trans guardKept_trans)
    qed
  qed
qed

lemma lenderCall_effects:
  assumes "lenderCall env sender args s c = LoanCompleted s2 c2 evsLoan"
  shows "accounted s evsLoan s2" and "marksKept s s2"
    and "balancerVault s2 = balancerVault s"
    and "flashLoanFailed (metrics s2) = flashLoanFailed (metrics s)"
    and "flashLoanExecutions (metrics s2) = flashLoanExecutions (metrics s)"
proof -
  let ?s0 = "openFlashLoan env sender args s"
  from assms obtain moves where "runLender env moves ?s0 c = (s2, c2, evsLoan)"
    by (auto simp: lenderCall_def split: lender_behaviour.splits prod.splits)
  from runLender_effects [OF this]
  have e: "accounted ?s0 evsLoan s2" "marksKept ?s0 s2" "guardKept ?s0 s2"
    by simp_all
  show "accounted s evsLoan s2"
    using e(1) by (simp add: accounted_def openFlashLoan_def)
  show "marksKept s s2"
    using e(2) by (simp add: marksKept_def openFlashLoan_def)
  show "balancerVault s2 = balancerVault s"
    "flashLoanFailed (metrics s2) = flashLoanFailed (metrics s)"
    "flashLoanExecutions (metrics s2) = flashLoanExecutions (metrics s)"
    using e(3) by (simp_all add: guardKept_def openFlashLoan_def)
qed

lemma flashLoanSucceeded_branch_effects:
  assumes "flashLoanSucceeded_branch env eid token pre s c = Inr ((balance, s', c'), evs)"
  shows "\<exists>m. s' = s\<lparr>metrics := m\<rparr> \<and> totalProfit m = totalProfit (metrics s)
           \<and> flashLoanProfit m = flashLoanProfit (metrics s)
           \<and> flashLoanFailed m = flashLoanFailed (metrics s)
           \<and> unat (flashLoanExecutions m) = unat (flashLoanExecutions (metrics s)) + 1"
    and "arbitrageProfits evs = []" and "completedLoanProfits evs = []"
  using assms
  by (auto simp: flashLoanSucceeded_branch_def revert_def Let_def
      split: sum.splits dest!: checked_add_Inr)

lemma flashLoanFailed_branch_effects:
  assumes "flashLoanFailed_branch env eid token e s c = Inr ((balance, s', c'), evs)"
  shows "\<exists>m fc. s' = s\<lparr>metrics := m, flashLoanContexts := fc\<rparr>
           \<and> totalProfit m = totalProfit (metrics s)
           \<and> flashLoanProfit m = flashLoanProfit (metrics s)
           \<and> unat (flashLoanFailed m) = unat (flashLoanFailed (metrics s)) + 1
           \<and> unat (flashLoanExecutions m) = unat (flashLoanExecutions (metrics s)) + 1"
    and "arbitrageProfits evs = []" and "completedLoanProfits evs = []"
  using assms
  by (auto simp: flashLoanFailed_branch_def revert_def Let_def
      split: sum.splits dest!: checked_add_Inr)

lemma executeFlashLoanArbitrage_cases:
  assumes "executeFlashLoanArbitrage env sender args s c = Inr ((balance, s', c'), evs)"
  shows "\<not> entered s \<and> (\<exists>evsStart s3 evsEnd.
      arbitrageProfits evsStart = [] \<and> completedLoanProfits evsStart = []
      \<and> s' = s3\<lparr>entered := False\<rparr>
      \<and> ((\<exists>s2 c2 evsLoan. lenderCall env sender args s c = LoanCompleted s2 c2 evsLoan
             \<and> flashLoanSucceeded_branch env (deriveExecutionId env sender args)
                  (a_sourceToken args) (balances c (a_sourceToken args) (self env)) s2 c2
                = Inr ((balance, s3, c'), evsEnd)
             \<and> evs = evsStart @ evsLoan @ evsEnd)
          \<or> (\<exists>e. lenderCall env sender args s c = LoanFailed e
             \<and> flashLoanFailed_branch env (deriveExecutionId env sender args)
                  (a_sourceToken args) e (openFlashLoan env sender args s) c
                = Inr ((balance, s3, c'), evsEnd)
             \<and> evs = evsStart @ evsEnd)))"
  using assms
  by (cases "lenderCall env sender args s c")
    (auto simp: executeFlashLoanArbitrage_def prefix_events_def revert_def Let_def
      split: if_splits sum.splits prod.splits)

lemma executeFlashLoanArbitrage_effects:
  assumes "executeFlashLoanArbitrage env sender args s c = Inr ((balance, s', c'), evs)"
  shows "accounted s evs s'" and "marksKept s s'"
    and "\<not> entered s'" and "balancerVault s' = balancerVault s"
    and "unat (flashLoanFailed (metrics s')) \<le> unat (flashLoanFailed (metrics s)) + 1"
    and "unat (flashLoanExecutions (metrics s')) \<le> unat (flashLoanExecutions (metrics s)) + 1"
proof -
  obtain evsStart s3 evsEnd where
    start: "arbitrageProfits evsStart = []" "completedLoanProfits evsStart = []" and
    s': "s' = s3\<lparr>entered := False\<rparr>" and
    branch: "(\<exists>s2 c2 evsLoan. lenderCall env sender args s c = LoanCompleted s2 c2 evsLoan
             \<and> flashLoanSucceeded_branch env (deriveExecutionId env sender args)
                  (a_sourceToken args) (balances c (a_sourceToken args) (self env)) s2 c2
                = Inr ((balance, s3, c'), evsEnd)
             \<and> evs = evsStart @ evsLoan @ evsEnd)
          \<or> (\<exists>e. lenderCall env sender args s c = LoanFailed e
             \<and> flashLoanFailed_branch env (deriveExecutionId env sender args)
                  (a_sourceToken args) e (openFlashLoan env sender args s) c
                = Inr ((balance, s3, c'), evsEnd)
             \<and> evs = evsStart @ evsEnd)"
    using executeFlashLoanArbitrage_cases [OF assms] by blast
  have all: "accounted s evs s' \<and> marksKept s s' \<and> \<not> entered s'
      \<and> balancerVault s' = balancerVault s
      \<and> unat (flashLoanFailed (metrics s')) \<le> unat (flashLoanFailed (metrics s)) + 1
      \<and> unat (flashLoanExecutions (metrics s')) \<le> unat (flashLoanExecutions (metrics s)) + 1"
    using branch
  proof (elim disjE exE conjE)
    fix s2 c2 evsLoan
    assume loan: "lenderCall env sender args s c = LoanCompleted s2 c2 evsLoan"
      and fin: "flashLoanSucceeded_branch env (deriveExecutionId env sender args)
                  (a_sourceToken args) (balances c (a_sourceToken args) (self env)) s2 c2
                = Inr ((balance, s3, c'), evsEnd)"
      and evs: "evs = evsStart @ evsLoan @ evsEnd"
    note l = lenderCall_effects [OF loan]
    note f = flashLoanSucceeded_branch_effects [OF fin]
    from f(1) obtain m where m: "s3 = s2\<lparr>metrics := m\<rparr>"
      "totalProfit m = totalProfit (metrics s2)" "flashLoanProfit m = flashLoanProfit (metrics s2)"
      "flashLoanFailed m = flashLoanFailed (metrics s2)"
      "unat (flashLoanExecutions m) = unat (flashLoanExecutions (metrics s2)) + 1"
      by blast
    show ?thesis
      using l f(2,3) m s' evs start
      by (simp add: accounted_def marksKept_def tradeGains_def loanGains_def)
  next
    fix e
    assume fin: "flashLoanFailed_branch env (deriveExecutionId env sender args)
                  (a_sourceToken args) e (openFlashLoan env sender args s) c
                = Inr ((balance, s3, c'), evsEnd)"
      and evs: "evs = evsStart @ evsEnd"
    note f = flashLoanFailed_branch_effects [OF fin]
    from f(1) obtain m fc where m:
      "s3 = (openFlashLoan env sender args s)\<lparr>metrics := m, flashLoanContexts := fc\<rparr>"
      "totalProfit m = totalProfit (metrics (openFlashLoan env sender args s))"
      "flashLoanProfit m = flashLoanProfit (metrics (openFlashLoan env sender args s))"
      "unat (flashLoanFailed m) = unat (flashLoanFailed (metrics (openFlashLoan env sender args s))) + 1"
      "unat (flashLoanExecutions m)
        = unat (flashLoanExecutions (metrics (openFlashLoan env sender args s))) + 1"
      by blast
    show ?thesis
      using f(2,3) m s' evs start
      by (simp add: accounted_def marksKept_def tradeGains_def loanGains_def openFlashLoan_def)
  qed
  from all show "accounted s evs s'" "marksKept s s'" "\<not> entered s'"
    "balancerVault s' = balancerVault s"
    "unat (flashLoanFailed (metrics s')) \<le> unat (flashLoanFailed (metrics s)) + 1"
    "unat (flashLoanExecutions (metrics s')) \<le> unat (flashLoanExecutions (metrics s)) + 1"
    by simp_all
qed

lemma executeFlashLoanArbitrage_after_lender:
  assumes "lenderCall env sender args s c = LoanCompleted s1 c1 evsLoan"
    and "executeFlashLoanArbitrage env sender args s c = Inr ((balance, s', c'), evs)"
  shows "executedTrades s' = executedTrades s1"
  using executeFlashLoanArbitrage_cases [OF assms(2)] assms(1)
  by (auto dest!: flashLoanSucceeded_branch_effects(1))

lemma perform_effects:
  assumes "perform env sender operation s c = Inr ((s', c'), evs)"
  shows "accounted s evs s'" and "marksKept s s'"
    and "balancerVault s' = balancerVault s"
    and "\<not> entered s \<longrightarrow> \<not> entered s'"
    and "unat (flashLoanFailed (metrics s')) \<le> unat (flashLoanFailed (metrics s)) + 1"
    and "unat (flashLoanExecutions (metrics s')) \<le> unat (flashLoanExecutions (metrics s)) + 1"
proof -
  have "accounted s evs s' \<and> marksKept s s' \<and> balancerVault s' = balancerVault s
      \<and> (\<not> entered s \<longrightarrow> \<not> entered s')
      \<and> unat (flashLoanFailed (metrics s')) \<le> unat (flashLoanFailed (metrics s)) + 1
      \<and> unat (flashLoanExecutions (metrics s')) \<le> unat (flashLoanExecutions (metrics s)) + 1"
  proof (cases operation)
    case (Plain call)
    then have "invoke env sender call s c = Inr ((s', c'), evs)"
      using assms by simp
    from invoke_effects [OF this] show ?thesis
      by (simp add: guardKept_def)
  next
    case (ExecuteFlashLoanArbitrage args)
    then obtain balance where
      "executeFlashLoanArbitrage env sender args s c = Inr ((balance, s', c'), evs)"
      using assms by (auto split: sum.splits)
    from executeFlashLoanArbitrage_effects [OF this] show ?thesis
      by simp
  qed
  then show "accounted s evs s'" "marksKept s s'" "balancerVault s' = balancerVault s"
    "\<not> entered s \<longrightarrow> \<not> entered s'"
    "unat (flashLoanFailed (metrics s')) \<le> unat (flashLoanFailed (metrics s)) + 1"
    "unat (flashLoanExecutions (metrics s')) \<le> unat (flashLoanExecutions (metrics s)) + 1"
    by simp_all
qed

lemma reached_invariant:
  "reached k s \<Longrightarrow>
     \<not> entered s \<and> balancerVault s \<noteq> 0
     \<and> unat (flashLoanFailed (metrics s)) \<le> k \<and> unat (flashLoanExecutions (metrics s)) \<le> k"
proof (induction rule: reached.induct)
  case (deployment deployer vaultAddress s)
  then show ?case
    by (auto simp: constructor_def revert_def initial_storage_def zero_Metrics_def
        split: if_splits)
next
  case (transaction k s env sender operation c s' c' evs)
  from perform_effects(3-6) [OF transaction.hyps(2)] transaction.IH show ?case
    by simp
qed

lemma later_marks: "later s s' \<Longrightarrow> marksKept s s'"
proof (induction rule: later.induct)
  case (now s)
  show ?case
    by simp
next
  case (call_returned s s1 env sender operation c s2 c2 evs)
  from perform_effects(2) [OF call_returned.hyps(2)] call_returned.IH show ?case
    by (rule marksKept_trans [rotated])
next
  case (loan_opened s s1 env sender args)
  then show ?case
    by (simp add: marksKept_def openFlashLoan_def)
next
  case (callback_finished s s1 userData executionId env s0 c arbitrageSuccess profit c1
      evsArbitrage sender amounts feeAmounts s2 c2 evs)
  from receiveFlashLoan_after_engine [OF callback_finished.hyps(2,3,4)] callback_finished.IH
  show ?case
    by (simp add: marksKept_def)
next
  case (loan_finished s s1 env sender args s0 c c1 evsLoan balance s2 c2 evs)
  from executeFlashLoanArbitrage_after_lender [OF loan_finished.hyps(2,3)] loan_finished.IH
  show ?case
    by (simp add: marksKept_def)
qed

subsection \<open>A complete flash loan in the example environment\<close>

lemmas callback_defs =
  receiveFlashLoan_def abi_decode_bytes32_def word_of_be_def demo_userData_def in_flight_def
  paramsOfContext_def contextOfRequest_def tryArbitrage_def executeArbitrageWrapper_def
  recordFlashLoanProfit_def repayAmountOf_def repayLoan_def configured_def demo_request_def
  zero_FlashLoanContext_def

lemma demo_userData_encoded: "abi_encode_bytes32 (0x1D :: bytes32) = demo_userData"
  by code_simp

lemmas lending_defs =
  lending_env_def lending_chain_def lent_chain_def demo_userData_encoded

lemma opened_loan:
  "openFlashLoan lending_env OWNER (demo_request b t) configured = in_flight b t"
  by (simp add: openFlashLoan_def in_flight_def deriveExecutionId_def lending_env_def
      demo_env_def)

lemma lent_attempt:
  "\<exists>s1 c1 evsE evsA.
      executeArbitrageInternal lending_env (demo_params 150 False) (in_flight 150 False) lent_chain
        = Inr ((50, s1, c1), evsE)
      \<and> tryArbitrage lending_env
            (paramsOfContext (flashLoanContexts (in_flight 150 False) 0x1D) 0x1D)
            (in_flight 150 False) lent_chain
          = (True, 50, s1, c1, evsA)"
  by (simp add: callback_defs lending_defs demo_defs engine_defs)

lemma lent_callback_run:
  "\<exists>s2 c2 evs.
      receiveFlashLoan lending_env VAULT [1000] [0] demo_userData (in_flight 150 False) lent_chain
        = Inr ((s2, c2), evs)
      \<and> tradeGains evs = 50 \<and> loanGains evs = 50
      \<and> flashLoanExecutions (metrics s2) = 0 \<and> flashLoanSuccessful (metrics s2) = 0
      \<and> balances c2 TOKEN_S SELF = 50"
  by (simp add: callback_defs lending_defs demo_defs engine_defs tradeGains_def loanGains_def
      positivePart_def)

lemma lent_script:
  "lender_flashLoan lending_env (self lending_env) [a_sourceToken (demo_request 150 False)]
      [a_amount (demo_request 150 False)]
      (abi_encode_bytes32 (deriveExecutionId lending_env OWNER (demo_request 150 False)))
      (in_flight 150 False) lending_chain
    = VaultReturns
        [MovesTokens (\<lambda>c. credit TOKEN_S SELF 1000 (debit TOKEN_S VAULT 1000 c)),
         CallsBack VAULT (ReceiveFlashLoan [TOKEN_S] [1000] [0] demo_userData)]"
  by (simp add: lending_env_def demo_env_def demo_request_def deriveExecutionId_def
      demo_userData_encoded)

lemma lent_guards:
  "\<not> entered configured" "\<not> paused configured" "balancerVault configured \<noteq> 0"
  "a_sourceToken (demo_request b t) = TOKEN_S"
  "TOKEN_S \<noteq> a_targetToken (demo_request b t)"
  "a_amount (demo_request b t) \<noteq> 0"
  "token_isEnabled (tokenConfigs configured TOKEN_S)"
  "self lending_env = SELF" "self demo_env = SELF"
  by (simp_all add: flash_defs demo_defs lending_env_def)

lemma lent_flash_loan:
  "\<exists>s1 c1 evsE evsA s2 c2 evsLoan s3 evs3.
      executeArbitrageInternal lending_env (demo_params 150 False) (in_flight 150 False) lent_chain
        = Inr ((50, s1, c1), evsE)
      \<and> tryArbitrage lending_env
            (paramsOfContext (flashLoanContexts (in_flight 150 False) 0x1D) 0x1D)
            (in_flight 150 False) lent_chain
          = (True, 50, s1, c1, evsA)
      \<and> receiveFlashLoan lending_env VAULT [1000] [0] demo_userData (in_flight 150 False)
            lent_chain
          = Inr ((s2, c2), evsLoan)
      \<and> lenderCall lending_env OWNER (demo_request 150 False) configured lending_chain
          = LoanCompleted s2 c2 evsLoan
      \<and> executeFlashLoanArbitrage lending_env OWNER (demo_request 150 False) configured
            lending_chain
          = Inr ((50, s3, c2), evs3)
      \<and> tradeGains evs3 = 50 \<and> loanGains evs3 = 50"
proof -
  obtain s1 c1 evsE evsA where
    run: "executeArbitrageInternal lending_env (demo_params 150 False) (in_flight 150 False)
        lent_chain = Inr ((50, s1, c1), evsE)" and
    attempt: "tryArbitrage lending_env
        (paramsOfContext (flashLoanContexts (in_flight 150 False) 0x1D) 0x1D)
        (in_flight 150 False) lent_chain = (True, 50, s1, c1, evsA)"
    using lent_attempt by blast
  obtain s2 c2 evsLoan where
    callback: "receiveFlashLoan lending_env VAULT [1000] [0] demo_userData (in_flight 150 False)
        lent_chain = Inr ((s2, c2), evsLoan)" and
    gains: "tradeGains evsLoan = 50" "loanGains evsLoan = 50" and
    s2: "flashLoanExecutions (metrics s2) = 0" "flashLoanSuccessful (metrics s2) = 0"
      "balances c2 TOKEN_S SELF = 50"
    using lent_callback_run by blast
  have loan: "lenderCall lending_env OWNER (demo_request 150 False) configured lending_chain
      = LoanCompleted s2 c2 evsLoan"
    by (simp add: lenderCall_def opened_loan lent_script lent_chain_def [symmetric] callback)
  have "\<exists>s3 evs3.
      executeFlashLoanArbitrage lending_env OWNER (demo_request 150 False) configured lending_chain
        = Inr ((50, s3, c2), evs3)
      \<and> tradeGains evs3 = 50 \<and> loanGains evs3 = 50"
    using gains s2
    by (simp add: executeFlashLoanArbitrage_def flashLoanSucceeded_branch_def prefix_events_def
        checked_add_def Let_def tradeGains_def loanGains_def lent_guards loan)
  with run attempt callback loan show ?thesis
    by blast
qed

subsection \<open>Replay protection\<close>

text \<open>
  C2, as stated, fails for a first run that fails.  The routers reject the swap in the first
  run: the engine reverts with \<open>FirstSwapFailed\<close>, the revert undoes its mark in
  \<open>executedTrades\<close>, and the \<open>catch\<close> of the callback writes \<open>executed = false\<close> only.  A
  second run with the same execution id is then not stopped by the replay guard: it returns.
\<close>

theorem replay_after_failed_run:
  "reverted_with (executeArbitrageWrapper failing_env SELF (demo_params 150 False) deployed demo_chain)
     = Some (FirstSwapFailed ''Failed First Swap'')
   \<and> fst (snd (snd (tryArbitrage failing_env (demo_params 150 False) deployed demo_chain)))
     = after_failed_attempt
   \<and> reverted_with
       (executeArbitrageWrapper demo_env SELF (demo_params 150 False) after_failed_attempt demo_chain)
     = None"
  by (simp add: tryArbitrage_def executeArbitrageWrapper_def reverted_with_def
      after_failed_attempt_def demo_defs engine_defs)

text \<open>
  C2, amended.  Once a run of the engine has returned, and for as long as nothing of it is
  rolled back, every run with the same execution id reverts with \<open>InvalidExecutionId\<close> at
  once, whatever its other parameters, the chain and the environment are, and whatever has
  happened in between: the rest of the callback and of \<open>executeFlashLoanArbitrage\<close>
  around the first run, further calls made by the lender, later transactions of any kind
  (the relation \<open>later\<close>).  No function of the contract clears a mark in
  \<open>executedTrades\<close>.
\<close>

theorem replay_guard_after_success:
  assumes "executeArbitrageInternal env params s c = Inr ((profit, s1, c1), evs)"
    and "later s1 s2"
    and "p_executionId params' = p_executionId params"
  shows "executeArbitrageInternal env' params' s2 c' = Inl (InvalidExecutionId, [])"
proof -
  have "executedTrades s1 (p_executionId params)"
    using executeArbitrageInternal_effects(4) [OF assms(1)] .
  with later_marks [OF assms(2)] have "executedTrades s2 (p_executionId params)"
    by (simp add: marksKept_def)
  then show ?thesis
    using assms(3) by (simp add: executeArbitrageInternal_def swapLegs_def revert_def)
qed

theorem replay_guard_after_success_witness:
  "\<exists>s1 c1 evs s3 c3 evs3.
      executeArbitrageInternal lending_env (demo_params 150 False) (in_flight 150 False) lent_chain
        = Inr ((50, s1, c1), evs)
      \<and> executeFlashLoanArbitrage lending_env OWNER (demo_request 150 False) configured
            lending_chain
          = Inr ((50, s3, c3), evs3)
      \<and> later s1 s3
      \<and> p_executionId (demo_params 150 True) = p_executionId (demo_params 150 False)
      \<and> executeArbitrageInternal demo_env (demo_params 150 True) s3 demo_chain
          = Inl (InvalidExecutionId, [])"
proof -
  obtain s1 c1 evsE evsA s2 c2 evsLoan s3 evs3 where
    run: "executeArbitrageInternal lending_env (demo_params 150 False) (in_flight 150 False)
        lent_chain = Inr ((50, s1, c1), evsE)" and
    attempt: "tryArbitrage lending_env
        (paramsOfContext (flashLoanContexts (in_flight 150 False) 0x1D) 0x1D)
        (in_flight 150 False) lent_chain = (True, 50, s1, c1, evsA)" and
    callback: "receiveFlashLoan lending_env VAULT [1000] [0] demo_userData (in_flight 150 False)
        lent_chain = Inr ((s2, c2), evsLoan)" and
    loan: "lenderCall lending_env OWNER (demo_request 150 False) configured lending_chain
        = LoanCompleted s2 c2 evsLoan" and
    whole: "executeFlashLoanArbitrage lending_env OWNER (demo_request 150 False) configured
        lending_chain = Inr ((50, s3, c2), evs3)"
    using lent_flash_loan by blast
  have decode: "abi_decode_bytes32 demo_userData = Some 0x1D"
    by (simp add: abi_decode_bytes32_def word_of_be_def demo_userData_def)
  have "later s1 s2"
    using later.callback_finished [OF later.now decode attempt callback] .
  then have after: "later s1 s3"
    using later.loan_finished [OF _ loan whole] by blast
  have same: "p_executionId (demo_params 150 True) = p_executionId (demo_params 150 False)"
    by (simp add: demo_params_def)
  from replay_guard_after_success [OF run after same] run whole after same show ?thesis
    by blast
qed

subsection \<open>A failing lender\<close>

lemma not_entered_unchanged: "\<not> entered s \<Longrightarrow> s\<lparr>entered := False\<rparr> = s"
  by (cases s) simp

text \<open>
  C4.  The storage is any storage the contract can be in: what fewer than \<open>2 ^ 256 - 1\<close>
  transactions have made of a freshly deployed contract.  For every call of
  \<open>executeFlashLoanArbitrage\<close> on it that passes the pause guard and the validation and
  in which the lender's \<open>flashLoan\<close> fails, with a reason string, a panic or any other
  revert data: the function returns, the value returned is the contract's balance of the
  source token, \<open>metrics.flashLoanFailed\<close> and \<open>metrics.flashLoanExecutions\<close> have been
  incremented by one, the context stored under the derived execution id is deleted, and
  nothing else in the storage or on the chain has changed.
\<close>

theorem flashLoan_failure_not_fatal:
  assumes "reached k s" and "k < 2 ^ 256 - 1"
    and "\<not> paused s"
    and "a_sourceToken args \<noteq> a_targetToken args" and "a_amount args \<noteq> 0"
    and "token_isEnabled (tokenConfigs s (a_sourceToken args))"
    and "lenderCall env sender args s c = LoanFailed e"
  shows "\<exists>s' evs.
      executeFlashLoanArbitrage env sender args s c
        = Inr ((balances c (a_sourceToken args) (self env), s', c), evs)
      \<and> s' = s\<lparr>metrics := (metrics s)
                   \<lparr>flashLoanFailed := flashLoanFailed (metrics s) + 1,
                    flashLoanExecutions := flashLoanExecutions (metrics s) + 1\<rparr>,
                 flashLoanContexts := (flashLoanContexts s)
                   (deriveExecutionId env sender args := zero_FlashLoanContext)\<rparr>
      \<and> unat (flashLoanFailed (metrics s')) = unat (flashLoanFailed (metrics s)) + 1
      \<and> unat (flashLoanExecutions (metrics s')) = unat (flashLoanExecutions (metrics s)) + 1
      \<and> flashLoanContexts s' (deriveExecutionId env sender args) = zero_FlashLoanContext"
proof -
  from reached_invariant [OF assms(1)] assms(2) have
    top: "\<not> entered s" "balancerVault s \<noteq> 0" and
    failed: "unat (flashLoanFailed (metrics s)) < 2 ^ 256 - 1" and
    executions: "unat (flashLoanExecutions (metrics s)) < 2 ^ 256 - 1"
    by simp_all
  have same: "s\<lparr>entered := False\<rparr> = s"
    using top(1) by (rule not_entered_unchanged)
  have "s\<lparr>entered := False,
          flashLoanContexts := (flashLoanContexts s)
            (deriveExecutionId env sender args := zero_FlashLoanContext),
          metrics := (metrics s)
            \<lparr>flashLoanFailed := flashLoanFailed (metrics s) + 1,
             flashLoanExecutions := flashLoanExecutions (metrics s) + 1\<rparr>\<rparr>
      = (s\<lparr>entered := False\<rparr>)\<lparr>metrics := (metrics s)
                   \<lparr>flashLoanFailed := flashLoanFailed (metrics s) + 1,
                    flashLoanExecutions := flashLoanExecutions (metrics s) + 1\<rparr>,
                 flashLoanContexts := (flashLoanContexts s)
                   (deriveExecutionId env sender args := zero_FlashLoanContext)\<rparr>"
    by simp
  then show ?thesis
    using assms(3-7) top checked_add_one [OF failed] checked_add_one [OF executions]
    by (simp add: executeFlashLoanArbitrage_def flashLoanFailed_branch_def openFlashLoan_def
        prefix_events_def Let_def same)
qed

lemma configured_reached: "reached 1 configured"
proof -
  have "constructor OWNER VAULT = Inr deployed"
    by (simp add: constructor_def deployed_def VAULT_def)
  then have "reached 0 deployed"
    by (rule reached.deployment)
  moreover have "perform demo_env OWNER
      (Plain (AdminCall (ConfigureToken TOKEN_S 1000000 5 6))) deployed demo_chain
      = Inr ((configured, demo_chain), [TokenConfigured TOKEN_S 1000000 5 6])"
    by (simp add: storageOnly_def configureToken_def configured_def deployed_def
        initial_storage_def TOKEN_S_def OWNER_def)
  ultimately have "reached (Suc 0) configured"
    by (rule reached.transaction)
  then show ?thesis
    by simp
qed

theorem flashLoan_failure_not_fatal_witness:
  "reached 1 configured \<and> (1 :: nat) < 2 ^ 256 - 1 \<and> \<not> paused configured
   \<and> a_sourceToken (demo_request 150 False) \<noteq> a_targetToken (demo_request 150 False)
   \<and> a_amount (demo_request 150 False) \<noteq> 0
   \<and> token_isEnabled (tokenConfigs configured (a_sourceToken (demo_request 150 False)))
   \<and> lenderCall demo_env OWNER (demo_request 150 False) configured demo_chain
       = LoanFailed (ErrorString ''BAL#528'')
   \<and> (\<exists>s' evs.
        executeFlashLoanArbitrage demo_env OWNER (demo_request 150 False) configured demo_chain
          = Inr ((1000, s', demo_chain), evs)
        \<and> unat (flashLoanFailed (metrics s')) = 1
        \<and> unat (flashLoanExecutions (metrics s')) = 1
        \<and> flashLoanContexts s' (deriveExecutionId demo_env OWNER (demo_request 150 False))
            = zero_FlashLoanContext)"
proof -
  have h: "(1 :: nat) < 2 ^ 256 - 1" "\<not> paused configured"
    "a_sourceToken (demo_request 150 False) \<noteq> a_targetToken (demo_request 150 False)"
    "a_amount (demo_request 150 False) \<noteq> 0"
    "token_isEnabled (tokenConfigs configured (a_sourceToken (demo_request 150 False)))"
    "lenderCall demo_env OWNER (demo_request 150 False) configured demo_chain
       = LoanFailed (ErrorString ''BAL#528'')"
    by (simp_all add: flash_defs demo_defs zero_Metrics_def)
  have bal: "balances demo_chain (a_sourceToken (demo_request 150 False)) (self demo_env) = 1000"
    and zero: "flashLoanFailed (metrics configured) = 0"
      "flashLoanExecutions (metrics configured) = 0"
    by (simp_all add: flash_defs demo_defs zero_Metrics_def)
  from flashLoan_failure_not_fatal [OF configured_reached h] obtain s' evs where
    "executeFlashLoanArbitrage demo_env OWNER (demo_request 150 False) configured demo_chain
        = Inr ((balances demo_chain (a_sourceToken (demo_request 150 False)) (self demo_env),
                s', demo_chain), evs)"
    "unat (flashLoanFailed (metrics s')) = unat (flashLoanFailed (metrics configured)) + 1"
    "unat (flashLoanExecutions (metrics s')) = unat (flashLoanExecutions (metrics configured)) + 1"
    "flashLoanContexts s' (deriveExecutionId demo_env OWNER (demo_request 150 False))
        = zero_FlashLoanContext"
    by blast
  with configured_reached h bal zero show ?thesis
    by simp
qed

text \<open>
  Two situations that are not failures of the lender's call in a storage the contract can be
  in.  When the lender's address holds no code the call is never made, and the function
  reverts.  And the increments in the \<open>catch\<close> clauses are checked: in a storage with a
  failure counter at \<open>2 ^ 256 - 1\<close>, which no history of fewer than \<open>2 ^ 256 - 1\<close>
  transactions produces, the function reverts with \<open>Panic(0x11)\<close>.
\<close>

lemma vault_without_code_reverts:
  assumes "\<not> entered s" and "\<not> paused s"
    and "a_sourceToken args \<noteq> a_targetToken args" and "a_amount args \<noteq> 0"
    and "balancerVault s \<noteq> 0" and "token_isEnabled (tokenConfigs s (a_sourceToken args))"
    and "lenderCall env sender args s c = LoanNotCallable"
  shows "reverted_with (executeFlashLoanArbitrage env sender args s c) = Some (RawRevert [])"
  using assms
  by (simp add: executeFlashLoanArbitrage_def reverted_with_def revert_def Let_def)

lemma counter_at_maximum_reverts:
  "lenderCall demo_env OWNER (demo_request 150 False) worn_out demo_chain
     = LoanFailed (ErrorString ''BAL#528'')
   \<and> reverted_with
       (executeFlashLoanArbitrage demo_env OWNER (demo_request 150 False) worn_out demo_chain)
     = Some (Panic 0x11)"
  by (simp add: worn_out_def flash_defs demo_defs revert_def reverted_with_def
      prefix_events_def checked_add_def zero_Metrics_def Let_def)

subsection \<open>The cumulative profit counters\<close>

text \<open>
  C7.  The cumulative profit counters \<open>metrics.totalProfit\<close> and
  \<open>metrics.flashLoanProfit\<close> are never decremented.  Every call of an external function
  that returns (the administrative calls, the approvals and withdrawals, the changes of
  owner, the callback, the wrapper of the engine, \<open>executeFlashLoanArbitrage\<close> together
  with everything its lender did meanwhile) leaves \<open>totalProfit\<close> increased by exactly the
  sum of the positive profits of the trades announced in its events (\<open>ArbitrageExecuted\<close>),
  and \<open>flashLoanProfit\<close> by exactly the sum of the positive profits of the callbacks
  completed in its events (\<open>FlashLoanEvent\<close> of stage 2); a profit that is zero or negative
  adds nothing.  So no counter is lower after the call than before.  The same holds of what
  the lender's calls have done by the time its \<open>flashLoan\<close> returns.  The two places that
  write the counters do so from whatever storage they find: the settlement of a trade adds
  to \<open>totalProfit\<close> the positive part of the profit of that trade, which it announces in
  its one \<open>ArbitrageExecuted\<close> event, and leaves \<open>flashLoanProfit\<close> alone; the callback
  adds to \<open>flashLoanProfit\<close> the positive part of the profit of a successful run and
  nothing after a failed one, and leaves \<open>totalProfit\<close> alone.  A call that reverts
  returns no storage: it changes nothing.  The additions are checked, so a counter never
  wraps around.
\<close>

theorem profit_counters_never_decrease:
  "(perform env sender operation s c = Inr ((s', c'), evs) \<longrightarrow>
       unat (totalProfit (metrics s')) = unat (totalProfit (metrics s)) + tradeGains evs
       \<and> unat (flashLoanProfit (metrics s')) = unat (flashLoanProfit (metrics s)) + loanGains evs
       \<and> unat (totalProfit (metrics s)) \<le> unat (totalProfit (metrics s'))
       \<and> unat (flashLoanProfit (metrics s)) \<le> unat (flashLoanProfit (metrics s')))
   \<and> (lenderCall env sender args s c = LoanCompleted s2 c2 evsLoan \<longrightarrow>
       unat (totalProfit (metrics s2)) = unat (totalProfit (metrics s)) + tradeGains evsLoan
       \<and> unat (flashLoanProfit (metrics s2))
           = unat (flashLoanProfit (metrics s)) + loanGains evsLoan)
   \<and> (settleTrade params s1 initial final shown = Inr ((profit, s1'), evsTrade) \<longrightarrow>
       unat (totalProfit (metrics s1'))
         = unat (totalProfit (metrics s1)) + positivePart profit
       \<and> flashLoanProfit (metrics s1') = flashLoanProfit (metrics s1)
       \<and> arbitrageProfits evsTrade = [profit] \<and> completedLoanProfits evsTrade = [])
   \<and> (recordFlashLoanProfit executionId arbitrageSuccess reported m = Inr (m', evsRecord) \<longrightarrow>
       unat (flashLoanProfit m')
         = unat (flashLoanProfit m) + (if arbitrageSuccess then positivePart reported else 0)
       \<and> totalProfit m' = totalProfit m
       \<and> arbitrageProfits evsRecord = [] \<and> completedLoanProfits evsRecord = [])"
proof -
  have a: "unat (totalProfit (metrics s')) = unat (totalProfit (metrics s)) + tradeGains evs
       \<and> unat (flashLoanProfit (metrics s')) = unat (flashLoanProfit (metrics s)) + loanGains evs
       \<and> unat (totalProfit (metrics s)) \<le> unat (totalProfit (metrics s'))
       \<and> unat (flashLoanProfit (metrics s)) \<le> unat (flashLoanProfit (metrics s'))"
    if "perform env sender operation s c = Inr ((s', c'), evs)"
    using perform_effects(1) [OF that] by (simp add: accounted_def)
  have b: "unat (totalProfit (metrics s2)) = unat (totalProfit (metrics s)) + tradeGains evsLoan
       \<and> unat (flashLoanProfit (metrics s2))
           = unat (flashLoanProfit (metrics s)) + loanGains evsLoan"
    if "lenderCall env sender args s c = LoanCompleted s2 c2 evsLoan"
    using lenderCall_effects(1) [OF that] by (simp add: accounted_def)
  have c: "unat (totalProfit (metrics s1'))
         = unat (totalProfit (metrics s1)) + positivePart profit
       \<and> flashLoanProfit (metrics s1') = flashLoanProfit (metrics s1)
       \<and> arbitrageProfits evsTrade = [profit] \<and> completedLoanProfits evsTrade = []"
    if "settleTrade params s1 initial final shown = Inr ((profit, s1'), evsTrade)"
    using settleTrade_Inr(3,4,5) [OF that] settleTrade_frame(2) [OF that]
    by (simp add: positivePart_def)
  have d: "unat (flashLoanProfit m')
         = unat (flashLoanProfit m) + (if arbitrageSuccess then positivePart reported else 0)
       \<and> totalProfit m' = totalProfit m
       \<and> arbitrageProfits evsRecord = [] \<and> completedLoanProfits evsRecord = []"
    if "recordFlashLoanProfit executionId arbitrageSuccess reported m = Inr (m', evsRecord)"
    using recordFlashLoanProfit_effects [OF that] by simp
  from a b c d show ?thesis
    by blast
qed

lemma demo_settlement:
  "\<exists>s' evs. settleTrade (demo_params 150 False) deployed 1000 1050 1040 = Inr ((50, s'), evs)"
  by (simp add: demo_defs engine_defs)

lemma demo_records:
  "\<exists>m'. recordFlashLoanProfit 0x1D True 50 zero_Metrics = Inr (m', [])"
  by (simp add: recordFlashLoanProfit_def slt_def checked_add_def zero_Metrics_def)

theorem profit_counters_never_decrease_witness:
  "(\<exists>s' c' evs.
       perform lending_env OWNER (ExecuteFlashLoanArbitrage (demo_request 150 False)) configured
         lending_chain = Inr ((s', c'), evs)
       \<and> tradeGains evs = 50 \<and> loanGains evs = 50
       \<and> unat (totalProfit (metrics s')) = 50 \<and> unat (flashLoanProfit (metrics s')) = 50)
   \<and> (\<exists>s2 c2 evsLoan.
       lenderCall lending_env OWNER (demo_request 150 False) configured lending_chain
         = LoanCompleted s2 c2 evsLoan
       \<and> tradeGains evsLoan = 50 \<and> loanGains evsLoan = 50
       \<and> unat (totalProfit (metrics s2)) = 50 \<and> unat (flashLoanProfit (metrics s2)) = 50)
   \<and> (\<exists>s' evs.
       settleTrade (demo_params 150 False) deployed 1000 1050 1040 = Inr ((50, s'), evs)
       \<and> unat (totalProfit (metrics s')) = 50 \<and> flashLoanProfit (metrics s') = 0
       \<and> arbitrageProfits evs = [50])
   \<and> (\<exists>m'.
       recordFlashLoanProfit 0x1D True 50 zero_Metrics = Inr (m', [])
       \<and> unat (flashLoanProfit m') = 50 \<and> totalProfit m' = 0)"
proof -
  have zero: "totalProfit (metrics deployed) = 0" "flashLoanProfit (metrics deployed) = 0"
    "totalProfit (metrics configured) = 0" "flashLoanProfit (metrics configured) = 0"
    "totalProfit zero_Metrics = 0" "flashLoanProfit zero_Metrics = 0"
    by (simp_all add: configured_def deployed_def initial_storage_def zero_Metrics_def)
  have fifty: "positivePart 50 = 50"
    by (simp add: positivePart_def)
  obtain s1 c1 evsE evsA s2 c2 evsLoan s3 evs3 where
    callback: "receiveFlashLoan lending_env VAULT [1000] [0] demo_userData (in_flight 150 False)
        lent_chain = Inr ((s2, c2), evsLoan)" and
    loan: "lenderCall lending_env OWNER (demo_request 150 False) configured lending_chain
        = LoanCompleted s2 c2 evsLoan" and
    whole: "executeFlashLoanArbitrage lending_env OWNER (demo_request 150 False) configured
        lending_chain = Inr ((50, s3, c2), evs3)" and
    gains: "tradeGains evs3 = 50" "loanGains evs3 = 50"
    using lent_flash_loan by blast
  have call: "perform lending_env OWNER (ExecuteFlashLoanArbitrage (demo_request 150 False))
      configured lending_chain = Inr ((s3, c2), evs3)"
    using whole by simp
  have a: "unat (totalProfit (metrics s3)) = 50 \<and> unat (flashLoanProfit (metrics s3)) = 50"
    using profit_counters_never_decrease
      [where env = lending_env and sender = OWNER
        and operation = "ExecuteFlashLoanArbitrage (demo_request 150 False)"
        and s = configured and c = lending_chain and s' = s3 and c' = c2 and evs = evs3]
      call gains zero
    by simp
  have inner: "tradeGains evsLoan = 50 \<and> loanGains evsLoan = 50"
    using lent_callback_run callback by auto
  have b: "unat (totalProfit (metrics s2)) = 50 \<and> unat (flashLoanProfit (metrics s2)) = 50"
    using profit_counters_never_decrease
      [where env = lending_env and sender = OWNER and args = "demo_request 150 False"
        and s = configured and c = lending_chain and ?s2.0 = s2 and ?c2.0 = c2
        and evsLoan = evsLoan]
      loan inner zero
    by simp
  obtain s4 evs4 where
    settled: "settleTrade (demo_params 150 False) deployed 1000 1050 1040 = Inr ((50, s4), evs4)"
    using demo_settlement by blast
  have c: "unat (totalProfit (metrics s4)) = 50 \<and> flashLoanProfit (metrics s4) = 0
      \<and> arbitrageProfits evs4 = [50]"
    using profit_counters_never_decrease
      [where params = "demo_params 150 False" and ?s1.0 = deployed and initial = 1000
        and final = 1050 and shown = 1040 and profit = 50 and s1' = s4 and evsTrade = evs4]
      settled zero fifty
    by simp
  obtain m4 where
    recorded: "recordFlashLoanProfit 0x1D True 50 zero_Metrics = Inr (m4, [])"
    using demo_records by blast
  have d: "unat (flashLoanProfit m4) = 50 \<and> totalProfit m4 = 0"
    using profit_counters_never_decrease
      [where executionId = "0x1D" and arbitrageSuccess = True and reported = 50
        and m = zero_Metrics and m' = m4 and evsRecord = "[]"]
      recorded zero fifty
    by simp
  from call gains a loan inner b settled c recorded d show ?thesis
    by blast
qed

end
